theory Spec2Isabelle
  imports
    Complex_Main
    "HOL-Library.Multiset"
    "HOL-Library.Char_ord"
    "HOL-Library.List_Lexorder"
begin

section \<open>Shallow embedding of the presets API worker\<close>

text \<open>
  The development follows the TypeScript sources: the preset service
  (\<^verbatim>\<open>services/preset-service.ts\<close>), the rate limit service, the moderation service
  (\<^verbatim>\<open>services/moderation-service.ts\<close>), the votes handler and the presets handler.

  Conventions of the embedding.
  \<^item> JavaScript strings are \<open>string\<close> (lists of 8-bit characters); case mapping is the
    ASCII one. Text outside that range is not modelled.
  \<^item> Dye identifiers and vote counts are JavaScript numbers that hold integers; they are
    \<open>int\<close>. Numbers that are not integers, or beyond the exact range of a double, are
    not modelled.
  \<^item> A score of the Perspective API is a JavaScript number that is not an integer: an
    IEEE 754 double, here the real number it denotes. \<open>to_double\<close> rounds a real number to
    the nearest double, as \<^verbatim>\<open>JSON.parse\<close> does with the decimal text of a number and
    as every arithmetic operation does with its exact result. Infinities (the result for
    a number of \<open>2\<^sup>1\<^sup>0\<^sup>2\<^sup>4\<close> or more in absolute value), NaN and the sign of zero are not
    modelled, nor is the text of an integer beyond \<open>2\<^sup>5\<^sup>3\<close>, of which \<^verbatim>\<open>String\<close> no
    longer prints every digit; the API documents scores between 0 and 1.
  \<^item> A timestamp (\<^verbatim>\<open>Date\<close>, and the ISO-8601 text \<^verbatim>\<open>toISOString()\<close> stores in
    \<^verbatim>\<open>created_at\<close>) is the number of milliseconds since the epoch, an \<open>int\<close>; the
    textual comparison SQL makes on two such ISO strings is the comparison of the
    instants.
  \<^item> The D1 database is a record of its two tables, each a list of rows in row order;
    every function that writes returns the new database. The statements that create
    the tables are not among the sources: the model has no uniqueness or foreign key
    constraint. A lookup by \<^verbatim>\<open>id\<close> reads the first row with that identifier. The
    lookup of a duplicate is \<^verbatim>\<open>SELECT ... LIMIT 1\<close> without \<^verbatim>\<open>ORDER BY\<close> on a
    condition that several rows can satisfy: which of them the engine returns depends on
    the plan of the query and is an input of the model. A read does not fail; whether a
    write transaction fails is an input of the functions that catch the failure.
  \<^item> The columns \<^verbatim>\<open>dyes\<close> and \<^verbatim>\<open>tags\<close> hold JSON text written by
    \<^verbatim>\<open>JSON.stringify\<close> and read back by \<^verbatim>\<open>JSON.parse\<close>; a row of the model
    holds the decoded value, and the text is recomputed where SQL looks at it.
\<close>

subsection \<open>Numbers and JSON text\<close>

definition digit_char :: "nat \<Rightarrow> char" where
  "digit_char d = ''0123456789abcdef'' ! (d mod 16)"

function (sequential) digits :: "nat \<Rightarrow> string" where
  "digits n = (if n < 10 then [digit_char n] else digits (n div 10) @ [digit_char (n mod 10)])"
  by pat_completeness auto
termination
  by (relation "measure (\<lambda>n. n)") auto

declare digits.simps [simp del]

text \<open>The value of a decimal digit, to read a rendering back.\<close>

definition digit_value :: "char \<Rightarrow> nat" where
  "digit_value c = of_char c - 48"

text \<open>\<^verbatim>\<open>String(n)\<close> for an integer \<open>n\<close>.\<close>

definition number_to_string :: "int \<Rightarrow> string" where
  "number_to_string i = (if i < 0 then CHR ''-'' # digits (nat (- i)) else digits (nat i))"

text \<open>\<^verbatim>\<open>Array.prototype.join\<close> with a separator.\<close>

fun join :: "string \<Rightarrow> string list \<Rightarrow> string" where
  "join sep [] = []"
| "join sep [x] = x"
| "join sep (x # y # ys) = x @ sep @ join sep (y # ys)"

text \<open>\<^verbatim>\<open>JSON.stringify\<close> of an array of integers.\<close>

definition json_stringify_numbers :: "int list \<Rightarrow> string" where
  "json_stringify_numbers xs = ''['' @ join '','' (map number_to_string xs) @ '']''"

subsection \<open>Doubles\<close>

text \<open>
  Rounding to an integer, a half to the even neighbour: the rounding of the significand
  in the default mode of IEEE 754.
\<close>

definition round_half_even :: "real \<Rightarrow> int" where
  "round_half_even x =
     (let f = \<lfloor>x\<rfloor>; d = x - of_int f
      in if d < 1 / 2 then f else if 1 / 2 < d then f + 1 else if even f then f else f + 1)"

text \<open>
  The exponent \<open>e\<close> of a positive number \<open>x\<close>, with \<open>2\<^sup>e \<le> x < 2\<^sup>e\<^sup>+\<^sup>1\<close>, found by
  doubling or halving; it is not below \<open>- 1022\<close>, the exponent of the subnormal numbers.
\<close>

function exponent_up :: "real \<Rightarrow> int \<Rightarrow> int" where
  "exponent_up x e = (if x < 1 \<and> - 1022 < e then exponent_up (2 * x) (e - 1) else e)"
  by pat_completeness auto
termination
  by (relation "measure (\<lambda>(x, e). nat (e + 1022))") auto

function exponent_down :: "real \<Rightarrow> int \<Rightarrow> int" where
  "exponent_down x e = (if 2 \<le> x then exponent_down (x / 2) (e + 1) else e)"
  by pat_completeness auto
termination
proof (relation "measure (\<lambda>(x, e). nat \<lfloor>x\<rfloor>)")
  show "wf (measure (\<lambda>(x, e). nat \<lfloor>x\<rfloor>))" by simp
next
  fix x :: real and e :: int
  assume "2 \<le> x"
  then have "\<lfloor>x / 2\<rfloor> < \<lfloor>x\<rfloor>" and "0 < \<lfloor>x\<rfloor>" by linarith+
  then show "((x / 2, e + 1), (x, e)) \<in> measure (\<lambda>(x, e). nat \<lfloor>x\<rfloor>)" by simp
qed

declare exponent_up.simps [simp del] exponent_down.simps [simp del]

text \<open>
  The double nearest to a real number: a double with exponent \<open>e\<close> is a multiple of
  \<open>2\<^sup>e\<^sup>-\<^sup>5\<^sup>2\<close>, its significand having 53 bits.
\<close>

definition to_double :: "real \<Rightarrow> real" where
  "to_double x =
     (if x = 0 then 0
      else
        (let a = \<bar>x\<bar>;
             e = (if 1 \<le> a then exponent_down a 0 else exponent_up a 0);
             u = 2 powi (e - 52);
             m = of_int (round_half_even (a / u)) * u
         in if x < 0 then - m else m))"

subsection \<open>Dye signature (preset-service.ts, generateDyeSignature)\<close>

text \<open>
  \<^verbatim>\<open>const sorted = [...dyes].sort((a, b) => a - b); return JSON.stringify(sorted);\<close>
  The comparator \<^verbatim>\<open>a - b\<close> orders integers ascending, and the ascending arrangement
  of a list of integers is unique, so the result of the sort is \<open>sort\<close>.
\<close>

definition generateDyeSignature :: "int list \<Rightarrow> string" where
  "generateDyeSignature dyes = json_stringify_numbers (sort dyes)"

text \<open>
  \<^verbatim>\<open>JSON.stringify\<close> of an array of strings: each string is quoted, with the
  quotation mark, the backslash and the control characters escaped.
\<close>

definition json_escape_char :: "char \<Rightarrow> string" where
  "json_escape_char c =
     (if c = CHR 0x22 then [CHR 0x5C, CHR 0x22]
      else if c = CHR 0x5C then [CHR 0x5C, CHR 0x5C]
      else if c = CHR 0x08 then [CHR 0x5C, CHR ''b'']
      else if c = CHR 0x0C then [CHR 0x5C, CHR ''f'']
      else if c = CHR 0x0A then [CHR 0x5C, CHR ''n'']
      else if c = CHR 0x0D then [CHR 0x5C, CHR ''r'']
      else if c = CHR 0x09 then [CHR 0x5C, CHR ''t'']
      else if of_char c < (32::nat)
        then [CHR 0x5C, CHR ''u'', CHR ''0'', CHR ''0'',
              digit_char (of_char c div 16), digit_char (of_char c mod 16)]
      else [c])"

definition json_stringify_string :: "string \<Rightarrow> string" where
  "json_stringify_string s = [CHR 0x22] @ concat (map json_escape_char s) @ [CHR 0x22]"

definition json_stringify_strings :: "string list \<Rightarrow> string" where
  "json_stringify_strings xs = ''['' @ join '','' (map json_stringify_string xs) @ '']''"

subsection \<open>Data model (types.ts)\<close>

text \<open>
  The \<^verbatim>\<open>status\<close> column is text. \<^verbatim>\<open>PresetStatus\<close> lists pending, approved, rejected
  and flagged; migration 0003 adds hidden.
\<close>

datatype PresetStatus = Pending | Approved | Rejected | Flagged | Hidden

record PresetSubmission =
  name :: string
  description :: string
  category_id :: string
  dyes :: "int list"
  tags :: "string list"

text \<open>
  \<^verbatim>\<open>PresetRow\<close> and \<^verbatim>\<open>CommunityPreset\<close> have the same fields, and one record stands
  for both: the fields of a submission and those the service adds. \<^verbatim>\<open>is_curated\<close> is
  0 or 1 in a row and a boolean in a preset.
\<close>

record Preset = PresetSubmission +
  preset_id :: string
  author_discord_id :: "string option"
  author_name :: "string option"
  vote_count :: int
  status :: PresetStatus
  is_curated :: bool
  created_at :: int
  updated_at :: int
  dye_signature :: "string option"

record VoteRow =
  vote_preset_id :: string
  user_discord_id :: string
  vote_created_at :: int

record Database =
  presets_table :: "Preset list"
  votes_table :: "VoteRow list"

record PresetFilters =
  filter_category :: "string option"
  filter_search :: "string option"
  filter_status :: "PresetStatus option"
  filter_sort :: "string option"
  filter_page :: "int option"
  filter_limit :: "int option"
  filter_is_curated :: "bool option"

record PresetListResponse =
  presets :: "Preset list"
  total :: int
  page :: int
  limit :: int
  has_more :: bool

record VoteResponse =
  success :: bool
  new_vote_count :: int
  already_voted :: "bool option"
  error :: "string option"

record RateLimitResult =
  allowed :: bool
  remaining :: int
  resetAt :: int

record AuthContext =
  isAuthenticated :: bool
  isModerator :: bool
  userDiscordId :: "string option"
  userName :: "string option"

datatype ModerationMethod = LocalMethod | PerspectiveMethod | AllMethods

datatype FlaggedField = FieldName | FieldDescription | FieldContent

text \<open>
  \<^verbatim>\<open>scores\<close> is a \<^verbatim>\<open>Record<string, number>\<close> whose entries are read in insertion
  order: an association list. A score is a double, here the real number it denotes.
\<close>

record ModerationResult =
  passed :: bool
  flaggedField :: "FlaggedField option"
  flaggedReason :: "string option"
  method_tag :: ModerationMethod  \<comment> \<open>the field \<^verbatim>\<open>method\<close>\<close>
  scores :: "(string \<times> real) list option"

text \<open>
  A JavaScript value that is \<^verbatim>\<open>undefined\<close> or the empty string is falsy; a value
  that is \<^verbatim>\<open>undefined\<close>, \<^verbatim>\<open>null\<close> or 0 makes \<^verbatim>\<open>v || d\<close> the default \<open>d\<close>.
\<close>

definition falsy :: "string option \<Rightarrow> bool" where
  "falsy v = (case v of None \<Rightarrow> True | Some s \<Rightarrow> s = [])"

definition or_default :: "'a::zero option \<Rightarrow> 'a \<Rightarrow> 'a" where
  "or_default v d = (case v of None \<Rightarrow> d | Some n \<Rightarrow> if n = 0 then d else n)"

subsection \<open>Preset service (preset-service.ts)\<close>

text \<open>
  \<^verbatim>\<open>rowToPreset\<close> copies the columns; \<^verbatim>\<open>row.dye_signature || undefined\<close> turns a
  \<^verbatim>\<open>null\<close> or empty signature into \<^verbatim>\<open>undefined\<close>.
\<close>

definition rowToPreset :: "Preset \<Rightarrow> Preset" where
  "rowToPreset row =
     row\<lparr>dye_signature := (if falsy (dye_signature row) then None else dye_signature row)\<rparr>"

text \<open>
  The SQLite \<^verbatim>\<open>LIKE\<close> operator: \<^verbatim>\<open>%\<close> stands for any run of characters,
  \<^verbatim>\<open>_\<close> for any single one, and letters compare without regard to ASCII case.
\<close>

definition ascii_upper :: "char \<Rightarrow> char" where
  "ascii_upper c =
     (if CHR ''a'' \<le> c \<and> c \<le> CHR ''z'' then char_of (of_char c - (32::nat)) else c)"

definition ascii_lower :: "char \<Rightarrow> char" where
  "ascii_lower c =
     (if CHR ''A'' \<le> c \<and> c \<le> CHR ''Z'' then char_of (of_char c + (32::nat)) else c)"

function sql_like :: "string \<Rightarrow> string \<Rightarrow> bool" where
  "sql_like [] t = (t = [])"
| "sql_like (p # ps) [] = (p = CHR ''%'' \<and> sql_like ps [])"
| "sql_like (p # ps) (c # cs) =
     (if p = CHR ''%'' then sql_like ps (c # cs) \<or> sql_like (p # ps) cs
      else (p = CHR ''_'' \<or> ascii_upper p = ascii_upper c) \<and> sql_like ps cs)"
  by pat_completeness auto
termination
  by (relation "measure (\<lambda>(p, t). length p + length t)") auto

text \<open>
  \<^verbatim>\<open>LIMIT ? OFFSET ?\<close>: a negative offset is no offset, a negative limit is no limit.
\<close>

definition sql_limit_offset :: "int \<Rightarrow> int \<Rightarrow> 'a list \<Rightarrow> 'a list" where
  "sql_limit_offset lmt off xs =
     (let ys = drop (nat off) xs in if lmt < 0 then ys else take (nat lmt) ys)"

text \<open>
  \<^verbatim>\<open>ORDER BY\<close>. SQL leaves the order of rows with equal keys open; the model keeps
  them in row order (a stable sort), and sorts on the minor key first.
\<close>

definition order_by_popular :: "Preset list \<Rightarrow> Preset list" where
  "order_by_popular rows =
     sort_key (\<lambda>r. - vote_count r) (sort_key (\<lambda>r. - created_at r) rows)"

definition order_by_recent :: "Preset list \<Rightarrow> Preset list" where
  "order_by_recent rows = sort_key (\<lambda>r. - created_at r) rows"

definition order_by_name :: "Preset list \<Rightarrow> Preset list" where
  "order_by_name rows = sort_key name rows"

definition order_by :: "string \<Rightarrow> Preset list \<Rightarrow> Preset list" where
  "order_by srt rows =
     (if srt = ''recent'' then order_by_recent rows
      else if srt = ''name'' then order_by_name rows
      else order_by_popular rows)"

text \<open>The \<^verbatim>\<open>WHERE\<close> clause \<^verbatim>\<open>getPresets\<close> builds from the filters.\<close>

definition where_clause :: "PresetFilters \<Rightarrow> Preset \<Rightarrow> bool" where
  "where_clause filters row =
     (let st = (case filter_status filters of None \<Rightarrow> Approved | Some s \<Rightarrow> s) in
      status row = st
      \<and> (falsy (filter_category filters) \<or> Some (category_id row) = filter_category filters)
      \<and> (case filter_search filters of
           None \<Rightarrow> True
         | Some search \<Rightarrow>
             search = [] \<or>
             (let searchPattern = ''%'' @ search @ ''%'' in
              sql_like searchPattern (name row)
              \<or> sql_like searchPattern (description row)
              \<or> sql_like searchPattern (json_stringify_strings (tags row))))
      \<and> (case filter_is_curated filters of
           None \<Rightarrow> True
         | Some b \<Rightarrow> is_curated row = b))"

definition getPresets :: "Database \<Rightarrow> PresetFilters \<Rightarrow> PresetListResponse" where
  "getPresets db filters =
     (let srt = (case filter_sort filters of None \<Rightarrow> ''popular'' | Some s \<Rightarrow> s);
          pg = (case filter_page filters of None \<Rightarrow> 1 | Some n \<Rightarrow> n);
          lmt = (case filter_limit filters of None \<Rightarrow> 20 | Some n \<Rightarrow> n);
          matching = filter (where_clause filters) (presets_table db);
          total = int (length matching);
          offset = (pg - 1) * lmt;
          results = map rowToPreset (sql_limit_offset lmt offset (order_by srt matching))
      in \<lparr>presets = results, total = total, page = pg, limit = lmt,
          has_more = (offset + int (length results) < total)\<rparr>)"

definition getFeaturedPresets :: "Database \<Rightarrow> Preset list" where
  "getFeaturedPresets db =
     map rowToPreset
       (sql_limit_offset 10 0
          (order_by_popular (filter (\<lambda>r. status r = Approved) (presets_table db))))"

definition getPresetById :: "Database \<Rightarrow> string \<Rightarrow> Preset option" where
  "getPresetById db i =
     map_option rowToPreset (find (\<lambda>r. preset_id r = i) (presets_table db))"

text \<open>
  \<^verbatim>\<open>findDuplicatePreset\<close>: one row (\<^verbatim>\<open>LIMIT 1\<close>, \<^verbatim>\<open>.first()\<close>) among those whose
  stored signature is that of the dyes and whose status is approved or pending. The
  query has no \<^verbatim>\<open>ORDER BY\<close>: the row is the one the engine meets first, at the position
  \<open>pos\<close> (counted modulo their number) of the matching rows in row order; \<open>pos\<close> is an
  argument, and a scan in row order is \<open>pos = 0\<close>.
\<close>

definition findDuplicatePreset :: "nat \<Rightarrow> Database \<Rightarrow> int list \<Rightarrow> Preset option" where
  "findDuplicatePreset pos db ds =
     (let signature = generateDyeSignature ds;
          matching =
            filter (\<lambda>r. dye_signature r = Some signature
                         \<and> (status r = Approved \<or> status r = Pending))
                   (presets_table db)
      in if matching = [] then None
         else Some (rowToPreset (matching ! (pos mod length matching))))"

text \<open>
  \<^verbatim>\<open>createPreset\<close>: the identifier comes from \<^verbatim>\<open>crypto.randomUUID()\<close> and the time
  from the clock; both are arguments here. The row is inserted and the same preset returned.
\<close>

definition createPreset ::
  "Database \<Rightarrow> 'a PresetSubmission_scheme \<Rightarrow> string \<Rightarrow> string \<Rightarrow> PresetStatus \<Rightarrow> string \<Rightarrow> int
     \<Rightarrow> Database \<times> Preset" where
  "createPreset db submission authorDiscordId authorName st uuid now =
     (let dyeSignature = generateDyeSignature (dyes submission);
          preset = \<lparr>name = name submission, description = description submission,
                    category_id = category_id submission, dyes = dyes submission,
                    tags = tags submission, preset_id = uuid,
                    author_discord_id = Some authorDiscordId, author_name = Some authorName,
                    vote_count = 0, status = st, is_curated = False,
                    created_at = now, updated_at = now, dye_signature = Some dyeSignature\<rparr>
      in (db\<lparr>presets_table := presets_table db @ [preset]\<rparr>, preset))"

text \<open>
  \<^verbatim>\<open>updatePresetStatus\<close>: one \<^verbatim>\<open>UPDATE\<close> of the rows with that id, then the row
  is read back.
\<close>

definition updatePresetStatus ::
  "Database \<Rightarrow> string \<Rightarrow> PresetStatus \<Rightarrow> int \<Rightarrow> Database \<times> Preset option" where
  "updatePresetStatus db i st now =
     (let db' = db\<lparr>presets_table :=
                     map (\<lambda>r. if preset_id r = i then r\<lparr>status := st, updated_at := now\<rparr> else r)
                         (presets_table db)\<rparr>
      in (db', getPresetById db' i))"

subsection \<open>Rate limit service\<close>

definition DAILY_SUBMISSION_LIMIT :: int where
  "DAILY_SUBMISSION_LIMIT = 10"

text \<open>
  \<^verbatim>\<open>getStartOfDayUTC\<close>: midnight UTC of the day of \<open>now\<close>; a day has
  \<open>24 * 60 * 60 * 1000\<close> milliseconds. (\<^verbatim>\<open>Date.UTC\<close> reads a year from 0 to 99 as
  1900 to 1999; times in those years are outside the model.)
\<close>

definition getStartOfDayUTC :: "int \<Rightarrow> int" where
  "getStartOfDayUTC now = now - now mod (24 * 60 * 60 * 1000)"

definition checkSubmissionRateLimit :: "Database \<Rightarrow> string \<Rightarrow> int \<Rightarrow> RateLimitResult" where
  "checkSubmissionRateLimit db userId now =
     (let today = getStartOfDayUTC now;
          tomorrow = today + 24 * 60 * 60 * 1000;
          submissionsToday =
            int (length (filter (\<lambda>r. author_discord_id r = Some userId
                                      \<and> today \<le> created_at r \<and> created_at r < tomorrow)
                                (presets_table db)));
          remaining = max 0 (DAILY_SUBMISSION_LIMIT - submissionsToday)
      in \<lparr>allowed = (submissionsToday < DAILY_SUBMISSION_LIMIT),
          remaining = remaining, resetAt = tomorrow\<rparr>)"

subsection \<open>Moderation service (moderation-service.ts)\<close>

text \<open>
  The word lists of \<^verbatim>\<open>data/profanity\<close>. The lists for ja, de, fr, ko and zh are
  empty in the source; the English list is an argument of the model.
\<close>

definition jaProfanity :: "string list" where "jaProfanity = []"
definition deProfanity :: "string list" where "deProfanity = []"
definition frProfanity :: "string list" where "frProfanity = []"
definition koProfanity :: "string list" where "koProfanity = []"
definition zhProfanity :: "string list" where "zhProfanity = []"

text \<open>The values of \<^verbatim>\<open>profanityLists\<close> in the order of \<^verbatim>\<open>Object.entries\<close>.\<close>

definition profanityLists :: "string list \<Rightarrow> string list list" where
  "profanityLists enProfanity =
     [enProfanity, jaProfanity, deProfanity, frProfanity, koProfanity, zhProfanity]"

definition toLowerCase :: "string \<Rightarrow> string" where
  "toLowerCase s = map ascii_lower s"

text \<open>
  A compiled pattern is \<^verbatim>\<open>new RegExp(`\\b${escapeRegex(word.toLowerCase())}\\b`, 'i')\<close>.
  \<^verbatim>\<open>escapeRegex\<close> makes every character of the word literal, so the pattern is the
  word between two word-boundary assertions, and the model keeps the word.
  \<^verbatim>\<open>regex.test(text)\<close> holds when the word occurs in the text, compared without
  regard to case, at a position with a word boundary on both sides. A word boundary is
  a position with a word character (letter, digit, underscore) on exactly one side.
\<close>

definition compiledProfanityPatterns :: "string list \<Rightarrow> string list" where
  "compiledProfanityPatterns enProfanity = map toLowerCase (concat (profanityLists enProfanity))"

definition is_word_char :: "char \<Rightarrow> bool" where
  "is_word_char c =
     ((CHR ''a'' \<le> c \<and> c \<le> CHR ''z'') \<or> (CHR ''A'' \<le> c \<and> c \<le> CHR ''Z'')
      \<or> (CHR ''0'' \<le> c \<and> c \<le> CHR ''9'') \<or> c = CHR ''_'')"

definition word_boundary :: "string \<Rightarrow> nat \<Rightarrow> bool" where
  "word_boundary text i =
     ((0 < i \<and> i \<le> length text \<and> is_word_char (text ! (i - 1)))
      \<noteq> (i < length text \<and> is_word_char (text ! i)))"

definition matches_at :: "string \<Rightarrow> string \<Rightarrow> nat \<Rightarrow> bool" where
  "matches_at word text i =
     (i + length word \<le> length text
      \<and> word_boundary text i
      \<and> map ascii_upper (take (length word) (drop i text)) = map ascii_upper word
      \<and> word_boundary text (i + length word))"

definition regex_test :: "string \<Rightarrow> string \<Rightarrow> bool" where
  "regex_test word text = list_ex (matches_at word text) [0..<Suc (length text)]"

text \<open>
  \<^verbatim>\<open>checkLocalFilter\<close>: the loop returns at the first pattern that matches the
  lowercased \<^verbatim>\<open>`${name} ${description}`\<close>.
\<close>

definition checkLocalFilter :: "string list \<Rightarrow> string \<Rightarrow> string \<Rightarrow> ModerationResult option" where
  "checkLocalFilter patterns nm desc =
     (let textToCheck = toLowerCase (nm @ '' '' @ desc);
          nameLower = toLowerCase nm
      in case find (\<lambda>regex. regex_test regex textToCheck) patterns of
           None \<Rightarrow> None
         | Some regex \<Rightarrow>
             Some \<lparr>passed = False,
                   flaggedField = Some (if regex_test regex nameLower then FieldName
                                        else FieldDescription),
                   flaggedReason = Some ''Contains prohibited content'',
                   method_tag = LocalMethod,
                   scores = None\<rparr>)"

text \<open>
  The Perspective API. \<^verbatim>\<open>fetch\<close> either throws (a network error) or gives a
  response with its \<^verbatim>\<open>ok\<close> flag and a body. The body is
  \<^item> not JSON (\<^verbatim>\<open>response.json()\<close> throws): \<open>InvalidJson\<close>;
  \<^item> JSON that is \<^verbatim>\<open>null\<close> or whose \<^verbatim>\<open>attributeScores\<close> is missing or \<^verbatim>\<open>null\<close>
    (reading \<^verbatim>\<open>result.attributeScores.TOXICITY\<close> throws a TypeError): \<open>JsonBody None\<close>;
  \<^item> JSON with any other \<^verbatim>\<open>attributeScores\<close>: \<open>JsonBody (Some a)\<close>, where a field of
    \<open>a\<close> is what \<^verbatim>\<open>X?.summaryScore?.value\<close> reads: \<open>None\<close> when the attribute, its
    \<^verbatim>\<open>summaryScore\<close> or its \<^verbatim>\<open>value\<close> is missing or \<^verbatim>\<open>null\<close> (every field is \<open>None\<close>
    for an \<^verbatim>\<open>attributeScores\<close> of \<^verbatim>\<open>{}\<close> or \<^verbatim>\<open>42\<close>), and otherwise the number
    that the JSON text writes, which \<^verbatim>\<open>JSON.parse\<close> rounds to a double. A \<^verbatim>\<open>value\<close>
    that is a string, a boolean, an array or an object is not modelled.
\<close>

record AttributeScores =
  TOXICITY :: "real option"
  SEVERE_TOXICITY :: "real option"
  IDENTITY_ATTACK :: "real option"
  INSULT :: "real option"
  PROFANITY :: "real option"

datatype ResponseBody = InvalidJson | JsonBody "AttributeScores option"

datatype FetchOutcome = NetworkError | HttpResponse bool ResponseBody

record Env =
  PERSPECTIVE_API_KEY :: "string option"

text \<open>
  \<^verbatim>\<open>Math.round\<close> rounds to the nearest integer, a half upwards; the result is exact
  (it is not computed by a rounded addition).
\<close>

definition math_round :: "real \<Rightarrow> int" where
  "math_round x = \<lfloor>x + 1 / 2\<rfloor>"

text \<open>\<^verbatim>\<open>const threshold = 0.7\<close>: the double nearest to seven tenths.\<close>

definition threshold :: real where
  "threshold = to_double (7 / 10)"

text \<open>
  The object \<^verbatim>\<open>scores\<close> that \<^verbatim>\<open>checkWithPerspective\<close> builds from the response:
  a score that is missing (or zero) is 0.
\<close>

definition attribute_scores :: "AttributeScores \<Rightarrow> (string \<times> real) list" where
  "attribute_scores attributeScores =
     [(''toxicity'', or_default (map_option to_double (TOXICITY attributeScores)) 0),
      (''severeToxicity'', or_default (map_option to_double (SEVERE_TOXICITY attributeScores)) 0),
      (''identityAttack'', or_default (map_option to_double (IDENTITY_ATTACK attributeScores)) 0),
      (''insult'', or_default (map_option to_double (INSULT attributeScores)) 0),
      (''profanity'', or_default (map_option to_double (PROFANITY attributeScores)) 0)]"

text \<open>
  \<^verbatim>\<open>checkWithPerspective\<close> returns its result and the requests it has sent (the
  API key and the text of each \<^verbatim>\<open>fetch\<close>). The product \<^verbatim>\<open>value * 100\<close> is a
  double.
\<close>

definition checkWithPerspective ::
  "string \<Rightarrow> Env \<Rightarrow> (string \<Rightarrow> string \<Rightarrow> FetchOutcome)
     \<Rightarrow> ModerationResult option \<times> (string \<times> string) list" where
  "checkWithPerspective text env fetch =
     (case PERSPECTIVE_API_KEY env of
        None \<Rightarrow> (None, [])
      | Some apiKey \<Rightarrow>
          if apiKey = [] then (None, [])
          else
            (case fetch apiKey text of
               NetworkError \<Rightarrow> None
             | HttpResponse ok body \<Rightarrow>
                 if \<not> ok then None
                 else
                   (case body of
                      InvalidJson \<Rightarrow> None
                    | JsonBody None \<Rightarrow> None
                    | JsonBody (Some attributeScores) \<Rightarrow>
                        (let scrs = attribute_scores attributeScores
                         in case find (\<lambda>(key, value). threshold \<le> value) scrs of
                              Some (key, value) \<Rightarrow>
                                Some \<lparr>passed = False,
                                      flaggedField = Some FieldContent,
                                      flaggedReason =
                                        Some (''High '' @ key @ '' score detected (''
                                              @ number_to_string
                                                  (math_round (to_double (value * 100)))
                                              @ ''%)''),
                                      method_tag = PerspectiveMethod,
                                      scores = Some scrs\<rparr>
                            | None \<Rightarrow>
                                Some \<lparr>passed = True, flaggedField = None, flaggedReason = None,
                                      method_tag = PerspectiveMethod, scores = Some scrs\<rparr>)),
             [(apiKey, text)]))"

definition moderateContent ::
  "string list \<Rightarrow> string \<Rightarrow> string \<Rightarrow> Env \<Rightarrow> (string \<Rightarrow> string \<Rightarrow> FetchOutcome)
     \<Rightarrow> ModerationResult \<times> (string \<times> string) list" where
  "moderateContent enProfanity nm desc env fetch =
     (let localResult = checkLocalFilter (compiledProfanityPatterns enProfanity) nm desc;
          continue =
            (case checkWithPerspective (nm @ '' '' @ desc) env fetch of
               (perspectiveResult, calls) \<Rightarrow>
                 (case perspectiveResult of
                    Some r \<Rightarrow>
                      if \<not> passed r then (r, calls)
                      else (\<lparr>passed = True, flaggedField = None, flaggedReason = None,
                             method_tag = AllMethods, scores = scores r\<rparr>, calls)
                  | None \<Rightarrow>
                      (\<lparr>passed = True, flaggedField = None, flaggedReason = None,
                        method_tag = LocalMethod, scores = None\<rparr>, calls)))
      in case localResult of
           None \<Rightarrow> continue
         | Some r \<Rightarrow> if \<not> passed r then (r, []) else continue)"

subsection \<open>Votes handler (handlers/votes.ts)\<close>

text \<open>
  \<^verbatim>\<open>db.batch\<close> runs its statements as one transaction: either both are applied or
  it throws and none is. Whether it succeeds is the argument \<open>batch_ok\<close>; the
  \<^verbatim>\<open>catch\<close> branch is the case where it does not.
\<close>

definition vote_exists :: "Database \<Rightarrow> string \<Rightarrow> string \<Rightarrow> bool" where
  "vote_exists db presetId userId =
     list_ex (\<lambda>v. vote_preset_id v = presetId \<and> user_discord_id v = userId) (votes_table db)"

definition select_vote_count :: "Database \<Rightarrow> string \<Rightarrow> int option" where
  "select_vote_count db presetId =
     map_option vote_count (find (\<lambda>r. preset_id r = presetId) (presets_table db))"

definition addVote :: "Database \<Rightarrow> string \<Rightarrow> string \<Rightarrow> int \<Rightarrow> bool \<Rightarrow> Database \<times> VoteResponse" where
  "addVote db presetId userId now batch_ok =
     (if vote_exists db presetId userId then
        (db, \<lparr>success = False,
              new_vote_count = or_default (select_vote_count db presetId) 0,
              already_voted = Some True, error = None\<rparr>)
      else if batch_ok then
        (let db' = db\<lparr>votes_table :=
                         votes_table db @
                           [\<lparr>vote_preset_id = presetId, user_discord_id = userId,
                             vote_created_at = now\<rparr>],
                       presets_table :=
                         map (\<lambda>r. if preset_id r = presetId
                                   then r\<lparr>vote_count := vote_count r + 1, updated_at := now\<rparr>
                                   else r)
                             (presets_table db)\<rparr>
         in (db', \<lparr>success = True,
                   new_vote_count = or_default (select_vote_count db' presetId) 1,
                   already_voted = None, error = None\<rparr>))
      else
        (db, \<lparr>success = False, new_vote_count = 0, already_voted = None,
              error = Some ''Failed to add vote''\<rparr>))"

definition removeVote :: "Database \<Rightarrow> string \<Rightarrow> string \<Rightarrow> int \<Rightarrow> bool \<Rightarrow> Database \<times> VoteResponse" where
  "removeVote db presetId userId now batch_ok =
     (if \<not> vote_exists db presetId userId then
        (db, \<lparr>success = False,
              new_vote_count = or_default (select_vote_count db presetId) 0,
              already_voted = Some False, error = None\<rparr>)
      else if batch_ok then
        (let db' = db\<lparr>votes_table :=
                         filter (\<lambda>v. \<not> (vote_preset_id v = presetId \<and> user_discord_id v = userId))
                                (votes_table db),
                       presets_table :=
                         map (\<lambda>r. if preset_id r = presetId
                                   then r\<lparr>vote_count := max 0 (vote_count r - 1),
                                          updated_at := now\<rparr>
                                   else r)
                             (presets_table db)\<rparr>
         in (db', \<lparr>success = True,
                   new_vote_count = or_default (select_vote_count db' presetId) 0,
                   already_voted = None, error = None\<rparr>))
      else
        (db, \<lparr>success = False, new_vote_count = 0, already_voted = None,
              error = Some ''Failed to remove vote''\<rparr>))"

subsection \<open>Presets handler (handlers/presets.ts)\<close>

definition validCategories :: "string list" where
  "validCategories =
     [''jobs'', ''grand-companies'', ''seasons'', ''events'', ''aesthetics'', ''community'']"

text \<open>
  \<^verbatim>\<open>validateSubmission\<close> on a body that has the fields of \<^verbatim>\<open>PresetSubmission\<close> with
  their types: the checks that a field is an array, a number or a string hold by typing.
\<close>

definition validateSubmission :: "'a PresetSubmission_scheme \<Rightarrow> string option" where
  "validateSubmission body =
     (if length (name body) < 2 \<or> length (name body) > 50
        then Some ''Name must be 2-50 characters''
      else if length (description body) < 10 \<or> length (description body) > 200
        then Some ''Description must be 10-200 characters''
      else if category_id body \<notin> set validCategories
        then Some ''Invalid category''
      else if length (dyes body) < 2 \<or> length (dyes body) > 5
        then Some ''Must include 2-5 dyes''
      else if \<not> list_all (\<lambda>i. i > 0) (dyes body)
        then Some ''Invalid dye IDs''
      else if length (tags body) > 10
        then Some ''Maximum 10 tags allowed''
      else if list_ex (\<lambda>tag. length tag > 30) (tags body)
        then Some ''Each tag must be a string of max 30 characters''
      else None)"

text \<open>
  What a request takes from outside the worker: the identifier
  \<^verbatim>\<open>crypto.randomUUID()\<close> returns, the clock as \<^verbatim>\<open>createPreset\<close> and \<^verbatim>\<open>addVote\<close>
  read it, the answer of the Perspective API to a request, whether the vote
  transaction succeeds, and which matching row the lookup of a duplicate meets first.
\<close>

record World =
  randomUUID :: string
  createTime :: int
  voteTime :: int
  fetch :: "string \<Rightarrow> string \<Rightarrow> FetchOutcome"
  batch_ok :: bool
  first_row :: nat

text \<open>The responses of \<^verbatim>\<open>POST /api/v1/presets\<close>, with their HTTP status.\<close>

datatype SubmitResponse =
    Unauthorized                    \<comment> \<open>401\<close>
  | UserContextRequired             \<comment> \<open>400, no X-User-Discord-ID header\<close>
  | InvalidJsonBody                 \<comment> \<open>400\<close>
  | ValidationError string          \<comment> \<open>400\<close>
  | DuplicateFound Preset bool      \<comment> \<open>200: the duplicate and \<^verbatim>\<open>vote_added\<close>\<close>
  | Created Preset PresetStatus     \<comment> \<open>201: the preset and \<^verbatim>\<open>moderation_status\<close>\<close>

text \<open>
  The handler returns the new database, the response and the requests sent to the
  Perspective API. The body is \<open>None\<close> when it is not JSON.
\<close>

definition presetsRouter_post ::
  "string list \<Rightarrow> Env \<Rightarrow> World \<Rightarrow> Database \<Rightarrow> AuthContext \<Rightarrow> PresetSubmission option
     \<Rightarrow> Database \<times> SubmitResponse \<times> (string \<times> string) list" where
  "presetsRouter_post enProfanity env world db auth body_opt =
     (if \<not> isAuthenticated auth then (db, Unauthorized, [])
      else
        (case userDiscordId auth of
           None \<Rightarrow> (db, UserContextRequired, [])
         | Some userId \<Rightarrow>
             if userId = [] then (db, UserContextRequired, [])
             else
               (case body_opt of
                  None \<Rightarrow> (db, InvalidJsonBody, [])
                | Some body \<Rightarrow>
                    (case validateSubmission body of
                       Some validationError \<Rightarrow> (db, ValidationError validationError, [])
                     | None \<Rightarrow>
                         (case findDuplicatePreset (first_row world) db (dyes body) of
                            Some duplicate \<Rightarrow>
                              (case addVote db (preset_id duplicate) userId (voteTime world)
                                      (batch_ok world) of
                                 (db', voteResult) \<Rightarrow>
                                   (db',
                                    DuplicateFound duplicate
                                      (success voteResult
                                       \<and> already_voted voteResult \<noteq> Some True),
                                    []))
                          | None \<Rightarrow>
                              (case moderateContent enProfanity (name body) (description body)
                                      env (fetch world) of
                                 (moderationResult, calls) \<Rightarrow>
                                   (let st = (if passed moderationResult then Approved
                                              else Pending);
                                        authorName =
                                          (case userName auth of
                                             None \<Rightarrow> ''Unknown User''
                                           | Some n \<Rightarrow> if n = [] then ''Unknown User'' else n)
                                    in case createPreset db body userId authorName st
                                              (randomUUID world) (createTime world) of
                                         (db1, preset) \<Rightarrow>
                                           (case addVote db1 (preset_id preset) userId
                                                   (voteTime world) (batch_ok world) of
                                              (db2, voteResult) \<Rightarrow>
                                                (db2, Created preset st, calls)))))))))"

subsection \<open>Sample data\<close>

text \<open>
  Rows and requests for the concrete instances below. The time \<open>1762084800000\<close> is
  2025-11-02T12:00:00Z; that day starts at \<open>1762041600000\<close>.
\<close>

definition sample_row :: "string \<Rightarrow> int list \<Rightarrow> PresetStatus \<Rightarrow> int \<Rightarrow> Preset" where
  "sample_row i ds st votes =
     \<lparr>name = ''Sunset Glow'', description = ''Warm evening tones'',
      category_id = ''aesthetics'', dyes = ds, tags = [''warm''],
      preset_id = i, author_discord_id = Some ''1001'', author_name = Some ''Alice'',
      vote_count = votes, status = st, is_curated = False,
      created_at = 1762041600000 + votes, updated_at = 1762041600000 + votes,
      dye_signature = Some (generateDyeSignature ds)\<rparr>"

definition sample_db :: Database where
  "sample_db =
     \<lparr>presets_table =
        [sample_row ''p1'' [1, 2] Approved 3,
         sample_row ''p2'' [3, 4] Pending 5,
         sample_row ''p3'' [5, 6] Rejected 0,
         sample_row ''p4'' [1, 1, 2] Approved 1],
      votes_table =
        [\<lparr>vote_preset_id = ''p1'', user_discord_id = ''1001'', vote_created_at = 1762041600000\<rparr>,
         \<lparr>vote_preset_id = ''p3'', user_discord_id = ''1002'', vote_created_at = 1762041600000\<rparr>]\<rparr>"

definition no_filters :: PresetFilters where
  "no_filters =
     \<lparr>filter_category = None, filter_search = None, filter_status = None,
      filter_sort = None, filter_page = None, filter_limit = None,
      filter_is_curated = None\<rparr>"

definition sample_words :: "string list" where
  "sample_words = [''badword'']"

definition sample_env :: Env where
  "sample_env = \<lparr>PERSPECTIVE_API_KEY = Some ''key''\<rparr>"

definition api_down :: "string \<Rightarrow> string \<Rightarrow> FetchOutcome" where
  "api_down apiKey t = NetworkError"

definition api_answers :: "AttributeScores \<Rightarrow> string \<Rightarrow> string \<Rightarrow> FetchOutcome" where
  "api_answers a apiKey t = HttpResponse True (JsonBody (Some a))"

definition clean_scores :: AttributeScores where
  "clean_scores =
     \<lparr>TOXICITY = Some (1 / 10), SEVERE_TOXICITY = None, IDENTITY_ATTACK = Some 0,
      INSULT = Some (2 / 10), PROFANITY = Some (69 / 100)\<rparr>"

definition toxic_scores :: AttributeScores where
  "toxic_scores =
     \<lparr>TOXICITY = Some (1 / 10), SEVERE_TOXICITY = None, IDENTITY_ATTACK = Some (7 / 10),
      INSULT = Some (855 / 1000), PROFANITY = Some (2 / 10)\<rparr>"

text \<open>
  Answers of the API: one with an empty \<^verbatim>\<open>attributeScores\<close>, one whose only high
  score is 0.855, and one whose first score is written \<^verbatim>\<open>0.69999999999999999\<close>, a text
  that \<^verbatim>\<open>JSON.parse\<close> reads as the double 0.7.
\<close>

definition empty_scores :: AttributeScores where
  "empty_scores =
     \<lparr>TOXICITY = None, SEVERE_TOXICITY = None, IDENTITY_ATTACK = None,
      INSULT = None, PROFANITY = None\<rparr>"

definition insult_scores :: AttributeScores where
  "insult_scores =
     \<lparr>TOXICITY = Some (1 / 10), SEVERE_TOXICITY = None, IDENTITY_ATTACK = Some 0,
      INSULT = Some (855 / 1000), PROFANITY = Some (2 / 10)\<rparr>"

definition edge_scores :: AttributeScores where
  "edge_scores =
     \<lparr>TOXICITY = Some (69999999999999999 / 100000000000000000), SEVERE_TOXICITY = None,
      IDENTITY_ATTACK = None, INSULT = None, PROFANITY = Some (9 / 10)\<rparr>"

text \<open>A word list with an entry of two words.\<close>

definition spaced_words :: "string list" where
  "spaced_words = [''bad word'']"

definition sample_auth :: AuthContext where
  "sample_auth =
     \<lparr>isAuthenticated = True, isModerator = False,
      userDiscordId = Some ''1002'', userName = Some ''Bob''\<rparr>"

definition sample_body :: "int list \<Rightarrow> PresetSubmission" where
  "sample_body ds =
     \<lparr>name = ''Ocean Breeze'', description = ''Cool seaside colours'',
      category_id = ''seasons'', dyes = ds, tags = [''cool'', ''sea'']\<rparr>"

definition sample_world :: "(string \<Rightarrow> string \<Rightarrow> FetchOutcome) \<Rightarrow> World" where
  "sample_world api =
     \<lparr>randomUUID = ''p9'', createTime = 1762084800000, voteTime = 1762084800001,
      fetch = api, batch_ok = True, first_row = 0\<rparr>"

text \<open>
  A database with two approved presets of the same dyes, \<^verbatim>\<open>d1\<close> and \<^verbatim>\<open>d3\<close>, a vote
  of the user 1002 for the first, and an approved preset \<^verbatim>\<open>d4\<close> stored without a
  signature (the column is \<^verbatim>\<open>string | null\<close>).
\<close>

definition twin_db :: Database where
  "twin_db =
     \<lparr>presets_table =
        [sample_row ''d1'' [1, 2] Approved 3,
         sample_row ''d2'' [3, 4] Pending 5,
         sample_row ''d3'' [2, 1] Approved 1,
         (sample_row ''d4'' [7, 8] Approved 2)\<lparr>dye_signature := None\<rparr>],
      votes_table =
        [\<lparr>vote_preset_id = ''d1'', user_discord_id = ''1002'', vote_created_at = 1762041600000\<rparr>]\<rparr>"

text \<open>
  A database in which the user 1002 is the author of ten presets created on
  2025-11-02, with dyes that no sample submission has.
\<close>

definition busy_row :: "nat \<Rightarrow> Preset" where
  "busy_row i =
     (sample_row (''b'' @ digits i) [100 + int i, 200 + int i] Approved (int i))
       \<lparr>author_discord_id := Some ''1002''\<rparr>"

definition busy_db :: Database where
  "busy_db = \<lparr>presets_table = map busy_row [0..<10], votes_table = []\<rparr>"

text \<open>
  The preset that the handler creates, with the status \<open>st\<close>, from the sample submission
  of the dyes \<open>ds\<close> by the sample user in the sample world.
\<close>

definition created_sample :: "int list \<Rightarrow> PresetStatus \<Rightarrow> Preset" where
  "created_sample ds st =
     \<lparr>name = ''Ocean Breeze'', description = ''Cool seaside colours'',
      category_id = ''seasons'', dyes = ds, tags = [''cool'', ''sea''],
      preset_id = ''p9'', author_discord_id = Some ''1002'', author_name = Some ''Bob'',
      vote_count = 0, status = st, is_curated = False,
      created_at = 1762084800000, updated_at = 1762084800000,
      dye_signature = Some (generateDyeSignature ds)\<rparr>"

text \<open>
  The database after that preset is added to the database \<open>db\<close> and has received the vote
  of its author.
\<close>

definition with_created_sample :: "Database \<Rightarrow> int list \<Rightarrow> PresetStatus \<Rightarrow> Database" where
  "with_created_sample db ds st =
     \<lparr>presets_table =
        presets_table db
        @ [(created_sample ds st)\<lparr>vote_count := 1, updated_at := 1762084800001\<rparr>],
      votes_table =
        votes_table db
        @ [\<lparr>vote_preset_id = ''p9'', user_discord_id = ''1002'',
            vote_created_at = 1762084800001\<rparr>]\<rparr>"

section \<open>Properties\<close>

subsection \<open>Dye signature\<close>

lemma sort_cong_mset:
  fixes xs ys :: "int list"
  assumes "mset xs = mset ys"
  shows "sort xs = sort ys"
proof -
  have "sort xs = sorted_list_of_multiset (mset xs)" by simp
  also have "\<dots> = sorted_list_of_multiset (mset ys)" using assms by simp
  also have "\<dots> = sort ys" by simp
  finally show ?thesis .
qed

lemma generateDyeSignature_cong_mset:
  "mset ds' = mset ds \<Longrightarrow> generateDyeSignature ds' = generateDyeSignature ds"
  unfolding generateDyeSignature_def using sort_cong_mset [of ds' ds] by simp

text \<open>
  The rendering of a list of integers can be read back, so two dye lists have the same
  signature exactly when each is a permutation of the other.
\<close>

lemma digit_char_value: "d < 10 \<Longrightarrow> digit_value (digit_char d) = d"
proof -
  assume "d < 10"
  then have "d \<in> {0, 1, 2, 3, 4, 5, 6, 7, 8, 9}" by auto
  then show ?thesis by (auto simp: digit_char_def digit_value_def)
qed

lemma digit_char_is_digit: "d < 10 \<Longrightarrow> digit_char d \<in> set ''0123456789''"
proof -
  assume "d < 10"
  then have "d \<in> {0, 1, 2, 3, 4, 5, 6, 7, 8, 9}" by auto
  then show ?thesis by (auto simp: digit_char_def)
qed

lemma digits_chars: "set (digits n) \<subseteq> set ''0123456789''"
proof (induction n rule: digits.induct)
  case (1 n)
  show ?case
  proof (cases "n < 10")
    case True
    then show ?thesis using digit_char_is_digit [of n] by (subst digits.simps) simp
  next
    case False
    with 1 digit_char_is_digit [of "n mod 10"] show ?thesis
      by (subst digits.simps) simp
  qed
qed

lemma digits_nonempty: "digits n \<noteq> []"
  by (subst digits.simps) simp

lemma digits_value: "foldl (\<lambda>a c. 10 * a + digit_value c) 0 (digits n) = n"
proof (induction n rule: digits.induct)
  case (1 n)
  show ?case
  proof (cases "n < 10")
    case True
    then show ?thesis by (subst digits.simps) (simp add: digit_char_value)
  next
    case False
    with 1 show ?thesis
      by (subst digits.simps) (simp add: digit_char_value)
  qed
qed

lemma digits_inj: "digits m = digits n \<Longrightarrow> m = n"
  by (metis digits_value)

lemma number_to_string_inj: "number_to_string i = number_to_string j \<Longrightarrow> i = j"
proof -
  assume e: "number_to_string i = number_to_string j"
  have nd: "\<And>n. hd (digits n) \<noteq> CHR ''-''"
  proof -
    fix n
    have "hd (digits n) \<in> set (digits n)" using digits_nonempty by simp
    with digits_chars [of n] show "hd (digits n) \<noteq> CHR ''-''" by auto
  qed
  show ?thesis
  proof (cases "i < 0")
    case True
    show ?thesis
    proof (cases "j < 0")
      case True
      with \<open>i < 0\<close> e have "digits (nat (- i)) = digits (nat (- j))"
        by (simp add: number_to_string_def)
      then have "nat (- i) = nat (- j)" by (rule digits_inj)
      with True \<open>i < 0\<close> show ?thesis by simp
    next
      case False
      with \<open>i < 0\<close> e have "CHR ''-'' # digits (nat (- i)) = digits (nat j)"
        by (simp add: number_to_string_def)
      then have "hd (digits (nat j)) = hd (CHR ''-'' # digits (nat (- i)))" by simp
      then have "hd (digits (nat j)) = CHR ''-''" by simp
      with nd show ?thesis by blast
    qed
  next
    case False
    show ?thesis
    proof (cases "j < 0")
      case True
      with \<open>\<not> i < 0\<close> e have "digits (nat i) = CHR ''-'' # digits (nat (- j))"
        by (simp add: number_to_string_def)
      then have "hd (digits (nat i)) = hd (CHR ''-'' # digits (nat (- j)))" by simp
      then have "hd (digits (nat i)) = CHR ''-''" by simp
      with nd show ?thesis by blast
    next
      case False
      with \<open>\<not> i < 0\<close> e have "digits (nat i) = digits (nat j)"
        by (simp add: number_to_string_def)
      then have "nat i = nat j" by (rule digits_inj)
      with False \<open>\<not> i < 0\<close> show ?thesis by simp
    qed
  qed
qed

lemma number_to_string_no_comma: "CHR '','' \<notin> set (number_to_string i)"
  using digits_chars [of "nat i"] digits_chars [of "nat (- i)"]
  by (auto simp: number_to_string_def)

lemma number_to_string_nonempty: "number_to_string i \<noteq> []"
  by (simp add: number_to_string_def digits_nonempty)

lemma append_Cons_split:
  assumes "c \<notin> set a" and "c \<notin> set b" and "a @ c # r = b @ c # r'"
  shows "a = b \<and> r = r'"
  using assms
proof (induction a arbitrary: b)
  case Nil
  then show ?case by (cases b) auto
next
  case (Cons a0 a)
  then show ?case by (cases b) auto
qed

lemma join_Cons_nonempty: "x \<noteq> [] \<Longrightarrow> join sep (x # xs) \<noteq> []"
  by (cases xs) simp_all

lemma join_comma_inj:
  assumes "\<forall>s \<in> set xs. CHR '','' \<notin> set s \<and> s \<noteq> []"
    and "\<forall>s \<in> set ys. CHR '','' \<notin> set s \<and> s \<noteq> []"
    and "join '','' xs = join '','' ys"
  shows "xs = ys"
  using assms
proof (induction xs arbitrary: ys)
  case Nil
  show ?case
  proof (cases ys)
    case Nil
    then show ?thesis by simp
  next
    case (Cons y ys')
    with Nil.prems(2) have "y \<noteq> []" by simp
    then have "join '','' (y # ys') \<noteq> []" by (rule join_Cons_nonempty)
    with Nil.prems(3) Cons show ?thesis by simp
  qed
next
  case (Cons x xs)
  from Cons.prems(1) have x: "CHR '','' \<notin> set x" "x \<noteq> []" by simp_all
  show ?case
  proof (cases ys)
    case Nil
    from x have "join '','' (x # xs) \<noteq> []" by (intro join_Cons_nonempty)
    with Cons.prems(3) Nil show ?thesis by simp
  next
    case ys: (Cons y ys')
    from Cons.prems(2) ys have y: "CHR '','' \<notin> set y" "y \<noteq> []" by simp_all
    show ?thesis
    proof (cases xs)
      case Nil
      show ?thesis
      proof (cases ys')
        case Nil
        with Cons.prems(3) ys \<open>xs = []\<close> show ?thesis by simp
      next
        case (Cons y2 ys'')
        with Cons.prems(3) ys \<open>xs = []\<close> have "x = y @ CHR '','' # join '','' (y2 # ys'')"
          by simp
        then have "CHR '','' \<in> set x" by simp
        with x show ?thesis by simp
      qed
    next
      case xs: (Cons x2 xs')
      show ?thesis
      proof (cases ys')
        case Nil
        with Cons.prems(3) ys xs have "y = x @ CHR '','' # join '','' (x2 # xs')"
          by simp
        then have "CHR '','' \<in> set y" by simp
        with y show ?thesis by simp
      next
        case ys': (Cons y2 ys'')
        from Cons.prems(3) ys xs ys'
        have e: "x @ CHR '','' # join '','' xs = y @ CHR '','' # join '','' ys'" by simp
        from append_Cons_split [OF x(1) y(1) e]
        have "x = y" and j: "join '','' xs = join '','' ys'" by simp_all
        from Cons.prems(1) have p1: "\<forall>s \<in> set xs. CHR '','' \<notin> set s \<and> s \<noteq> []" by simp
        from Cons.prems(2) ys have p2: "\<forall>s \<in> set ys'. CHR '','' \<notin> set s \<and> s \<noteq> []" by simp
        from Cons.IH [OF p1 p2 j] \<open>x = y\<close> ys show ?thesis by simp
      qed
    qed
  qed
qed

lemma json_stringify_numbers_inj:
  assumes "json_stringify_numbers xs = json_stringify_numbers ys"
  shows "xs = ys"
proof -
  from assms have "join '','' (map number_to_string xs) = join '','' (map number_to_string ys)"
    by (simp add: json_stringify_numbers_def)
  then have "map number_to_string xs = map number_to_string ys"
    by (intro join_comma_inj)
       (auto simp: number_to_string_no_comma number_to_string_nonempty)
  then show ?thesis
    by (simp add: list_eq_iff_nth_eq number_to_string_inj)
qed

lemma generateDyeSignature_eq_iff:
  "generateDyeSignature ds' = generateDyeSignature ds \<longleftrightarrow> mset ds' = mset ds"
proof
  assume "generateDyeSignature ds' = generateDyeSignature ds"
  then have "sort ds' = sort ds"
    unfolding generateDyeSignature_def by (rule json_stringify_numbers_inj)
  then show "mset ds' = mset ds" by (metis mset_sort)
next
  assume "mset ds' = mset ds"
  then show "generateDyeSignature ds' = generateDyeSignature ds"
    by (rule generateDyeSignature_cong_mset)
qed

text \<open>
  C4. The claim says that a permutation of a dye list has the same signature, and that
  two dye lists that are equal as sets have the same signature whatever the
  multiplicity of their elements. The second part fails: \<open>[1, 1, 2]\<close> and \<open>[1, 2, 2]\<close>
  are equal as sets, and their signatures are the texts \<^verbatim>\<open>[1,1,2]\<close> and
  \<^verbatim>\<open>[1,2,2]\<close>. The sort keeps repeated dyes, and nothing removes them.
\<close>

theorem generateDyeSignature_set_counterexample:
  "set [1, 1, 2] = set [1, 2, 2 :: int]
   \<and> generateDyeSignature [1, 1, 2] \<noteq> generateDyeSignature [1, 2, 2]"
proof -
  have a: "generateDyeSignature [1, 1, 2] = ''[1,1,2]''" by code_simp
  have b: "generateDyeSignature [1, 2, 2] = ''[1,2,2]''" by code_simp
  show ?thesis unfolding a b by auto
qed

text \<open>
  C4, as amended. The signature is order-independent: two dye lists with the same dyes,
  each as many times in the one as in the other (that is, each a permutation of the
  other), have the same signature.
\<close>

theorem generateDyeSignature_permutation:
  "mset ds' = mset ds \<Longrightarrow> generateDyeSignature ds' = generateDyeSignature ds"
  by (rule generateDyeSignature_cong_mset)

theorem generateDyeSignature_permutation_witness:
  "mset [5, 3, 9] = mset [9, 5, 3 :: int]
   \<and> generateDyeSignature [5, 3, 9] = generateDyeSignature [9, 5, 3]
   \<and> generateDyeSignature [5, 3, 9] = ''[3,5,9]''"
proof -
  have h: "mset [5, 3, 9] = mset [9, 5, 3 :: int]" by simp
  have e: "generateDyeSignature [9, 5, 3] = ''[3,5,9]''" by code_simp
  show ?thesis using h generateDyeSignature_permutation [OF h] e by simp
qed

subsection \<open>Listing\<close>

lemma status_rowToPreset [simp]: "status (rowToPreset r) = status r"
  by (simp add: rowToPreset_def)

lemma preset_id_rowToPreset [simp]: "preset_id (rowToPreset r) = preset_id r"
  by (simp add: rowToPreset_def)

lemma set_sql_limit_offset: "set (sql_limit_offset l off xs) \<subseteq> set xs"
  unfolding sql_limit_offset_def Let_def
  by (auto dest: in_set_takeD in_set_dropD)

lemma set_order_by_popular [simp]: "set (order_by_popular rows) = set rows"
  by (simp add: order_by_popular_def)

lemma set_order_by [simp]: "set (order_by srt rows) = set rows"
  by (simp add: order_by_def order_by_recent_def order_by_name_def)

lemma getPresets_rows:
  assumes "p \<in> set (presets (getPresets db filters))"
  shows "\<exists>r \<in> set (presets_table db). where_clause filters r \<and> p = rowToPreset r"
proof -
  let ?matching = "filter (where_clause filters) (presets_table db)"
  from assms obtain l off srt where
    "p \<in> rowToPreset ` set (sql_limit_offset l off (order_by srt ?matching))"
    by (auto simp: getPresets_def Let_def)
  then obtain r where r: "r \<in> set (sql_limit_offset l off (order_by srt ?matching))"
    and pr: "p = rowToPreset r" by blast
  from r set_sql_limit_offset [of l off "order_by srt ?matching"]
  have "r \<in> set ?matching" by auto
  with pr show ?thesis by auto
qed

lemma getFeaturedPresets_rows:
  assumes "p \<in> set (getFeaturedPresets db)"
  shows "\<exists>r \<in> set (presets_table db). status r = Approved \<and> p = rowToPreset r"
proof -
  let ?matching = "filter (\<lambda>r. status r = Approved) (presets_table db)"
  from assms obtain r where r: "r \<in> set (sql_limit_offset 10 0 (order_by_popular ?matching))"
    and pr: "p = rowToPreset r" by (auto simp: getFeaturedPresets_def)
  from r set_sql_limit_offset [of 10 0 "order_by_popular ?matching"]
  have "r \<in> set ?matching" by auto
  with pr show ?thesis by auto
qed

text \<open>
  C10. When the filters carry no status, every preset \<^verbatim>\<open>getPresets\<close> returns has
  status approved, whatever the other filters, the sort and the page; and every preset
  \<^verbatim>\<open>getFeaturedPresets\<close> returns has status approved. So a pending, rejected, flagged
  or hidden preset is in neither list.
\<close>

theorem default_listing_only_approved:
  "(filter_status filters = None \<longrightarrow>
      (\<forall>p \<in> set (presets (getPresets db filters)). status p = Approved))
   \<and> (\<forall>p \<in> set (getFeaturedPresets db). status p = Approved)"
proof (intro conjI impI ballI)
  fix p
  assume none: "filter_status filters = None"
    and p: "p \<in> set (presets (getPresets db filters))"
  from getPresets_rows [OF p] obtain r where "where_clause filters r" and pr: "p = rowToPreset r"
    by blast
  with none have "status r = Approved" by (simp add: where_clause_def Let_def)
  with pr show "status p = Approved" by simp
next
  fix p
  assume "p \<in> set (getFeaturedPresets db)"
  from getFeaturedPresets_rows [OF this] show "status p = Approved" by auto
qed

text \<open>
  On the sample database, which holds two approved presets, a pending and a rejected
  one, both lists are the two approved presets, the more voted first.
\<close>

theorem default_listing_only_approved_witness:
  "filter_status no_filters = None
   \<and> list_all (\<lambda>p. status p = Approved) (presets (getPresets sample_db no_filters))
   \<and> list_all (\<lambda>p. status p = Approved) (getFeaturedPresets sample_db)
   \<and> map preset_id (presets (getPresets sample_db no_filters)) = [''p1'', ''p4'']
   \<and> map preset_id (getFeaturedPresets sample_db) = [''p1'', ''p4'']"
proof -
  have n: "filter_status no_filters = None" by (simp add: no_filters_def)
  have a: "map preset_id (presets (getPresets sample_db no_filters)) = [''p1'', ''p4'']"
    by code_simp
  have b: "map preset_id (getFeaturedPresets sample_db) = [''p1'', ''p4'']"
    by code_simp
  from default_listing_only_approved [of no_filters sample_db] n
  have "list_all (\<lambda>p. status p = Approved) (presets (getPresets sample_db no_filters))"
    and "list_all (\<lambda>p. status p = Approved) (getFeaturedPresets sample_db)"
    by (simp_all add: list_all_iff)
  with n a b show ?thesis by simp
qed

subsection \<open>Status update\<close>

lemma find_map_update:
  assumes "\<And>r. key (f r) = key r"
  shows "find (\<lambda>r. key r = i) (map (\<lambda>r. if key r = i then f r else r) rows)
         = map_option f (find (\<lambda>r. key r = i) rows)"
  using assms by (induction rows) auto

text \<open>
  C2. The claim says that the status update permits only the transitions of the state
  machine, and that a rejected preset keeps its status whatever is requested.
  \<^verbatim>\<open>updatePresetStatus\<close> makes no check: its \<^verbatim>\<open>UPDATE\<close> writes the requested
  status on the row with that id. On the sample database the preset \<^verbatim>\<open>p3\<close> is
  rejected, and a request for approved makes it approved.
\<close>

theorem updatePresetStatus_rejected_counterexample:
  "map_option status (getPresetById sample_db ''p3'') = Some Rejected
   \<and> map_option status (snd (updatePresetStatus sample_db ''p3'' Approved 1762084800000))
       = Some Approved
   \<and> map_option status
        (getPresetById (fst (updatePresetStatus sample_db ''p3'' Approved 1762084800000)) ''p3'')
       = Some Approved"
  by code_simp

text \<open>
  C2, as amended. The status update checks no transition: for every stored preset,
  whatever its status, and every requested status, the preset has the requested status
  afterwards, its \<^verbatim>\<open>updated_at\<close> is the time of the update, and the updated preset is
  returned.
\<close>

theorem updatePresetStatus_sets_status:
  assumes "getPresetById db i = Some p"
  shows "\<exists>p'. snd (updatePresetStatus db i st now) = Some p'
              \<and> getPresetById (fst (updatePresetStatus db i st now)) i = Some p'
              \<and> status p' = st \<and> preset_id p' = i \<and> updated_at p' = now"
proof -
  from assms obtain r where r: "find (\<lambda>r. preset_id r = i) (presets_table db) = Some r"
    by (auto simp: getPresetById_def)
  then have ri: "preset_id r = i" by (auto simp: find_Some_iff)
  let ?f = "\<lambda>r. r\<lparr>status := st, updated_at := now\<rparr>"
  have "find (\<lambda>r. preset_id r = i)
          (map (\<lambda>r. if preset_id r = i then ?f r else r) (presets_table db))
        = map_option ?f (find (\<lambda>r. preset_id r = i) (presets_table db))"
    by (rule find_map_update) simp
  with r ri show ?thesis
    by (simp add: updatePresetStatus_def getPresetById_def Let_def rowToPreset_def)
qed

theorem updatePresetStatus_sets_status_witness:
  "getPresetById sample_db ''p3'' = Some (rowToPreset (sample_row ''p3'' [5, 6] Rejected 0))
   \<and> (\<exists>p'. snd (updatePresetStatus sample_db ''p3'' Approved 1762084800000) = Some p'
          \<and> getPresetById (fst (updatePresetStatus sample_db ''p3'' Approved 1762084800000))
               ''p3'' = Some p'
          \<and> status p' = Approved \<and> preset_id p' = ''p3'' \<and> updated_at p' = 1762084800000)"
proof -
  have h: "getPresetById sample_db ''p3''
           = Some (rowToPreset (sample_row ''p3'' [5, 6] Rejected 0))"
    by (simp add: getPresetById_def sample_db_def sample_row_def)
  from h updatePresetStatus_sets_status [OF h] show ?thesis by blast
qed

subsection \<open>Votes\<close>

lemma or_default_zero [simp]:
  "or_default v (0::int) = (case v of None \<Rightarrow> 0 | Some n \<Rightarrow> n)"
  by (simp add: or_default_def split: option.splits)

text \<open>
  C3. When a vote row of the voter for the preset exists, \<^verbatim>\<open>addVote\<close> leaves the
  database as it is (no vote row is inserted, no vote count changes) and answers
  \<^verbatim>\<open>already_voted = true\<close>, with the vote count of the preset as stored and no
  \<^verbatim>\<open>error\<close>. (The count is 0 when no preset has that id.)
\<close>

theorem addVote_idempotent:
  assumes "vote_exists db presetId userId"
  shows "addVote db presetId userId now ok =
           (db, \<lparr>success = False,
                 new_vote_count =
                   (case select_vote_count db presetId of None \<Rightarrow> 0 | Some n \<Rightarrow> n),
                 already_voted = Some True, error = None\<rparr>)"
  using assms by (simp add: addVote_def)

theorem addVote_idempotent_witness:
  "vote_exists sample_db ''p1'' ''1001''
   \<and> addVote sample_db ''p1'' ''1001'' 1762084800000 True =
       (sample_db,
        \<lparr>success = False, new_vote_count = 3, already_voted = Some True, error = None\<rparr>)"
proof -
  have h: "vote_exists sample_db ''p1'' ''1001''" by code_simp
  have c: "select_vote_count sample_db ''p1'' = Some 3" by code_simp
  from h addVote_idempotent [OF h, of 1762084800000 True] c show ?thesis by simp
qed

text \<open>A vote that succeeds leaves its row, so the next vote of the same voter is the no-op.\<close>

lemma addVote_then_exists:
  "success (snd (addVote db presetId userId now ok))
   \<Longrightarrow> vote_exists (fst (addVote db presetId userId now ok)) presetId userId"
  by (auto simp: addVote_def vote_exists_def Let_def split: if_splits)

lemma addVote_twice:
  assumes "addVote db presetId userId t1 ok1 = (db1, r1)" and "success r1"
  shows "fst (addVote db1 presetId userId t2 ok2) = db1
         \<and> already_voted (snd (addVote db1 presetId userId t2 ok2)) = Some True
         \<and> error (snd (addVote db1 presetId userId t2 ok2)) = None"
proof -
  from assms addVote_then_exists [of db presetId userId t1 ok1]
  have "vote_exists db1 presetId userId" by simp
  then show ?thesis by (simp add: addVote_def)
qed

lemma removeVote_committed:
  assumes "vote_exists db presetId userId" and "ok"
  shows "fst (removeVote db presetId userId now ok) =
           db\<lparr>votes_table :=
                 filter (\<lambda>v. \<not> (vote_preset_id v = presetId \<and> user_discord_id v = userId))
                        (votes_table db),
               presets_table :=
                 map (\<lambda>r. if preset_id r = presetId
                           then r\<lparr>vote_count := max 0 (vote_count r - 1), updated_at := now\<rparr>
                           else r)
                     (presets_table db)\<rparr>"
  using assms by (simp add: removeVote_def Let_def)

lemma removeVote_vote_count:
  assumes "vote_exists db presetId userId" and "ok"
  shows "select_vote_count (fst (removeVote db presetId userId now ok)) presetId
         = map_option (\<lambda>n. max 0 (n - 1)) (select_vote_count db presetId)"
proof -
  let ?f = "\<lambda>r. r\<lparr>vote_count := max 0 (vote_count r - 1), updated_at := now\<rparr>"
  have "find (\<lambda>r. preset_id r = presetId)
          (map (\<lambda>r. if preset_id r = presetId then ?f r else r) (presets_table db))
        = map_option ?f (find (\<lambda>r. preset_id r = presetId) (presets_table db))"
    by (rule find_map_update) simp
  then show ?thesis
    by (simp add: removeVote_committed [OF assms] select_vote_count_def option.map_comp comp_def)
qed

lemma removeVote_nonneg:
  assumes "\<forall>r \<in> set (presets_table db). 0 \<le> vote_count r"
  shows "\<forall>r \<in> set (presets_table (fst (removeVote db presetId userId now ok))).
           0 \<le> vote_count r"
  using assms by (auto simp: removeVote_def Let_def)

text \<open>
  C8. \<^verbatim>\<open>removeVote\<close> mirrors \<^verbatim>\<open>addVote\<close>.
  \<^item> When no vote row of the voter for the preset exists, the database is left as it is
    and the answer is \<^verbatim>\<open>already_voted = false\<close> with the stored vote count and no
    \<^verbatim>\<open>error\<close>.
  \<^item> When a vote row exists and the transaction commits, no such row is left, the other
    vote rows are kept, and the vote count of the preset is \<open>max 0 (n - 1)\<close> for the
    stored count \<open>n\<close>, which the answer reports.
  \<^item> Vote counts that are not negative before \<^verbatim>\<open>removeVote\<close> are not negative after
    it, in every case.
\<close>

theorem removeVote_mirror:
  "(\<not> vote_exists db presetId userId \<longrightarrow>
      removeVote db presetId userId now ok =
        (db, \<lparr>success = False,
              new_vote_count =
                (case select_vote_count db presetId of None \<Rightarrow> 0 | Some n \<Rightarrow> n),
              already_voted = Some False, error = None\<rparr>))
   \<and> (vote_exists db presetId userId \<and> ok \<longrightarrow>
        \<not> vote_exists (fst (removeVote db presetId userId now ok)) presetId userId
        \<and> votes_table (fst (removeVote db presetId userId now ok))
            = filter (\<lambda>v. \<not> (vote_preset_id v = presetId \<and> user_discord_id v = userId))
                     (votes_table db)
        \<and> select_vote_count (fst (removeVote db presetId userId now ok)) presetId
            = map_option (\<lambda>n. max 0 (n - 1)) (select_vote_count db presetId)
        \<and> snd (removeVote db presetId userId now ok)
            = \<lparr>success = True,
               new_vote_count =
                 (case select_vote_count db presetId of
                    None \<Rightarrow> 0 | Some n \<Rightarrow> max 0 (n - 1)),
               already_voted = None, error = None\<rparr>)
   \<and> ((\<forall>r \<in> set (presets_table db). 0 \<le> vote_count r) \<longrightarrow>
        (\<forall>r \<in> set (presets_table (fst (removeVote db presetId userId now ok))).
           0 \<le> vote_count r))"
proof (intro conjI impI)
  assume "\<not> vote_exists db presetId userId"
  then show "removeVote db presetId userId now ok =
        (db, \<lparr>success = False,
              new_vote_count =
                (case select_vote_count db presetId of None \<Rightarrow> 0 | Some n \<Rightarrow> n),
              already_voted = Some False, error = None\<rparr>)"
    by (simp add: removeVote_def)
next
  assume h: "vote_exists db presetId userId \<and> ok"
  then show "\<not> vote_exists (fst (removeVote db presetId userId now ok)) presetId userId"
    by (simp add: removeVote_committed vote_exists_def list_ex_iff)
  from h show "votes_table (fst (removeVote db presetId userId now ok))
            = filter (\<lambda>v. \<not> (vote_preset_id v = presetId \<and> user_discord_id v = userId))
                     (votes_table db)"
    by (simp add: removeVote_committed)
  from h show c: "select_vote_count (fst (removeVote db presetId userId now ok)) presetId
            = map_option (\<lambda>n. max 0 (n - 1)) (select_vote_count db presetId)"
    by (simp add: removeVote_vote_count)
  from h have "snd (removeVote db presetId userId now ok)
            = \<lparr>success = True,
               new_vote_count =
                 or_default
                   (select_vote_count (fst (removeVote db presetId userId now ok)) presetId) 0,
               already_voted = None, error = None\<rparr>"
    by (simp add: removeVote_def Let_def)
  then show "snd (removeVote db presetId userId now ok)
            = \<lparr>success = True,
               new_vote_count =
                 (case select_vote_count db presetId of
                    None \<Rightarrow> 0 | Some n \<Rightarrow> max 0 (n - 1)),
               already_voted = None, error = None\<rparr>"
    by (simp add: c split: option.splits)
next
  assume "\<forall>r \<in> set (presets_table db). 0 \<le> vote_count r"
  then show "\<forall>r \<in> set (presets_table (fst (removeVote db presetId userId now ok))).
           0 \<le> vote_count r"
    by (rule removeVote_nonneg)
qed

text \<open>
  On the sample database: the voter 1001 has no vote for \<^verbatim>\<open>p2\<close>; the voter 1002 has a
  vote for \<^verbatim>\<open>p3\<close>, whose stored count is 0 and stays 0.
\<close>

theorem removeVote_mirror_witness:
  "\<not> vote_exists sample_db ''p2'' ''1001''
   \<and> removeVote sample_db ''p2'' ''1001'' 1762084800000 True =
       (sample_db,
        \<lparr>success = False, new_vote_count = 5, already_voted = Some False, error = None\<rparr>)
   \<and> vote_exists sample_db ''p3'' ''1002''
   \<and> \<not> vote_exists (fst (removeVote sample_db ''p3'' ''1002'' 1762084800000 True)) ''p3'' ''1002''
   \<and> select_vote_count sample_db ''p3'' = Some 0
   \<and> select_vote_count (fst (removeVote sample_db ''p3'' ''1002'' 1762084800000 True)) ''p3''
       = Some 0
   \<and> list_all (\<lambda>r. 0 \<le> vote_count r) (presets_table sample_db)
   \<and> list_all (\<lambda>r. 0 \<le> vote_count r)
        (presets_table (fst (removeVote sample_db ''p3'' ''1002'' 1762084800000 True)))"
proof -
  have a: "\<not> vote_exists sample_db ''p2'' ''1001''" by code_simp
  have b: "vote_exists sample_db ''p3'' ''1002''" by code_simp
  have c2: "select_vote_count sample_db ''p2'' = Some 5" by code_simp
  have c3: "select_vote_count sample_db ''p3'' = Some 0" by code_simp
  have n: "\<forall>r \<in> set (presets_table sample_db). 0 \<le> vote_count r"
    by (simp add: sample_db_def sample_row_def)
  from removeVote_mirror [of sample_db "''p2''" "''1001''" 1762084800000 True] a c2
  have r1: "removeVote sample_db ''p2'' ''1001'' 1762084800000 True =
       (sample_db,
        \<lparr>success = False, new_vote_count = 5, already_voted = Some False, error = None\<rparr>)"
    by simp
  from removeVote_mirror [of sample_db "''p3''" "''1002''" 1762084800000 True] b c3 n
  have r2: "\<not> vote_exists (fst (removeVote sample_db ''p3'' ''1002'' 1762084800000 True))
               ''p3'' ''1002''"
    and r3: "select_vote_count (fst (removeVote sample_db ''p3'' ''1002'' 1762084800000 True))
               ''p3'' = Some 0"
    and r4: "\<forall>r \<in> set (presets_table
                         (fst (removeVote sample_db ''p3'' ''1002'' 1762084800000 True))).
               0 \<le> vote_count r"
    by simp_all
  from a b c3 n r1 r2 r3 r4 show ?thesis by (simp add: list_all_iff)
qed

subsection \<open>Doubles\<close>

text \<open>
  The double 0.7 is \<open>3152519739159347 / 2\<^sup>5\<^sup>2\<close>, a little below seven tenths, and
  rounding does not carry a number that is at least seven tenths below it: a score
  that is at or above 0.7 as a real number is at or above the threshold as a double.
\<close>

lemma round_half_even_ge: "of_int n \<le> x \<Longrightarrow> n \<le> round_half_even x"
proof -
  assume "of_int n \<le> x"
  then have "n \<le> \<lfloor>x\<rfloor>" by (simp add: le_floor_iff)
  then show ?thesis by (auto simp: round_half_even_def Let_def)
qed

lemma exponent_down_bounds:
  "1 \<le> x \<Longrightarrow> e0 \<le> exponent_down x e0 \<and> 2 powi (exponent_down x e0 - e0) \<le> x"
proof (induction x e0 rule: exponent_down.induct)
  case (1 x e)
  show ?case
  proof (cases "2 \<le> x")
    case True
    then have "1 \<le> x / 2" by simp
    with 1 True have ih: "e + 1 \<le> exponent_down (x / 2) (e + 1)"
      "2 powi (exponent_down (x / 2) (e + 1) - (e + 1)) \<le> x / 2" by simp_all
    have eq: "exponent_down x e = exponent_down (x / 2) (e + 1)"
      using True by (subst exponent_down.simps) simp
    have "2 powi (exponent_down x e - e)
          = 2 * (2::real) powi (exponent_down (x / 2) (e + 1) - (e + 1))"
      unfolding eq by (simp add: power_int_diff power_int_add)
    with ih eq show ?thesis by simp
  next
    case False
    then have "exponent_down x e = e" by (subst exponent_down.simps) simp
    with 1 show ?thesis by simp
  qed
qed

lemma to_double_ge_one:
  assumes "1 \<le> x"
  shows "1 \<le> to_double x"
proof -
  let ?e = "exponent_down x 0"
  from exponent_down_bounds [OF assms, of 0] have e: "0 \<le> ?e" and p: "2 powi ?e \<le> x"
    by simp_all
  let ?u = "(2::real) powi (?e - 52)"
  have u: "0 < ?u" by simp
  have pu: "(2::real) powi ?e = 2 ^ 52 * ?u" by (simp add: power_int_diff)
  with p have "2 ^ 52 * ?u \<le> x" by simp
  with u have "2 ^ 52 \<le> x / ?u" by (simp add: pos_le_divide_eq)
  then have "of_int (2 ^ 52) \<le> x / ?u" by simp
  then have "2 ^ 52 \<le> round_half_even (x / ?u)" by (rule round_half_even_ge)
  then have "(2 ^ 52 :: real) \<le> of_int (round_half_even (x / ?u))"
    by (metis of_int_le_iff of_int_numeral of_int_power)
  with u have "2 ^ 52 * ?u \<le> of_int (round_half_even (x / ?u)) * ?u" by simp
  moreover have "(1::real) \<le> 2 powi ?e" using e by (simp add: one_le_power_int)
  ultimately have "1 \<le> of_int (round_half_even (x / ?u)) * ?u" using pu by linarith
  with assms show ?thesis by (simp add: to_double_def Let_def)
qed

lemma to_double_seven_tenths: "to_double (7 / 10) = 3152519739159347 / 4503599627370496"
  by code_simp

lemma threshold_pos: "0 < threshold"
  by (simp add: threshold_def to_double_seven_tenths)

lemma threshold_monotone:
  assumes "7 / 10 \<le> v"
  shows "threshold \<le> to_double v"
proof (cases "1 \<le> v")
  case True
  from to_double_ge_one [OF True] show ?thesis
    by (simp add: threshold_def to_double_seven_tenths)
next
  case False
  with assms have a: "\<bar>v\<bar> = v" and lt: "v < 1" and nz: "v \<noteq> 0" by simp_all
  have e: "exponent_up v 0 = - 1"
    using assms lt
    by (subst exponent_up.simps, simp, subst exponent_up.simps, simp)
  let ?u = "(2::real) powi (- 53)"
  have "of_int 6305039478318694 \<le> v / ?u"
    using assms by (simp add: power_int_minus field_simps)
  then have "6305039478318694 \<le> round_half_even (v / ?u)" by (rule round_half_even_ge)
  then have "(6305039478318694::real) \<le> of_int (round_half_even (v / ?u))"
    by (metis of_int_le_iff of_int_numeral)
  then have "6305039478318694 * ?u \<le> of_int (round_half_even (v / ?u)) * ?u" by simp
  moreover have "to_double v = of_int (round_half_even (v / ?u)) * ?u"
    using False assms nz by (simp add: to_double_def Let_def a e)
  ultimately show ?thesis
    by (simp add: threshold_def to_double_seven_tenths power_int_minus)
qed

subsection \<open>Moderation\<close>

lemma find_Some_set: "find P xs = Some x \<Longrightarrow> x \<in> set xs \<and> P x"
  by (induction xs) (auto split: if_splits)

lemma checkWithPerspective_unavailable:
  assumes "falsy (PERSPECTIVE_API_KEY env)
           \<or> (\<exists>apiKey. PERSPECTIVE_API_KEY env = Some apiKey
                \<and> (api apiKey t = NetworkError
                    \<or> (\<exists>body. api apiKey t = HttpResponse False body)
                    \<or> api apiKey t = HttpResponse True InvalidJson
                    \<or> api apiKey t = HttpResponse True (JsonBody None)))"
  shows "checkWithPerspective t env api =
           (None, case PERSPECTIVE_API_KEY env of
                    None \<Rightarrow> []
                  | Some k \<Rightarrow> if k = [] then [] else [(k, t)])"
  using assms
  by (auto simp: checkWithPerspective_def falsy_def split: option.splits)

lemma checkWithPerspective_scores:
  assumes "PERSPECTIVE_API_KEY env = Some apiKey" and "apiKey \<noteq> []"
    and "api apiKey t = HttpResponse True (JsonBody (Some a))"
  shows "checkWithPerspective t env api =
           (case find (\<lambda>(key, value). threshold \<le> value) (attribute_scores a) of
              Some (key, value) \<Rightarrow>
                Some \<lparr>passed = False, flaggedField = Some FieldContent,
                      flaggedReason =
                        Some (''High '' @ key @ '' score detected (''
                              @ number_to_string (math_round (to_double (value * 100)))
                              @ ''%)''),
                      method_tag = PerspectiveMethod, scores = Some (attribute_scores a)\<rparr>
            | None \<Rightarrow>
                Some \<lparr>passed = True, flaggedField = None, flaggedReason = None,
                      method_tag = PerspectiveMethod, scores = Some (attribute_scores a)\<rparr>,
            [(apiKey, t)])"
  using assms by (simp add: checkWithPerspective_def Let_def)

lemma moderateContent_local_pass:
  assumes "checkLocalFilter (compiledProfanityPatterns enProfanity) nm desc = None"
  shows "moderateContent enProfanity nm desc env api =
           (case checkWithPerspective (nm @ '' '' @ desc) env api of
              (perspectiveResult, calls) \<Rightarrow>
                (case perspectiveResult of
                   Some r \<Rightarrow>
                     if \<not> passed r then (r, calls)
                     else (\<lparr>passed = True, flaggedField = None, flaggedReason = None,
                            method_tag = AllMethods, scores = scores r\<rparr>, calls)
                 | None \<Rightarrow>
                     (\<lparr>passed = True, flaggedField = None, flaggedReason = None,
                       method_tag = LocalMethod, scores = None\<rparr>, calls)))"
  using assms by (simp add: moderateContent_def Let_def)

lemma moderateContent_local_match:
  assumes "find (\<lambda>regex. regex_test regex (toLowerCase (nm @ '' '' @ desc)))
             (compiledProfanityPatterns enProfanity) = Some w"
  shows "moderateContent enProfanity nm desc env api =
           (\<lparr>passed = False,
             flaggedField = Some (if regex_test w (toLowerCase nm) then FieldName
                                  else FieldDescription),
             flaggedReason = Some ''Contains prohibited content'',
             method_tag = LocalMethod, scores = None\<rparr>, [])"
  using assms by (simp add: moderateContent_def checkLocalFilter_def Let_def)

text \<open>
  The scores that \<^verbatim>\<open>checkWithPerspective\<close> builds, as a function of the five values
  read from the response in the order of the object literal.
\<close>

lemma attribute_scores_entries:
  "attribute_scores a =
     map (\<lambda>(k, x). (k, case x of None \<Rightarrow> 0 | Some w \<Rightarrow> to_double w))
       [(''toxicity'', TOXICITY a), (''severeToxicity'', SEVERE_TOXICITY a),
        (''identityAttack'', IDENTITY_ATTACK a), (''insult'', INSULT a),
        (''profanity'', PROFANITY a)]"
  by (simp add: attribute_scores_def or_default_def split: option.splits)

lemma moderateContent_unavailable:
  assumes "checkLocalFilter (compiledProfanityPatterns enProfanity) nm desc = None"
    and "falsy (PERSPECTIVE_API_KEY env)
           \<or> (\<exists>apiKey. PERSPECTIVE_API_KEY env = Some apiKey
                \<and> (api apiKey (nm @ '' '' @ desc) = NetworkError
                    \<or> (\<exists>b. api apiKey (nm @ '' '' @ desc) = HttpResponse False b)
                    \<or> api apiKey (nm @ '' '' @ desc) = HttpResponse True InvalidJson
                    \<or> api apiKey (nm @ '' '' @ desc) = HttpResponse True (JsonBody None)))"
  shows "moderateContent enProfanity nm desc env api =
           (\<lparr>passed = True, flaggedField = None, flaggedReason = None,
             method_tag = LocalMethod, scores = None\<rparr>,
            case PERSPECTIVE_API_KEY env of
              None \<Rightarrow> []
            | Some k \<Rightarrow> if k = [] then [] else [(k, nm @ '' '' @ desc)])"
  using checkWithPerspective_unavailable
          [where api = api and t = "nm @ '' '' @ desc" and env = env, OF assms(2)]
  by (simp add: moderateContent_local_pass [OF assms(1)])

lemma moderateContent_clean:
  assumes "checkLocalFilter (compiledProfanityPatterns enProfanity) nm desc = None"
    and "PERSPECTIVE_API_KEY env = Some apiKey" and "apiKey \<noteq> []"
    and "api apiKey (nm @ '' '' @ desc) = HttpResponse True (JsonBody (Some a))"
    and "entries = [(''toxicity'', TOXICITY a), (''severeToxicity'', SEVERE_TOXICITY a),
                    (''identityAttack'', IDENTITY_ATTACK a), (''insult'', INSULT a),
                    (''profanity'', PROFANITY a)]"
    and "\<forall>(k, x) \<in> set entries.
           case x of None \<Rightarrow> True | Some w \<Rightarrow> to_double w < to_double (7 / 10)"
  shows "moderateContent enProfanity nm desc env api =
           (\<lparr>passed = True, flaggedField = None, flaggedReason = None,
             method_tag = AllMethods,
             scores = Some (map (\<lambda>(k, x). (k, case x of None \<Rightarrow> 0 | Some w \<Rightarrow> to_double w))
                              entries)\<rparr>,
            [(apiKey, nm @ '' '' @ desc)])"
proof -
  let ?f = "\<lambda>(k :: string, x). (k, case x of None \<Rightarrow> 0 | Some w \<Rightarrow> to_double w)"
  have sc: "attribute_scores a = map ?f entries"
    unfolding assms(5) by (rule attribute_scores_entries)
  have "\<not> threshold \<le> (case x of None \<Rightarrow> 0 | Some w \<Rightarrow> to_double w)"
    if "(k, x) \<in> set entries" for k x
  proof (cases x)
    case None
    with threshold_pos show ?thesis by simp
  next
    case (Some w)
    with that assms(6) have "to_double w < to_double (7 / 10)" by force
    with Some show ?thesis by (simp add: threshold_def)
  qed
  then have "find (\<lambda>(key, value). threshold \<le> value) (map ?f entries) = None"
    by (auto simp: find_None_iff)
  with checkWithPerspective_scores [where api = api and t = "nm @ '' '' @ desc", OF assms(2,3,4)]
  show ?thesis
    by (simp add: moderateContent_local_pass [OF assms(1)] sc)
qed

lemma moderateContent_flagged:
  assumes "checkLocalFilter (compiledProfanityPatterns enProfanity) nm desc = None"
    and "PERSPECTIVE_API_KEY env = Some apiKey" and "apiKey \<noteq> []"
    and "api apiKey (nm @ '' '' @ desc) = HttpResponse True (JsonBody (Some a))"
    and "entries = [(''toxicity'', TOXICITY a), (''severeToxicity'', SEVERE_TOXICITY a),
                    (''identityAttack'', IDENTITY_ATTACK a), (''insult'', INSULT a),
                    (''profanity'', PROFANITY a)]"
    and "(attribute, Some score) \<in> set entries" and "7 / 10 \<le> score"
  shows "\<exists>i v. i < length entries \<and> snd (entries ! i) = Some v
           \<and> to_double (7 / 10) \<le> to_double v
           \<and> (\<forall>j<i. \<forall>w. snd (entries ! j) = Some w \<longrightarrow> to_double w < to_double (7 / 10))
           \<and> moderateContent enProfanity nm desc env api =
               (\<lparr>passed = False, flaggedField = Some FieldContent,
                 flaggedReason =
                   Some (''High '' @ fst (entries ! i) @ '' score detected (''
                         @ number_to_string \<lfloor>to_double (to_double v * 100) + 1 / 2\<rfloor>
                         @ ''%)''),
                 method_tag = PerspectiveMethod,
                 scores = Some (map (\<lambda>(k, x). (k, case x of None \<Rightarrow> 0
                                                      | Some w \<Rightarrow> to_double w))
                                  entries)\<rparr>,
                [(apiKey, nm @ '' '' @ desc)])"
proof -
  let ?f = "\<lambda>(k :: string, x). (k, case x of None \<Rightarrow> 0 | Some w \<Rightarrow> to_double w)"
  let ?P = "\<lambda>(k :: string, s :: real). threshold \<le> s"
  have sc: "attribute_scores a = map ?f entries"
    unfolding assms(5) by (rule attribute_scores_entries)
  from threshold_monotone [OF assms(7)] have "?P (?f (attribute, Some score))" by simp
  with assms(6) have "\<exists>y \<in> set (map ?f entries). ?P y" by force
  then have "find ?P (map ?f entries) \<noteq> None" by (simp add: find_None_iff)
  then obtain y where f: "find ?P (map ?f entries) = Some y" by blast
  then obtain i where i: "i < length entries" and pi: "?P (?f (entries ! i))"
    and y: "y = ?f (entries ! i)" and first: "\<forall>j<i. \<not> ?P (?f (entries ! j))"
    by (auto simp: find_Some_iff)
  obtain k x where e: "entries ! i = (k, x)" by (cases "entries ! i")
  from pi e threshold_pos obtain v where x: "x = Some v" and tv: "threshold \<le> to_double v"
    by (cases x) auto
  have low: "\<forall>j<i. \<forall>w. snd (entries ! j) = Some w \<longrightarrow> to_double w < to_double (7 / 10)"
  proof (intro allI impI)
    fix j w
    assume "j < i" and w: "snd (entries ! j) = Some w"
    with first have "\<not> ?P (?f (entries ! j))" by simp
    with w show "to_double w < to_double (7 / 10)"
      by (cases "entries ! j") (simp add: threshold_def)
  qed
  from f y e x
    checkWithPerspective_scores [where api = api and t = "nm @ '' '' @ desc", OF assms(2,3,4)]
  have "moderateContent enProfanity nm desc env api =
               (\<lparr>passed = False, flaggedField = Some FieldContent,
                 flaggedReason =
                   Some (''High '' @ k @ '' score detected (''
                         @ number_to_string \<lfloor>to_double (to_double v * 100) + 1 / 2\<rfloor>
                         @ ''%)''),
                 method_tag = PerspectiveMethod,
                 scores = Some (map ?f entries)\<rparr>,
                [(apiKey, nm @ '' '' @ desc)])"
    by (simp add: moderateContent_local_pass [OF assms(1)] sc math_round_def)
  with i e x tv low show ?thesis
    by (intro exI [of _ i] exI [of _ v]) (simp add: threshold_def)
qed

text \<open>
  The match of a pattern: it does not depend on the case of the text or of the word, and
  for a word without a space a match in two texts joined by a space is a match in one
  of the two.
\<close>

lemma of_char_lower:
  "of_char (ascii_lower c) =
     (if 65 \<le> (of_char c :: nat) \<and> (of_char c :: nat) \<le> 90 then of_char c + 32
      else (of_char c :: nat))"
  by (simp add: ascii_lower_def less_eq_char_def)

lemma of_char_upper:
  "of_char (ascii_upper c) =
     (if 97 \<le> (of_char c :: nat) \<and> (of_char c :: nat) \<le> 122 then of_char c - 32
      else (of_char c :: nat))"
proof -
  have "(of_char c :: nat) - 32 < 256" using nat_of_char_less_256 [of c] by arith
  then have "((of_char c :: nat) - 32) mod 256 = of_char c - 32" by (rule mod_less)
  then show ?thesis by (simp add: ascii_upper_def less_eq_char_def)
qed

lemma ascii_upper_lower [simp]: "ascii_upper (ascii_lower c) = ascii_upper c"
proof -
  have "(of_char (ascii_upper (ascii_lower c)) :: nat) = of_char (ascii_upper c)"
    by (simp add: of_char_upper of_char_lower)
  then show ?thesis by simp
qed

lemma underscore_nat: "c = CHR ''_'' \<longleftrightarrow> (of_char c :: nat) = 95"
proof -
  have "(of_char (CHR ''_'') :: nat) = 95" by simp
  then show ?thesis by (metis of_char_eq_iff)
qed

lemma is_word_char_nat:
  "is_word_char c =
     (let n = (of_char c :: nat)
      in (97 \<le> n \<and> n \<le> 122) \<or> (65 \<le> n \<and> n \<le> 90) \<or> (48 \<le> n \<and> n \<le> 57) \<or> n = 95)"
  by (simp add: is_word_char_def less_eq_char_def Let_def underscore_nat)

lemma is_word_char_lower [simp]: "is_word_char (ascii_lower c) = is_word_char c"
  by (auto simp add: is_word_char_nat of_char_lower Let_def)

lemma is_word_char_upper [simp]: "is_word_char (ascii_upper c) = is_word_char c"
  by (auto simp add: is_word_char_nat of_char_upper Let_def)


lemma regex_test_iff: "regex_test w t \<longleftrightarrow> (\<exists>i. matches_at w t i)"
proof
  assume "regex_test w t"
  then show "\<exists>i. matches_at w t i" by (auto simp: regex_test_def list_ex_iff)
next
  assume "\<exists>i. matches_at w t i"
  then obtain i where m: "matches_at w t i" ..
  then have "i \<le> length t" by (simp add: matches_at_def)
  with m show "regex_test w t"
    unfolding regex_test_def list_ex_iff by (intro bexI [of _ i]) auto
qed

lemma word_boundary_toLowerCase [simp]:
  "word_boundary (toLowerCase t) i = word_boundary t i"
  by (auto simp: word_boundary_def toLowerCase_def)

lemma matches_at_toLowerCase [simp]:
  "matches_at w (toLowerCase t) i = matches_at w t i"
proof -
  have "map ascii_upper (take (length w) (drop i (map ascii_lower t)))
        = map ascii_upper (take (length w) (drop i t))"
    by (simp add: take_map drop_map comp_def)
  then show ?thesis
    using word_boundary_toLowerCase [of t]
    by (simp add: matches_at_def) (simp add: toLowerCase_def)
qed

lemma matches_at_toLowerCase_word [simp]:
  "matches_at (toLowerCase w) t i = matches_at w t i"
  by (simp add: matches_at_def toLowerCase_def comp_def)

lemma regex_test_toLowerCase [simp]:
  "regex_test w (toLowerCase t) = regex_test w t"
  "regex_test (toLowerCase w) t = regex_test w t"
  by (simp_all add: regex_test_iff)

lemma word_boundary_left:
  assumes "i \<le> length a" and "\<not> is_word_char sp"
  shows "word_boundary (a @ sp # b) i = word_boundary a i"
  using assms by (cases "i = length a") (auto simp: word_boundary_def nth_append)

lemma word_boundary_right:
  assumes "\<not> is_word_char sp"
  shows "word_boundary (a @ sp # b) (Suc (length a) + i) = word_boundary b i"
  using assms by (cases i) (auto simp: word_boundary_def nth_append)

lemma matches_at_left:
  assumes "i + length w \<le> length a" and "\<not> is_word_char sp"
  shows "matches_at w (a @ sp # b) i = matches_at w a i"
  using assms by (simp add: matches_at_def word_boundary_left)

lemma matches_at_right:
  assumes "\<not> is_word_char sp"
  shows "matches_at w (a @ sp # b) (Suc (length a) + i) = matches_at w b i"
proof -
  have "drop (Suc (length a) + i) (a @ sp # b) = drop i b" by simp
  moreover have "word_boundary (a @ sp # b) (Suc (length a) + i + length w)
                 = word_boundary b (i + length w)"
    using word_boundary_right [OF assms, of a b "i + length w"] by (simp add: add.assoc)
  ultimately show ?thesis
    using word_boundary_right [OF assms, of a b i]
    by (simp add: matches_at_def)
qed

lemma ascii_upper_space: "ascii_upper c = CHR '' '' \<longleftrightarrow> c = CHR '' ''"
proof -
  have "(of_char (ascii_upper c) :: nat) = 32 \<longleftrightarrow> (of_char c :: nat) = 32"
    by (auto simp: of_char_upper)
  moreover have "(of_char (CHR '' '') :: nat) = 32" by simp
  ultimately show ?thesis by (metis of_char_eq_iff)
qed

lemma matches_at_char:
  assumes "matches_at w t i" and "j < length w"
  shows "ascii_upper (t ! (i + j)) = ascii_upper (w ! j)"
proof -
  from assms(1) have len: "i + length w \<le> length t"
    and eq: "map ascii_upper (take (length w) (drop i t)) = map ascii_upper w"
    by (simp_all add: matches_at_def)
  from eq have "map ascii_upper (take (length w) (drop i t)) ! j = map ascii_upper w ! j"
    by simp
  with len assms(2) show ?thesis by simp
qed

lemma regex_test_append_cases:
  assumes "regex_test w (a @ sp # b)"
    and "\<forall>c \<in> set w. ascii_upper c \<noteq> ascii_upper sp"
    and "\<not> is_word_char sp"
  shows "regex_test w a \<or> regex_test w b"
proof -
  from assms(1) obtain i where m: "matches_at w (a @ sp # b) i"
    by (auto simp: regex_test_iff)
  have "i + length w \<le> length a \<or> length a < i"
  proof (rule ccontr)
    assume "\<not> (i + length w \<le> length a \<or> length a < i)"
    then have j: "length a - i < length w" and "i + (length a - i) = length a" by auto
    with matches_at_char [OF m j]
    have "ascii_upper sp = ascii_upper (w ! (length a - i))" by simp
    moreover from j have "w ! (length a - i) \<in> set w" by simp
    ultimately show False using assms(2) by metis
  qed
  then show ?thesis
  proof
    assume "i + length w \<le> length a"
    with m assms(3) have "matches_at w a i" by (simp add: matches_at_left)
    then show ?thesis by (auto simp: regex_test_iff)
  next
    assume "length a < i"
    then obtain k where "i = Suc (length a) + k" by (metis less_iff_Suc_add add_Suc)
    with m matches_at_right [OF assms(3), of w a b k] have "matches_at w b k" by simp
    then show ?thesis by (auto simp: regex_test_iff)
  qed
qed

lemma regex_test_appendI:
  assumes "regex_test w a \<or> regex_test w b" and "\<not> is_word_char sp"
  shows "regex_test w (a @ sp # b)"
  using assms(1)
proof
  assume "regex_test w a"
  then obtain i where m: "matches_at w a i" by (auto simp: regex_test_iff)
  then have "i + length w \<le> length a" by (simp add: matches_at_def)
  with m assms(2) have "matches_at w (a @ sp # b) i" by (simp add: matches_at_left)
  then show ?thesis by (auto simp: regex_test_iff)
next
  assume "regex_test w b"
  then obtain i where "matches_at w b i" by (auto simp: regex_test_iff)
  with matches_at_right [OF assms(2), of w a b i]
  have "matches_at w (a @ sp # b) (Suc (length a) + i)" by simp
  then show ?thesis by (auto simp: regex_test_iff)
qed

lemma regex_test_name_or_description:
  assumes "regex_test w nm \<or> regex_test w desc"
  shows "regex_test w (nm @ '' '' @ desc)"
proof -
  have "\<not> is_word_char (CHR '' '')" by (simp add: is_word_char_def)
  from regex_test_appendI [OF assms this] show ?thesis by simp
qed

lemma regex_test_joined:
  assumes "regex_test w (nm @ '' '' @ desc)" and "CHR '' '' \<notin> set w"
  shows "regex_test w nm \<or> regex_test w desc"
proof -
  have "\<not> is_word_char (CHR '' '')" by (simp add: is_word_char_def)
  moreover from assms(2) have "\<forall>c \<in> set w. ascii_upper c \<noteq> ascii_upper (CHR '' '')"
    by (metis ascii_upper_space)
  ultimately show ?thesis
    using regex_test_append_cases [of w nm "CHR '' ''" desc] assms(1) by simp
qed

text \<open>
  C9. The claim says that the flagged field is \<^verbatim>\<open>name\<close> or \<^verbatim>\<open>description\<close>
  according to where the term occurred, and that the reason is
  \<^verbatim>\<open>prohibited content\<close>. The filter tests each pattern on the name, a space and the
  description joined, and then on the name alone; what does not match the name is
  reported for the description. With the term \<^verbatim>\<open>bad word\<close> listed, the name
  \<^verbatim>\<open>so bad\<close> and the description \<^verbatim>\<open>word of the day\<close>, the term occurs in the joined
  text \<^verbatim>\<open>so bad word of the day\<close>, across the space that joins them, and in neither
  field; \<^verbatim>\<open>description\<close> is flagged. The reason is the text
  \<^verbatim>\<open>Contains prohibited content\<close>.
\<close>

theorem local_filter_field_counterexample:
  "''bad word'' \<in> set (concat (profanityLists spaced_words))
   \<and> validateSubmission
         \<lparr>name = ''so bad'', description = ''word of the day'', category_id = ''community'',
          dyes = [1, 2], tags = []\<rparr> = None
   \<and> regex_test ''bad word'' (''so bad'' @ '' '' @ ''word of the day'')
   \<and> \<not> regex_test ''bad word'' ''so bad''
   \<and> \<not> regex_test ''bad word'' ''word of the day''
   \<and> moderateContent spaced_words ''so bad'' ''word of the day'' sample_env api_down =
       (\<lparr>passed = False, flaggedField = Some FieldDescription,
         flaggedReason = Some ''Contains prohibited content'',
         method_tag = LocalMethod, scores = None\<rparr>, [])
   \<and> flaggedReason
         (fst (moderateContent spaced_words ''so bad'' ''word of the day'' sample_env api_down))
       \<noteq> Some ''prohibited content''"
proof -
  have a: "''bad word'' \<in> set (concat (profanityLists spaced_words))"
    by (simp add: profanityLists_def spaced_words_def)
  have b: "validateSubmission
         \<lparr>name = ''so bad'', description = ''word of the day'', category_id = ''community'',
          dyes = [1, 2], tags = []\<rparr> = None"
    by code_simp
  have c: "regex_test ''bad word'' (''so bad'' @ '' '' @ ''word of the day'')" by code_simp
  have d: "\<not> regex_test ''bad word'' ''so bad''" by code_simp
  have e: "\<not> regex_test ''bad word'' ''word of the day''" by code_simp
  have f: "moderateContent spaced_words ''so bad'' ''word of the day'' sample_env api_down =
       (\<lparr>passed = False, flaggedField = Some FieldDescription,
         flaggedReason = Some ''Contains prohibited content'',
         method_tag = LocalMethod, scores = None\<rparr>, [])"
    by code_simp
  from f have g: "flaggedReason
         (fst (moderateContent spaced_words ''so bad'' ''word of the day'' sample_env api_down))
       \<noteq> Some ''prohibited content''"
    by simp
  from a b c d e f g show ?thesis by blast
qed

text \<open>
  C9, as amended. When a word of the lists matches \<^verbatim>\<open>`${name} ${description}`\<close>,
  compared without regard to case and between word boundaries, \<^verbatim>\<open>moderateContent\<close>
  returns \<^verbatim>\<open>passed = false\<close> with method local and the reason
  \<^verbatim>\<open>Contains prohibited content\<close>, and has sent no request to the external classifier.
  The flagged field is decided by the first pattern \<open>w\<close> of the lists that matches the joined
  text: the name when \<open>w\<close> matches the name, the description otherwise. When \<open>w\<close> has no
  space that is where the term occurred: a \<open>w\<close> without a space that does not match the
  name matches the description.
\<close>

theorem local_filter_blocks:
  assumes "blocked \<in> set (concat (profanityLists enProfanity))"
    and "regex_test blocked (nm @ '' '' @ desc)"
  shows "\<exists>w. find (\<lambda>p. regex_test p (nm @ '' '' @ desc))
                (compiledProfanityPatterns enProfanity) = Some w
           \<and> moderateContent enProfanity nm desc env api =
               (\<lparr>passed = False,
                 flaggedField = Some (if regex_test w nm then FieldName else FieldDescription),
                 flaggedReason = Some ''Contains prohibited content'',
                 method_tag = LocalMethod, scores = None\<rparr>, [])
           \<and> (CHR '' '' \<notin> set w \<and> \<not> regex_test w nm \<longrightarrow> regex_test w desc)"
proof -
  let ?P = "\<lambda>regex. regex_test regex (toLowerCase (nm @ '' '' @ desc))"
  have P: "?P = (\<lambda>p. regex_test p (nm @ '' '' @ desc))" by simp
  from assms have "toLowerCase blocked \<in> set (compiledProfanityPatterns enProfanity)"
    by (simp add: compiledProfanityPatterns_def)
  moreover from assms(2) have "?P (toLowerCase blocked)" by simp
  ultimately have "find ?P (compiledProfanityPatterns enProfanity) \<noteq> None"
    by (auto simp: find_None_iff)
  then obtain w where w: "find ?P (compiledProfanityPatterns enProfanity) = Some w" by blast
  from find_Some_set [OF w] have match: "regex_test w (nm @ '' '' @ desc)" by simp
  have res: "moderateContent enProfanity nm desc env api =
               (\<lparr>passed = False,
                 flaggedField = Some (if regex_test w nm then FieldName else FieldDescription),
                 flaggedReason = Some ''Contains prohibited content'',
                 method_tag = LocalMethod, scores = None\<rparr>, [])"
    using moderateContent_local_match [OF w, of env api] by simp
  have "CHR '' '' \<notin> set w \<and> \<not> regex_test w nm \<longrightarrow> regex_test w desc"
    using regex_test_joined [OF match] by blast
  with w res show ?thesis unfolding P by blast
qed

text \<open>
  On the sample word list, whose only term is \<^verbatim>\<open>badword\<close>: a description that holds
  the term, in capitals and before a comma, is flagged as the description; a name that
  holds it is flagged as the name, whatever the description holds. In both cases the
  API, which would answer with a high score, is not asked.
\<close>

theorem local_filter_blocks_witness:
  "''badword'' \<in> set (concat (profanityLists sample_words))
   \<and> regex_test ''badword'' (''Sunset Glow'' @ '' '' @ ''Warm BADWORD, tones'')
   \<and> \<not> regex_test ''badword'' ''Sunset Glow''
   \<and> regex_test ''badword'' ''Warm BADWORD, tones''
   \<and> moderateContent sample_words ''Sunset Glow'' ''Warm BADWORD, tones'' sample_env
        (api_answers toxic_scores) =
       (\<lparr>passed = False, flaggedField = Some FieldDescription,
         flaggedReason = Some ''Contains prohibited content'',
         method_tag = LocalMethod, scores = None\<rparr>, [])
   \<and> regex_test ''badword'' (''My badword!'' @ '' '' @ ''Warm BADWORD, tones'')
   \<and> regex_test ''badword'' ''My badword!''
   \<and> moderateContent sample_words ''My badword!'' ''Warm BADWORD, tones'' sample_env
        (api_answers toxic_scores) =
       (\<lparr>passed = False, flaggedField = Some FieldName,
         flaggedReason = Some ''Contains prohibited content'',
         method_tag = LocalMethod, scores = None\<rparr>, [])"
proof -
  have h1: "''badword'' \<in> set (concat (profanityLists sample_words))"
    by (simp add: profanityLists_def sample_words_def)
  have h2: "regex_test ''badword'' (''Sunset Glow'' @ '' '' @ ''Warm BADWORD, tones'')"
    by code_simp
  have h3: "regex_test ''badword'' (''My badword!'' @ '' '' @ ''Warm BADWORD, tones'')"
    by code_simp
  have ps: "compiledProfanityPatterns sample_words = [''badword'']" by code_simp
  have nn: "\<not> regex_test ''badword'' ''Sunset Glow''" by code_simp
  have yn: "regex_test ''badword'' ''My badword!''" by code_simp
  have sp: "CHR '' '' \<notin> set ''badword''" by simp
  from local_filter_blocks [OF h1 h2, of sample_env "api_answers toxic_scores"]
  obtain w where
    w: "find (\<lambda>p. regex_test p (''Sunset Glow'' @ '' '' @ ''Warm BADWORD, tones''))
          (compiledProfanityPatterns sample_words) = Some w"
    and r: "moderateContent sample_words ''Sunset Glow'' ''Warm BADWORD, tones'' sample_env
              (api_answers toxic_scores) =
            (\<lparr>passed = False,
              flaggedField = Some (if regex_test w ''Sunset Glow'' then FieldName
                                   else FieldDescription),
              flaggedReason = Some ''Contains prohibited content'',
              method_tag = LocalMethod, scores = None\<rparr>, [])"
    and d: "CHR '' '' \<notin> set w \<and> \<not> regex_test w ''Sunset Glow''
              \<longrightarrow> regex_test w ''Warm BADWORD, tones''"
    by blast
  from w h2 have w1: "w = ''badword''" by (simp add: ps)
  from d nn sp have r1: "regex_test ''badword'' ''Warm BADWORD, tones''"
    unfolding w1 by blast
  from r nn have r2: "moderateContent sample_words ''Sunset Glow'' ''Warm BADWORD, tones''
          sample_env (api_answers toxic_scores) =
        (\<lparr>passed = False, flaggedField = Some FieldDescription,
          flaggedReason = Some ''Contains prohibited content'',
          method_tag = LocalMethod, scores = None\<rparr>, [])"
    unfolding w1 by simp
  from local_filter_blocks [OF h1 h3, of sample_env "api_answers toxic_scores"]
  obtain w' where
    w': "find (\<lambda>p. regex_test p (''My badword!'' @ '' '' @ ''Warm BADWORD, tones''))
          (compiledProfanityPatterns sample_words) = Some w'"
    and r': "moderateContent sample_words ''My badword!'' ''Warm BADWORD, tones'' sample_env
              (api_answers toxic_scores) =
            (\<lparr>passed = False,
              flaggedField = Some (if regex_test w' ''My badword!'' then FieldName
                                   else FieldDescription),
              flaggedReason = Some ''Contains prohibited content'',
              method_tag = LocalMethod, scores = None\<rparr>, [])"
    by blast
  from w' h3 have w2: "w' = ''badword''" by (simp add: ps)
  from r' yn have r3: "moderateContent sample_words ''My badword!'' ''Warm BADWORD, tones''
          sample_env (api_answers toxic_scores) =
        (\<lparr>passed = False, flaggedField = Some FieldName,
          flaggedReason = Some ''Contains prohibited content'',
          method_tag = LocalMethod, scores = None\<rparr>, [])"
    unfolding w2 by simp
  from h1 h2 nn r1 r2 h3 yn r3 show ?thesis by blast
qed

subsection \<open>Submission\<close>

lemma addVote_preset_ids [simp]:
  "map preset_id (presets_table (fst (addVote db presetId userId now ok)))
   = map preset_id (presets_table db)"
  by (simp add: addVote_def Let_def comp_def)

lemma addVote_statuses [simp]:
  "map status (presets_table (fst (addVote db presetId userId now ok)))
   = map status (presets_table db)"
  by (simp add: addVote_def Let_def comp_def)

lemma addVote_exists_after:
  "ok \<or> vote_exists db presetId userId
   \<Longrightarrow> vote_exists (fst (addVote db presetId userId now ok)) presetId userId"
  by (auto simp: addVote_def vote_exists_def Let_def)

lemma createPreset_result:
  "snd (createPreset db body userId authorName st uuid now) =
     \<lparr>name = name body, description = description body,
      category_id = category_id body, dyes = dyes body,
      tags = tags body, preset_id = uuid,
      author_discord_id = Some userId, author_name = Some authorName,
      vote_count = 0, status = st, is_curated = False,
      created_at = now, updated_at = now,
      dye_signature = Some (generateDyeSignature (dyes body))\<rparr>"
  and createPreset_table:
  "presets_table (fst (createPreset db body userId authorName st uuid now)) =
     presets_table db @ [snd (createPreset db body userId authorName st uuid now)]"
  and createPreset_database:
  "fst (createPreset db body userId authorName st uuid now) =
     db\<lparr>presets_table :=
          presets_table db @ [snd (createPreset db body userId authorName st uuid now)]\<rparr>"
  by (simp_all add: createPreset_def Let_def)

text \<open>
  The handler on a request that is authenticated, names its user and carries a valid
  body: the two paths after the duplicate check.
\<close>

lemma post_valid:
  assumes "isAuthenticated auth" and "userDiscordId auth = Some userId" and "userId \<noteq> []"
    and "validateSubmission body = None"
  shows "presetsRouter_post enProfanity env world db auth (Some body) =
           (case findDuplicatePreset (first_row world) db (dyes body) of
              Some duplicate \<Rightarrow>
                (fst (addVote db (preset_id duplicate) userId (voteTime world) (batch_ok world)),
                 DuplicateFound duplicate
                   (batch_ok world \<and> \<not> vote_exists db (preset_id duplicate) userId),
                 [])
            | None \<Rightarrow>
                (let m = fst (moderateContent enProfanity (name body) (description body) env
                               (fetch world));
                     calls = snd (moderateContent enProfanity (name body) (description body) env
                               (fetch world));
                     st = (if passed m then Approved else Pending);
                     authorName = (case userName auth of
                                     None \<Rightarrow> ''Unknown User''
                                   | Some n \<Rightarrow> if n = [] then ''Unknown User'' else n);
                     created = createPreset db body userId authorName st
                                 (randomUUID world) (createTime world)
                 in (fst (addVote (fst created) (preset_id (snd created)) userId
                            (voteTime world) (batch_ok world)),
                     Created (snd created) st, calls)))"
  using assms
  by (auto simp: presetsRouter_post_def Let_def addVote_def split: option.splits prod.splits)

lemma post_created:
  assumes "isAuthenticated auth" and "userDiscordId auth = Some userId" and "userId \<noteq> []"
    and "validateSubmission body = None"
    and "findDuplicatePreset (first_row world) db (dyes body) = None"
    and "moderateContent enProfanity (name body) (description body) env (fetch world) = (m, calls)"
    and "p = \<lparr>name = name body, description = description body,
               category_id = category_id body, dyes = dyes body, tags = tags body,
               preset_id = randomUUID world, author_discord_id = Some userId,
               author_name = Some (case userName auth of
                                     None \<Rightarrow> ''Unknown User''
                                   | Some n \<Rightarrow> if n = [] then ''Unknown User'' else n),
               vote_count = 0, status = (if passed m then Approved else Pending),
               is_curated = False, created_at = createTime world,
               updated_at = createTime world,
               dye_signature = Some (generateDyeSignature (dyes body))\<rparr>"
  shows "presetsRouter_post enProfanity env world db auth (Some body) =
           (fst (addVote (db\<lparr>presets_table := presets_table db @ [p]\<rparr>) (randomUUID world)
                   userId (voteTime world) (batch_ok world)),
            Created p (if passed m then Approved else Pending), calls)"
proof -
  let ?authorName = "case userName auth of
                       None \<Rightarrow> ''Unknown User''
                     | Some n \<Rightarrow> if n = [] then ''Unknown User'' else n"
  let ?c = "createPreset db body userId ?authorName (if passed m then Approved else Pending)
              (randomUUID world) (createTime world)"
  have s: "snd ?c = p" unfolding assms(7) by (rule createPreset_result)
  have f: "fst ?c = db\<lparr>presets_table := presets_table db @ [p]\<rparr>"
    using createPreset_database [of db body userId ?authorName
            "if passed m then Approved else Pending" "randomUUID world" "createTime world"]
    unfolding s .
  have i: "preset_id p = randomUUID world" by (simp add: assms(7))
  show ?thesis
    by (simp only: post_valid [OF assms(1-4)] assms(5,6) option.case Let_def fst_conv snd_conv
          s f i)
qed

lemma post_created_ids:
  assumes "isAuthenticated auth" and "userDiscordId auth = Some userId" and "userId \<noteq> []"
    and "validateSubmission body = None"
    and "findDuplicatePreset (first_row world) db (dyes body) = None"
  shows "\<exists>db' p st calls.
           presetsRouter_post enProfanity env world db auth (Some body)
             = (db', Created p st, calls)
           \<and> dyes p = dyes body
           \<and> preset_id p = randomUUID world
           \<and> map preset_id (presets_table db')
               = map preset_id (presets_table db) @ [preset_id p]"
proof -
  obtain m calls where
    m: "moderateContent enProfanity (name body) (description body) env (fetch world) = (m, calls)"
    by (cases "moderateContent enProfanity (name body) (description body) env (fetch world)")
  from post_created [OF assms m refl] show ?thesis by simp
qed

text \<open>
  C5. The claim says that a malformed payload of the classifier, like its
  unavailability, gives the method local. \<^verbatim>\<open>checkWithPerspective\<close> gives up (and
  the method is local) only where it returns early or an exception is thrown. A
  response 200 whose body is \<^verbatim>\<open>{"attributeScores": {}}\<close> throws nothing: each score
  is read as \<^verbatim>\<open>undefined\<close> and replaced by 0, no score reaches the threshold, and the
  result is \<^verbatim>\<open>passed = true\<close> with method all and five scores of 0.
\<close>

theorem malformed_payload_counterexample:
  "checkLocalFilter (compiledProfanityPatterns sample_words) ''Ocean Breeze''
     ''Cool seaside colours'' = None
   \<and> PERSPECTIVE_API_KEY sample_env = Some ''key''
   \<and> api_answers empty_scores ''key'' (''Ocean Breeze'' @ '' '' @ ''Cool seaside colours'')
       = HttpResponse True
           (JsonBody (Some \<lparr>TOXICITY = None, SEVERE_TOXICITY = None, IDENTITY_ATTACK = None,
                             INSULT = None, PROFANITY = None\<rparr>))
   \<and> moderateContent sample_words ''Ocean Breeze'' ''Cool seaside colours'' sample_env
        (api_answers empty_scores) =
       (\<lparr>passed = True, flaggedField = None, flaggedReason = None,
         method_tag = AllMethods,
         scores = Some [(''toxicity'', 0), (''severeToxicity'', 0), (''identityAttack'', 0),
                        (''insult'', 0), (''profanity'', 0)]\<rparr>,
        [(''key'', ''Ocean Breeze Cool seaside colours'')])
   \<and> method_tag (fst (moderateContent sample_words ''Ocean Breeze'' ''Cool seaside colours''
                         sample_env (api_answers empty_scores))) \<noteq> LocalMethod"
proof -
  have a: "checkLocalFilter (compiledProfanityPatterns sample_words) ''Ocean Breeze''
             ''Cool seaside colours'' = None"
    by code_simp
  have b: "PERSPECTIVE_API_KEY sample_env = Some ''key''" by (simp add: sample_env_def)
  have c: "api_answers empty_scores ''key'' (''Ocean Breeze'' @ '' '' @ ''Cool seaside colours'')
       = HttpResponse True
           (JsonBody (Some \<lparr>TOXICITY = None, SEVERE_TOXICITY = None, IDENTITY_ATTACK = None,
                             INSULT = None, PROFANITY = None\<rparr>))"
    by (simp add: api_answers_def empty_scores_def)
  have d: "moderateContent sample_words ''Ocean Breeze'' ''Cool seaside colours'' sample_env
        (api_answers empty_scores) =
       (\<lparr>passed = True, flaggedField = None, flaggedReason = None,
         method_tag = AllMethods,
         scores = Some [(''toxicity'', 0), (''severeToxicity'', 0), (''identityAttack'', 0),
                        (''insult'', 0), (''profanity'', 0)]\<rparr>,
        [(''key'', ''Ocean Breeze Cool seaside colours'')])"
    by code_simp
  from d have e: "method_tag (fst (moderateContent sample_words ''Ocean Breeze''
                    ''Cool seaside colours'' sample_env (api_answers empty_scores)))
                  \<noteq> LocalMethod"
    by simp
  from a b c d e show ?thesis by blast
qed

text \<open>
  C5, as amended. When the local filter finds nothing in the name and description of a
  submission:
  \<^item> if the API key is not configured (\<^verbatim>\<open>undefined\<close> or empty), or \<^verbatim>\<open>fetch\<close> throws,
    or the response is not \<^verbatim>\<open>ok\<close>, or its body is not JSON, or its body is \<^verbatim>\<open>null\<close>
    or has no \<^verbatim>\<open>attributeScores\<close>, the result of \<^verbatim>\<open>moderateContent\<close> is
    \<^verbatim>\<open>passed = true\<close> with method local and no scores, after one request at most; and
    the submission, when authenticated, valid and not a duplicate, is answered with the
    preset it creates, approved, made of the fields of the submission;
  \<^item> if the API answers with \<^verbatim>\<open>attributeScores\<close> (both stages ran) and each of the
    five scores is missing or, as a double, below the double 0.7, the result is
    \<^verbatim>\<open>passed = true\<close> with method all and the five scores, a missing one being 0.
    The scores are taken up to \<open>10\<^sup>1\<^sup>3\<close> in absolute value, far beyond the range from 0
    to 1 that the API documents: the model of numbers covers no overflow.
\<close>

theorem external_unavailable_non_blocking:
  assumes "checkLocalFilter (compiledProfanityPatterns enProfanity) (name body)
             (description body) = None"
  shows "(falsy (PERSPECTIVE_API_KEY env)
           \<or> (\<exists>apiKey. PERSPECTIVE_API_KEY env = Some apiKey
                \<and> (fetch world apiKey (name body @ '' '' @ description body) = NetworkError
                    \<or> (\<exists>b. fetch world apiKey (name body @ '' '' @ description body)
                              = HttpResponse False b)
                    \<or> fetch world apiKey (name body @ '' '' @ description body)
                        = HttpResponse True InvalidJson
                    \<or> fetch world apiKey (name body @ '' '' @ description body)
                        = HttpResponse True (JsonBody None)))
          \<longrightarrow> moderateContent enProfanity (name body) (description body) env (fetch world) =
                (\<lparr>passed = True, flaggedField = None, flaggedReason = None,
                  method_tag = LocalMethod, scores = None\<rparr>,
                 case PERSPECTIVE_API_KEY env of
                   None \<Rightarrow> []
                 | Some k \<Rightarrow> if k = [] then []
                             else [(k, name body @ '' '' @ description body)])
              \<and> (isAuthenticated auth \<and> userDiscordId auth = Some userId \<and> userId \<noteq> []
                   \<and> validateSubmission body = None
                   \<and> findDuplicatePreset (first_row world) db (dyes body) = None
                  \<longrightarrow> (\<exists>p. p = \<lparr>name = name body, description = description body,
                                 category_id = category_id body, dyes = dyes body,
                                 tags = tags body, preset_id = randomUUID world,
                                 author_discord_id = Some userId,
                                 author_name =
                                   Some (case userName auth of
                                           None \<Rightarrow> ''Unknown User''
                                         | Some n \<Rightarrow> if n = [] then ''Unknown User'' else n),
                                 vote_count = 0, status = Approved, is_curated = False,
                                 created_at = createTime world, updated_at = createTime world,
                                 dye_signature = Some (generateDyeSignature (dyes body))\<rparr>
                         \<and> presetsRouter_post enProfanity env world db auth (Some body)
                             = (fst (addVote (db\<lparr>presets_table := presets_table db @ [p]\<rparr>)
                                       (randomUUID world) userId (voteTime world)
                                       (batch_ok world)),
                                Created p Approved,
                                case PERSPECTIVE_API_KEY env of
                                  None \<Rightarrow> []
                                | Some k \<Rightarrow> if k = [] then []
                                            else [(k, name body @ '' '' @ description body)]))))
       \<and> (\<forall>apiKey a entries.
             PERSPECTIVE_API_KEY env = Some apiKey \<and> apiKey \<noteq> []
             \<and> fetch world apiKey (name body @ '' '' @ description body)
                 = HttpResponse True (JsonBody (Some a))
             \<and> entries = [(''toxicity'', TOXICITY a), (''severeToxicity'', SEVERE_TOXICITY a),
                          (''identityAttack'', IDENTITY_ATTACK a), (''insult'', INSULT a),
                          (''profanity'', PROFANITY a)]
             \<and> (\<forall>(k, x) \<in> set entries.
                   case x of
                     None \<Rightarrow> True
                   | Some w \<Rightarrow> \<bar>w\<bar> \<le> 10 ^ 13 \<and> to_double w < to_double (7 / 10))
            \<longrightarrow> moderateContent enProfanity (name body) (description body) env (fetch world) =
                  (\<lparr>passed = True, flaggedField = None, flaggedReason = None,
                    method_tag = AllMethods,
                    scores = Some (map (\<lambda>(k, x). (k, case x of None \<Rightarrow> 0
                                                         | Some w \<Rightarrow> to_double w))
                                     entries)\<rparr>,
                   [(apiKey, name body @ '' '' @ description body)]))"
proof (intro conjI impI allI)
  let ?t = "name body @ '' '' @ description body"
  let ?calls = "case PERSPECTIVE_API_KEY env of
                  None \<Rightarrow> []
                | Some k \<Rightarrow> if k = [] then [] else [(k, ?t)]"
  let ?local = "\<lparr>passed = True, flaggedField = None, flaggedReason = None,
                  method_tag = LocalMethod, scores = None\<rparr>"
  assume u: "falsy (PERSPECTIVE_API_KEY env)
           \<or> (\<exists>apiKey. PERSPECTIVE_API_KEY env = Some apiKey
                \<and> (fetch world apiKey ?t = NetworkError
                    \<or> (\<exists>b. fetch world apiKey ?t = HttpResponse False b)
                    \<or> fetch world apiKey ?t = HttpResponse True InvalidJson
                    \<or> fetch world apiKey ?t = HttpResponse True (JsonBody None)))"
  from moderateContent_unavailable [where api = "fetch world", OF assms u]
  show res: "moderateContent enProfanity (name body) (description body) env (fetch world)
             = (?local, ?calls)" .
  assume h: "isAuthenticated auth \<and> userDiscordId auth = Some userId \<and> userId \<noteq> []
                   \<and> validateSubmission body = None
                   \<and> findDuplicatePreset (first_row world) db (dyes body) = None"
  then have h1: "isAuthenticated auth" and h2: "userDiscordId auth = Some userId"
    and h3: "userId \<noteq> []" and h4: "validateSubmission body = None"
    and h5: "findDuplicatePreset (first_row world) db (dyes body) = None" by simp_all
  from post_created [OF h1 h2 h3 h4 h5 res refl]
  show "\<exists>p. p = \<lparr>name = name body, description = description body,
                                 category_id = category_id body, dyes = dyes body,
                                 tags = tags body, preset_id = randomUUID world,
                                 author_discord_id = Some userId,
                                 author_name =
                                   Some (case userName auth of
                                           None \<Rightarrow> ''Unknown User''
                                         | Some n \<Rightarrow> if n = [] then ''Unknown User'' else n),
                                 vote_count = 0, status = Approved, is_curated = False,
                                 created_at = createTime world, updated_at = createTime world,
                                 dye_signature = Some (generateDyeSignature (dyes body))\<rparr>
                         \<and> presetsRouter_post enProfanity env world db auth (Some body)
                             = (fst (addVote (db\<lparr>presets_table := presets_table db @ [p]\<rparr>)
                                       (randomUUID world) userId (voteTime world)
                                       (batch_ok world)),
                                Created p Approved, ?calls)"
    by simp
next
  fix apiKey a entries
  let ?t = "name body @ '' '' @ description body"
  assume "PERSPECTIVE_API_KEY env = Some apiKey \<and> apiKey \<noteq> []
             \<and> fetch world apiKey ?t = HttpResponse True (JsonBody (Some a))
             \<and> entries = [(''toxicity'', TOXICITY a), (''severeToxicity'', SEVERE_TOXICITY a),
                          (''identityAttack'', IDENTITY_ATTACK a), (''insult'', INSULT a),
                          (''profanity'', PROFANITY a)]
             \<and> (\<forall>(k, x) \<in> set entries.
                   case x of
                     None \<Rightarrow> True
                   | Some w \<Rightarrow> \<bar>w\<bar> \<le> 10 ^ 13 \<and> to_double w < to_double (7 / 10))"
  then have k: "PERSPECTIVE_API_KEY env = Some apiKey" "apiKey \<noteq> []"
    and r: "fetch world apiKey ?t = HttpResponse True (JsonBody (Some a))"
    and e: "entries = [(''toxicity'', TOXICITY a), (''severeToxicity'', SEVERE_TOXICITY a),
                          (''identityAttack'', IDENTITY_ATTACK a), (''insult'', INSULT a),
                          (''profanity'', PROFANITY a)]"
    and low0: "\<forall>(k, x) \<in> set entries.
                 case x of
                   None \<Rightarrow> True
                 | Some w \<Rightarrow> \<bar>w\<bar> \<le> 10 ^ 13 \<and> to_double w < to_double (7 / 10)"
    by blast+
  from low0 have low: "\<forall>(k, x) \<in> set entries.
                case x of None \<Rightarrow> True | Some w \<Rightarrow> to_double w < to_double (7 / 10)"
    by (auto split: option.splits)
  from moderateContent_clean [where api = "fetch world", OF assms k r e low]
  show "moderateContent enProfanity (name body) (description body) env (fetch world) =
                  (\<lparr>passed = True, flaggedField = None, flaggedReason = None,
                    method_tag = AllMethods,
                    scores = Some (map (\<lambda>(k, x). (k, case x of None \<Rightarrow> 0
                                                         | Some w \<Rightarrow> to_double w))
                                     entries)\<rparr>,
                   [(apiKey, ?t)])" .
qed

text \<open>
  On the sample submission, which the sample word list does not match. With the API
  down, with no key, with a response 503, with a body that is not JSON and with a body
  without \<^verbatim>\<open>attributeScores\<close>, the result is local; with the API down the preset is
  created approved and receives the vote of its author. With an answer of scores up
  to 0.69 the result is all, with the scores as doubles.
\<close>

theorem external_unavailable_non_blocking_witness:
  "checkLocalFilter (compiledProfanityPatterns sample_words) (name (sample_body [7, 8]))
     (description (sample_body [7, 8])) = None
   \<and> PERSPECTIVE_API_KEY sample_env = Some ''key''
   \<and> moderateContent sample_words ''Ocean Breeze'' ''Cool seaside colours'' sample_env api_down =
       (\<lparr>passed = True, flaggedField = None, flaggedReason = None,
         method_tag = LocalMethod, scores = None\<rparr>,
        [(''key'', ''Ocean Breeze Cool seaside colours'')])
   \<and> moderateContent sample_words ''Ocean Breeze'' ''Cool seaside colours''
        \<lparr>PERSPECTIVE_API_KEY = None\<rparr> (api_answers toxic_scores) =
       (\<lparr>passed = True, flaggedField = None, flaggedReason = None,
         method_tag = LocalMethod, scores = None\<rparr>, [])
   \<and> moderateContent sample_words ''Ocean Breeze'' ''Cool seaside colours'' sample_env
        (\<lambda>apiKey t. HttpResponse False InvalidJson) =
       (\<lparr>passed = True, flaggedField = None, flaggedReason = None,
         method_tag = LocalMethod, scores = None\<rparr>,
        [(''key'', ''Ocean Breeze Cool seaside colours'')])
   \<and> moderateContent sample_words ''Ocean Breeze'' ''Cool seaside colours'' sample_env
        (\<lambda>apiKey t. HttpResponse True InvalidJson) =
       (\<lparr>passed = True, flaggedField = None, flaggedReason = None,
         method_tag = LocalMethod, scores = None\<rparr>,
        [(''key'', ''Ocean Breeze Cool seaside colours'')])
   \<and> moderateContent sample_words ''Ocean Breeze'' ''Cool seaside colours'' sample_env
        (\<lambda>apiKey t. HttpResponse True (JsonBody None)) =
       (\<lparr>passed = True, flaggedField = None, flaggedReason = None,
         method_tag = LocalMethod, scores = None\<rparr>,
        [(''key'', ''Ocean Breeze Cool seaside colours'')])
   \<and> isAuthenticated sample_auth \<and> userDiscordId sample_auth = Some ''1002''
   \<and> validateSubmission (sample_body [7, 8]) = None
   \<and> findDuplicatePreset (first_row (sample_world api_down)) sample_db
        (dyes (sample_body [7, 8])) = None
   \<and> presetsRouter_post sample_words sample_env (sample_world api_down) sample_db
        sample_auth (Some (sample_body [7, 8]))
       = (with_created_sample sample_db [7, 8] Approved,
          Created (created_sample [7, 8] Approved) Approved,
          [(''key'', ''Ocean Breeze Cool seaside colours'')])
   \<and> list_all (\<lambda>x. case x of
                       None \<Rightarrow> True
                     | Some w \<Rightarrow> \<bar>w\<bar> \<le> 10 ^ 13 \<and> to_double w < to_double (7 / 10))
        [TOXICITY clean_scores, SEVERE_TOXICITY clean_scores, IDENTITY_ATTACK clean_scores,
         INSULT clean_scores, PROFANITY clean_scores]
   \<and> moderateContent sample_words ''Ocean Breeze'' ''Cool seaside colours'' sample_env
        (api_answers clean_scores) =
       (\<lparr>passed = True, flaggedField = None, flaggedReason = None,
         method_tag = AllMethods,
         scores = Some [(''toxicity'', to_double (1 / 10)), (''severeToxicity'', 0),
                        (''identityAttack'', 0), (''insult'', to_double (2 / 10)),
                        (''profanity'', to_double (69 / 100))]\<rparr>,
        [(''key'', ''Ocean Breeze Cool seaside colours'')])"
proof -
  let ?body = "sample_body [7, 8]"
  have nm: "name ?body = ''Ocean Breeze''" and ds: "description ?body = ''Cool seaside colours''"
    by (simp_all add: sample_body_def)
  have t: "''Ocean Breeze'' @ '' '' @ ''Cool seaside colours''
           = ''Ocean Breeze Cool seaside colours''" by simp
  have l: "checkLocalFilter (compiledProfanityPatterns sample_words) (name ?body)
             (description ?body) = None"
    by code_simp
  have k: "PERSPECTIVE_API_KEY sample_env = Some ''key''" by (simp add: sample_env_def)
  have a1: "isAuthenticated sample_auth" and a2: "userDiscordId sample_auth = Some ''1002''"
    by (simp_all add: sample_auth_def)
  have v: "validateSubmission ?body = None" by code_simp
  have nd: "findDuplicatePreset (first_row (sample_world api_down)) sample_db (dyes ?body)
            = None"
    by code_simp
  note inst = external_unavailable_non_blocking [OF l]
  have f1: "fetch (sample_world api_down) ''key'' (name ?body @ '' '' @ description ?body)
            = NetworkError"
    by (simp add: sample_world_def api_down_def)
  from inst [of sample_env "sample_world api_down" sample_auth "''1002''" sample_db] k f1
  have r1: "moderateContent sample_words (name ?body) (description ?body) sample_env
              (fetch (sample_world api_down)) =
            (\<lparr>passed = True, flaggedField = None, flaggedReason = None,
              method_tag = LocalMethod, scores = None\<rparr>,
             [(''key'', name ?body @ '' '' @ description ?body)])"
    by simp
  have w1: "fetch (sample_world api_down) = api_down" by (simp add: sample_world_def)
  from inst [of sample_env "sample_world api_down" sample_auth "''1002''" sample_db]
    k f1 a1 a2 v nd
  have "presetsRouter_post sample_words sample_env (sample_world api_down) sample_db
          sample_auth (Some ?body)
        = (fst (addVote
                 (sample_db\<lparr>presets_table := presets_table sample_db @
                     [\<lparr>name = name ?body, description = description ?body,
                       category_id = category_id ?body, dyes = dyes ?body,
                       tags = tags ?body, preset_id = randomUUID (sample_world api_down),
                       author_discord_id = Some ''1002'',
                       author_name =
                         Some (case userName sample_auth of
                                 None \<Rightarrow> ''Unknown User''
                               | Some n \<Rightarrow> if n = [] then ''Unknown User'' else n),
                       vote_count = 0, status = Approved, is_curated = False,
                       created_at = createTime (sample_world api_down),
                       updated_at = createTime (sample_world api_down),
                       dye_signature = Some (generateDyeSignature (dyes ?body))\<rparr>]\<rparr>)
                 (randomUUID (sample_world api_down)) ''1002''
                 (voteTime (sample_world api_down)) (batch_ok (sample_world api_down))),
           Created
             \<lparr>name = name ?body, description = description ?body,
               category_id = category_id ?body, dyes = dyes ?body,
               tags = tags ?body, preset_id = randomUUID (sample_world api_down),
               author_discord_id = Some ''1002'',
               author_name =
                 Some (case userName sample_auth of
                         None \<Rightarrow> ''Unknown User''
                       | Some n \<Rightarrow> if n = [] then ''Unknown User'' else n),
               vote_count = 0, status = Approved, is_curated = False,
               created_at = createTime (sample_world api_down),
               updated_at = createTime (sample_world api_down),
               dye_signature = Some (generateDyeSignature (dyes ?body))\<rparr>
             Approved,
           [(''key'', name ?body @ '' '' @ description ?body)])"
    by simp
  moreover have "\<lparr>name = name ?body, description = description ?body,
               category_id = category_id ?body, dyes = dyes ?body,
               tags = tags ?body, preset_id = randomUUID (sample_world api_down),
               author_discord_id = Some ''1002'',
               author_name =
                 Some (case userName sample_auth of
                         None \<Rightarrow> ''Unknown User''
                       | Some n \<Rightarrow> if n = [] then ''Unknown User'' else n),
               vote_count = 0, status = Approved, is_curated = False,
               created_at = createTime (sample_world api_down),
               updated_at = createTime (sample_world api_down),
               dye_signature = Some (generateDyeSignature (dyes ?body))\<rparr>
             = created_sample [7, 8] Approved"
    by (simp add: created_sample_def sample_body_def sample_world_def sample_auth_def)
  moreover have "fst (addVote
                 (sample_db\<lparr>presets_table := presets_table sample_db @
                     [created_sample [7, 8] Approved]\<rparr>)
                 (randomUUID (sample_world api_down)) ''1002''
                 (voteTime (sample_world api_down)) (batch_ok (sample_world api_down)))
             = with_created_sample sample_db [7, 8] Approved"
    by code_simp
  ultimately have p1: "presetsRouter_post sample_words sample_env (sample_world api_down)
          sample_db sample_auth (Some ?body)
        = (with_created_sample sample_db [7, 8] Approved,
           Created (created_sample [7, 8] Approved) Approved,
           [(''key'', ''Ocean Breeze Cool seaside colours'')])"
    by (simp add: nm ds)
  from inst [of "\<lparr>PERSPECTIVE_API_KEY = None\<rparr>" "sample_world (api_answers toxic_scores)"
             sample_auth "''1002''" sample_db]
  have r2: "moderateContent sample_words (name ?body) (description ?body)
              \<lparr>PERSPECTIVE_API_KEY = None\<rparr> (fetch (sample_world (api_answers toxic_scores))) =
            (\<lparr>passed = True, flaggedField = None, flaggedReason = None,
              method_tag = LocalMethod, scores = None\<rparr>, [])"
    by (simp add: falsy_def)
  from inst [of sample_env "sample_world (\<lambda>apiKey t. HttpResponse False InvalidJson)"
             sample_auth "''1002''" sample_db] k
  have r3: "moderateContent sample_words (name ?body) (description ?body) sample_env
              (fetch (sample_world (\<lambda>apiKey t. HttpResponse False InvalidJson))) =
            (\<lparr>passed = True, flaggedField = None, flaggedReason = None,
              method_tag = LocalMethod, scores = None\<rparr>,
             [(''key'', name ?body @ '' '' @ description ?body)])"
    by (simp add: sample_world_def)
  from inst [of sample_env "sample_world (\<lambda>apiKey t. HttpResponse True InvalidJson)"
             sample_auth "''1002''" sample_db] k
  have r4: "moderateContent sample_words (name ?body) (description ?body) sample_env
              (fetch (sample_world (\<lambda>apiKey t. HttpResponse True InvalidJson))) =
            (\<lparr>passed = True, flaggedField = None, flaggedReason = None,
              method_tag = LocalMethod, scores = None\<rparr>,
             [(''key'', name ?body @ '' '' @ description ?body)])"
    by (simp add: sample_world_def)
  from inst [of sample_env "sample_world (\<lambda>apiKey t. HttpResponse True (JsonBody None))"
             sample_auth "''1002''" sample_db] k
  have r5: "moderateContent sample_words (name ?body) (description ?body) sample_env
              (fetch (sample_world (\<lambda>apiKey t. HttpResponse True (JsonBody None)))) =
            (\<lparr>passed = True, flaggedField = None, flaggedReason = None,
              method_tag = LocalMethod, scores = None\<rparr>,
             [(''key'', name ?body @ '' '' @ description ?body)])"
    by (simp add: sample_world_def)
  have c1: "to_double (1 / 10) < to_double (7 / 10)" by code_simp
  have c2: "to_double (2 / 10) < to_double (7 / 10)" by code_simp
  have c3: "to_double (69 / 100) < to_double (7 / 10)" by code_simp
  have c4: "to_double 0 < to_double (7 / 10)" by code_simp
  have c: "list_all (\<lambda>x. case x of
                              None \<Rightarrow> True
                            | Some w \<Rightarrow> \<bar>w\<bar> \<le> 10 ^ 13 \<and> to_double w < to_double (7 / 10))
        [TOXICITY clean_scores, SEVERE_TOXICITY clean_scores, IDENTITY_ATTACK clean_scores,
         INSULT clean_scores, PROFANITY clean_scores]"
    using c1 c2 c3 c4 by (simp add: clean_scores_def)
  have z: "to_double 0 = 0" by (simp add: to_double_def)
  have prem: "PERSPECTIVE_API_KEY sample_env = Some ''key'' \<and> ''key'' \<noteq> []
             \<and> fetch (sample_world (api_answers clean_scores)) ''key''
                  (name ?body @ '' '' @ description ?body)
                 = HttpResponse True (JsonBody (Some clean_scores))
             \<and> [(''toxicity'', TOXICITY clean_scores),
                 (''severeToxicity'', SEVERE_TOXICITY clean_scores),
                 (''identityAttack'', IDENTITY_ATTACK clean_scores),
                 (''insult'', INSULT clean_scores), (''profanity'', PROFANITY clean_scores)]
               = [(''toxicity'', TOXICITY clean_scores),
                  (''severeToxicity'', SEVERE_TOXICITY clean_scores),
                  (''identityAttack'', IDENTITY_ATTACK clean_scores),
                  (''insult'', INSULT clean_scores), (''profanity'', PROFANITY clean_scores)]
             \<and> (\<forall>(k, x) \<in> set [(''toxicity'', TOXICITY clean_scores),
                                  (''severeToxicity'', SEVERE_TOXICITY clean_scores),
                                  (''identityAttack'', IDENTITY_ATTACK clean_scores),
                                  (''insult'', INSULT clean_scores),
                                  (''profanity'', PROFANITY clean_scores)].
                   case x of
                     None \<Rightarrow> True
                   | Some w \<Rightarrow> \<bar>w\<bar> \<le> 10 ^ 13 \<and> to_double w < to_double (7 / 10))"
    using k c1 c2 c3 c4 by (simp add: clean_scores_def sample_world_def api_answers_def)
  from inst [of sample_env "sample_world (api_answers clean_scores)" sample_auth "''1002''"
             sample_db, THEN conjunct2, rule_format, OF prem]
  have r6: "moderateContent sample_words (name ?body) (description ?body) sample_env
              (fetch (sample_world (api_answers clean_scores))) =
            (\<lparr>passed = True, flaggedField = None, flaggedReason = None,
              method_tag = AllMethods,
              scores = Some [(''toxicity'', to_double (1 / 10)), (''severeToxicity'', 0),
                             (''identityAttack'', 0), (''insult'', to_double (2 / 10)),
                             (''profanity'', to_double (69 / 100))]\<rparr>,
             [(''key'', name ?body @ '' '' @ description ?body)])"
    by (simp add: clean_scores_def z)
  from l k r1 r2 r3 r4 r5 a1 a2 v nd p1 c r6 show ?thesis
    by (simp add: nm ds sample_world_def)
qed

text \<open>
  C6. When the local filter finds nothing, the API key is configured and the API
  answers with \<^verbatim>\<open>attributeScores\<close> of which one of the five requested attributes
  (toxicity, severe toxicity, identity attack, insult, profanity) has a score at or
  above 0.7, the scores being taken up to \<open>10\<^sup>1\<^sup>3\<close> in absolute value (the API documents
  scores between 0 and 1; the model of numbers covers neither an overflow nor the
  rendering of a percentage that a double does not hold exactly):
  \<^item> \<^verbatim>\<open>moderateContent\<close> returns \<^verbatim>\<open>passed = false\<close> with the method of the external
    stage (\<^verbatim>\<open>perspective\<close> in the source), the flagged field \<^verbatim>\<open>content\<close>, the five
    scores, and the reason \<^verbatim>\<open>High <attribute> score detected (<percentage>%)\<close>, after
    one request. The attribute named is the first, in the order above, whose score as a
    double reaches the double 0.7, and the percentage is that score times 100, a
    double, rounded to the nearest integer, a half upwards;
  \<^item> the submission of such a name and description, when authenticated, valid and not a
    duplicate, is answered 201 with \<^verbatim>\<open>moderation_status\<close> pending and the preset it
    creates: the fields of the submission, the identifier, the author, no vote, the
    status pending, the time of creation and the signature of the dyes. That preset is
    added to the stored ones, and the vote of its author follows.
\<close>

theorem external_flag_pending:
  assumes "checkLocalFilter (compiledProfanityPatterns enProfanity) (name body)
             (description body) = None"
    and "PERSPECTIVE_API_KEY env = Some apiKey" and "apiKey \<noteq> []"
    and "fetch world apiKey (name body @ '' '' @ description body)
           = HttpResponse True (JsonBody (Some a))"
    and "entries = [(''toxicity'', TOXICITY a), (''severeToxicity'', SEVERE_TOXICITY a),
                    (''identityAttack'', IDENTITY_ATTACK a), (''insult'', INSULT a),
                    (''profanity'', PROFANITY a)]"
    and "\<forall>(k, x) \<in> set entries. case x of None \<Rightarrow> True | Some w \<Rightarrow> \<bar>w\<bar> \<le> 10 ^ 13"
    and "(attribute, Some score) \<in> set entries" and "7 / 10 \<le> score"
  shows "(\<exists>i v. i < length entries \<and> snd (entries ! i) = Some v
            \<and> to_double (7 / 10) \<le> to_double v
            \<and> (\<forall>j<i. \<forall>w. snd (entries ! j) = Some w \<longrightarrow> to_double w < to_double (7 / 10))
            \<and> moderateContent enProfanity (name body) (description body) env (fetch world) =
                (\<lparr>passed = False, flaggedField = Some FieldContent,
                  flaggedReason =
                    Some (''High '' @ fst (entries ! i) @ '' score detected (''
                          @ number_to_string \<lfloor>to_double (to_double v * 100) + 1 / 2\<rfloor>
                          @ ''%)''),
                  method_tag = PerspectiveMethod,
                  scores = Some (map (\<lambda>(k, x). (k, case x of None \<Rightarrow> 0
                                                       | Some w \<Rightarrow> to_double w))
                                   entries)\<rparr>,
                 [(apiKey, name body @ '' '' @ description body)]))
         \<and> (isAuthenticated auth \<and> userDiscordId auth = Some userId \<and> userId \<noteq> []
              \<and> validateSubmission body = None
              \<and> findDuplicatePreset (first_row world) db (dyes body) = None
             \<longrightarrow> (\<exists>p. p = \<lparr>name = name body, description = description body,
                            category_id = category_id body, dyes = dyes body,
                            tags = tags body, preset_id = randomUUID world,
                            author_discord_id = Some userId,
                            author_name =
                              Some (case userName auth of
                                      None \<Rightarrow> ''Unknown User''
                                    | Some n \<Rightarrow> if n = [] then ''Unknown User'' else n),
                            vote_count = 0, status = Pending, is_curated = False,
                            created_at = createTime world, updated_at = createTime world,
                            dye_signature = Some (generateDyeSignature (dyes body))\<rparr>
                    \<and> presetsRouter_post enProfanity env world db auth (Some body)
                        = (fst (addVote (db\<lparr>presets_table := presets_table db @ [p]\<rparr>)
                                  (randomUUID world) userId (voteTime world) (batch_ok world)),
                           Created p Pending,
                           [(apiKey, name body @ '' '' @ description body)])))"
proof -
  from moderateContent_flagged [where api = "fetch world", OF assms(1-5) assms(7,8)]
  obtain i v where i: "i < length entries" "snd (entries ! i) = Some v"
      "to_double (7 / 10) \<le> to_double v"
      "\<forall>j<i. \<forall>w. snd (entries ! j) = Some w \<longrightarrow> to_double w < to_double (7 / 10)"
    and m: "moderateContent enProfanity (name body) (description body) env (fetch world) =
                (\<lparr>passed = False, flaggedField = Some FieldContent,
                  flaggedReason =
                    Some (''High '' @ fst (entries ! i) @ '' score detected (''
                          @ number_to_string \<lfloor>to_double (to_double v * 100) + 1 / 2\<rfloor>
                          @ ''%)''),
                  method_tag = PerspectiveMethod,
                  scores = Some (map (\<lambda>(k, x). (k, case x of None \<Rightarrow> 0
                                                       | Some w \<Rightarrow> to_double w))
                                   entries)\<rparr>,
                 [(apiKey, name body @ '' '' @ description body)])"
    by blast
  have "isAuthenticated auth \<and> userDiscordId auth = Some userId \<and> userId \<noteq> []
              \<and> validateSubmission body = None
              \<and> findDuplicatePreset (first_row world) db (dyes body) = None
             \<longrightarrow> (\<exists>p. p = \<lparr>name = name body, description = description body,
                            category_id = category_id body, dyes = dyes body,
                            tags = tags body, preset_id = randomUUID world,
                            author_discord_id = Some userId,
                            author_name =
                              Some (case userName auth of
                                      None \<Rightarrow> ''Unknown User''
                                    | Some n \<Rightarrow> if n = [] then ''Unknown User'' else n),
                            vote_count = 0, status = Pending, is_curated = False,
                            created_at = createTime world, updated_at = createTime world,
                            dye_signature = Some (generateDyeSignature (dyes body))\<rparr>
                    \<and> presetsRouter_post enProfanity env world db auth (Some body)
                        = (fst (addVote (db\<lparr>presets_table := presets_table db @ [p]\<rparr>)
                                  (randomUUID world) userId (voteTime world) (batch_ok world)),
                           Created p Pending,
                           [(apiKey, name body @ '' '' @ description body)]))"
  proof
    assume h: "isAuthenticated auth \<and> userDiscordId auth = Some userId \<and> userId \<noteq> []
                \<and> validateSubmission body = None
                \<and> findDuplicatePreset (first_row world) db (dyes body) = None"
    then have h1: "isAuthenticated auth" and h2: "userDiscordId auth = Some userId"
      and h3: "userId \<noteq> []" and h4: "validateSubmission body = None"
      and h5: "findDuplicatePreset (first_row world) db (dyes body) = None" by simp_all
    from post_created [OF h1 h2 h3 h4 h5 m refl]
    show "\<exists>p. p = \<lparr>name = name body, description = description body,
                            category_id = category_id body, dyes = dyes body,
                            tags = tags body, preset_id = randomUUID world,
                            author_discord_id = Some userId,
                            author_name =
                              Some (case userName auth of
                                      None \<Rightarrow> ''Unknown User''
                                    | Some n \<Rightarrow> if n = [] then ''Unknown User'' else n),
                            vote_count = 0, status = Pending, is_curated = False,
                            created_at = createTime world, updated_at = createTime world,
                            dye_signature = Some (generateDyeSignature (dyes body))\<rparr>
                    \<and> presetsRouter_post enProfanity env world db auth (Some body)
                        = (fst (addVote (db\<lparr>presets_table := presets_table db @ [p]\<rparr>)
                                  (randomUUID world) userId (voteTime world) (batch_ok world)),
                           Created p Pending,
                           [(apiKey, name body @ '' '' @ description body)])"
      by simp
  qed
  with i m show ?thesis by blast
qed

text \<open>
  On the sample submission, which the sample word list does not match and which is not
  a duplicate in the sample database:
  \<^item> the API answers 0.7 for identity attack and 0.855 for insult: the reason names
    identity attack, the first of the two, with 70%, and the preset is created pending;
  \<^item> the API answers 0.855 for insult only: the reason names insult with 86%, since
    the double 0.855 times 100 is the double 85.5;
  \<^item> the API answers \<^verbatim>\<open>0.69999999999999999\<close> for toxicity and 0.9 for profanity: the
    first text denotes the double 0.7, and the reason names toxicity with 70%.
\<close>

theorem external_flag_pending_witness:
  "checkLocalFilter (compiledProfanityPatterns sample_words) (name (sample_body [7, 8]))
     (description (sample_body [7, 8])) = None
   \<and> PERSPECTIVE_API_KEY sample_env = Some ''key''
   \<and> list_all (\<lambda>x. case x of None \<Rightarrow> True | Some w \<Rightarrow> \<bar>w\<bar> \<le> 10 ^ 13)
        [TOXICITY toxic_scores, SEVERE_TOXICITY toxic_scores, IDENTITY_ATTACK toxic_scores,
         INSULT toxic_scores, PROFANITY toxic_scores]
   \<and> IDENTITY_ATTACK toxic_scores = Some (7 / 10)
   \<and> moderateContent sample_words ''Ocean Breeze'' ''Cool seaside colours'' sample_env
        (api_answers toxic_scores) =
       (\<lparr>passed = False, flaggedField = Some FieldContent,
         flaggedReason = Some ''High identityAttack score detected (70%)'',
         method_tag = PerspectiveMethod,
         scores = Some [(''toxicity'', to_double (1 / 10)), (''severeToxicity'', 0),
                        (''identityAttack'', to_double (7 / 10)),
                        (''insult'', to_double (855 / 1000)),
                        (''profanity'', to_double (2 / 10))]\<rparr>,
        [(''key'', ''Ocean Breeze Cool seaside colours'')])
   \<and> isAuthenticated sample_auth \<and> userDiscordId sample_auth = Some ''1002''
   \<and> validateSubmission (sample_body [7, 8]) = None
   \<and> findDuplicatePreset (first_row (sample_world (api_answers toxic_scores))) sample_db
        (dyes (sample_body [7, 8])) = None
   \<and> presetsRouter_post sample_words sample_env (sample_world (api_answers toxic_scores))
        sample_db sample_auth (Some (sample_body [7, 8]))
       = (with_created_sample sample_db [7, 8] Pending,
          Created (created_sample [7, 8] Pending) Pending,
          [(''key'', ''Ocean Breeze Cool seaside colours'')])
   \<and> INSULT insult_scores = Some (855 / 1000)
   \<and> to_double (to_double (855 / 1000) * 100) = 171 / 2
   \<and> moderateContent sample_words ''Ocean Breeze'' ''Cool seaside colours'' sample_env
        (api_answers insult_scores) =
       (\<lparr>passed = False, flaggedField = Some FieldContent,
         flaggedReason = Some ''High insult score detected (86%)'',
         method_tag = PerspectiveMethod,
         scores = Some [(''toxicity'', to_double (1 / 10)), (''severeToxicity'', 0),
                        (''identityAttack'', 0), (''insult'', to_double (855 / 1000)),
                        (''profanity'', to_double (2 / 10))]\<rparr>,
        [(''key'', ''Ocean Breeze Cool seaside colours'')])
   \<and> PROFANITY edge_scores = Some (9 / 10)
   \<and> TOXICITY edge_scores = Some (69999999999999999 / 100000000000000000)
   \<and> to_double (69999999999999999 / 100000000000000000) = to_double (7 / 10)
   \<and> moderateContent sample_words ''Ocean Breeze'' ''Cool seaside colours'' sample_env
        (api_answers edge_scores) =
       (\<lparr>passed = False, flaggedField = Some FieldContent,
         flaggedReason = Some ''High toxicity score detected (70%)'',
         method_tag = PerspectiveMethod,
         scores = Some [(''toxicity'', to_double (7 / 10)), (''severeToxicity'', 0),
                        (''identityAttack'', 0), (''insult'', 0),
                        (''profanity'', to_double (9 / 10))]\<rparr>,
        [(''key'', ''Ocean Breeze Cool seaside colours'')])"
proof -
  let ?body = "sample_body [7, 8]"
  let ?f = "\<lambda>(k :: string, x). (k, case x of None \<Rightarrow> 0 | Some w \<Rightarrow> to_double w)"
  have nm: "name ?body = ''Ocean Breeze''" and ds: "description ?body = ''Cool seaside colours''"
    by (simp_all add: sample_body_def)
  have l: "checkLocalFilter (compiledProfanityPatterns sample_words) (name ?body)
             (description ?body) = None"
    by code_simp
  have k: "PERSPECTIVE_API_KEY sample_env = Some ''key''" by (simp add: sample_env_def)
  have ne: "''key'' \<noteq> []" by simp
  have a1: "isAuthenticated sample_auth" and a2: "userDiscordId sample_auth = Some ''1002''"
    by (simp_all add: sample_auth_def)
  have v: "validateSubmission ?body = None" by code_simp
  have nd: "findDuplicatePreset (first_row (sample_world (api_answers toxic_scores))) sample_db
              (dyes ?body) = None"
    by code_simp
  have c1: "to_double (1 / 10) < to_double (7 / 10)" by code_simp
  have c4: "to_double 0 < to_double (7 / 10)" by code_simp
  have c5: "\<not> to_double (855 / 1000) < to_double (7 / 10)" by code_simp
  have z: "to_double 0 = 0" by (simp add: to_double_def)
  have o1: "IDENTITY_ATTACK toxic_scores = Some (7 / 10)" by (simp add: toxic_scores_def)
  have o2: "INSULT insult_scores = Some (855 / 1000)" by (simp add: insult_scores_def)
  have o3: "PROFANITY edge_scores = Some (9 / 10)" by (simp add: edge_scores_def)
  have o4: "TOXICITY edge_scores = Some (69999999999999999 / 100000000000000000)"
    by (simp add: edge_scores_def)
  have o5: "to_double (69999999999999999 / 100000000000000000) = to_double (7 / 10)"
    by code_simp
  have h: "to_double (to_double (855 / 1000) * 100) = 171 / 2" by code_simp
  have pc: "number_to_string \<lfloor>to_double (to_double (855 / 1000) * 100) + 1 / 2\<rfloor> = ''86''"
    by code_simp
  have resp: "fetch (sample_world (api_answers s)) ''key'' (name ?body @ '' '' @ description ?body)
              = HttpResponse True (JsonBody (Some s))" for s
    by (simp add: sample_world_def api_answers_def)
  have fw: "fetch (sample_world api) = api" for api by (simp add: sample_world_def)
  have m1: "moderateContent sample_words ''Ocean Breeze'' ''Cool seaside colours'' sample_env
        (api_answers toxic_scores) =
       (\<lparr>passed = False, flaggedField = Some FieldContent,
         flaggedReason = Some ''High identityAttack score detected (70%)'',
         method_tag = PerspectiveMethod,
         scores = Some [(''toxicity'', to_double (1 / 10)), (''severeToxicity'', 0),
                        (''identityAttack'', to_double (7 / 10)),
                        (''insult'', to_double (855 / 1000)),
                        (''profanity'', to_double (2 / 10))]\<rparr>,
        [(''key'', ''Ocean Breeze Cool seaside colours'')])"
    by code_simp
  have m3: "moderateContent sample_words ''Ocean Breeze'' ''Cool seaside colours'' sample_env
        (api_answers edge_scores) =
       (\<lparr>passed = False, flaggedField = Some FieldContent,
         flaggedReason = Some ''High toxicity score detected (70%)'',
         method_tag = PerspectiveMethod,
         scores = Some [(''toxicity'', to_double (7 / 10)), (''severeToxicity'', 0),
                        (''identityAttack'', 0), (''insult'', 0),
                        (''profanity'', to_double (9 / 10))]\<rparr>,
        [(''key'', ''Ocean Breeze Cool seaside colours'')])"
    by code_simp
  have e1: "(''identityAttack'', Some (7 / 10))
            \<in> set [(''toxicity'', TOXICITY toxic_scores),
                    (''severeToxicity'', SEVERE_TOXICITY toxic_scores),
                    (''identityAttack'', IDENTITY_ATTACK toxic_scores),
                    (''insult'', INSULT toxic_scores), (''profanity'', PROFANITY toxic_scores)]"
    by (simp add: o1)
  have b1: "\<forall>(k, x) \<in> set [(''toxicity'', TOXICITY toxic_scores),
                                (''severeToxicity'', SEVERE_TOXICITY toxic_scores),
                                (''identityAttack'', IDENTITY_ATTACK toxic_scores),
                                (''insult'', INSULT toxic_scores),
                                (''profanity'', PROFANITY toxic_scores)].
              case x of None \<Rightarrow> True | Some w \<Rightarrow> \<bar>w\<bar> \<le> 10 ^ 13"
    by (simp add: toxic_scores_def)
  from external_flag_pending [OF l k ne resp refl b1 e1, of sample_auth "''1002''" sample_db]
    a1 a2 v nd
  have "presetsRouter_post sample_words sample_env (sample_world (api_answers toxic_scores))
          sample_db sample_auth (Some ?body)
        = (fst (addVote
                 (sample_db\<lparr>presets_table := presets_table sample_db @
                     [\<lparr>name = name ?body, description = description ?body,
                       category_id = category_id ?body, dyes = dyes ?body,
                       tags = tags ?body,
                       preset_id = randomUUID (sample_world (api_answers toxic_scores)),
                       author_discord_id = Some ''1002'',
                       author_name =
                         Some (case userName sample_auth of
                                 None \<Rightarrow> ''Unknown User''
                               | Some n \<Rightarrow> if n = [] then ''Unknown User'' else n),
                       vote_count = 0, status = Pending, is_curated = False,
                       created_at = createTime (sample_world (api_answers toxic_scores)),
                       updated_at = createTime (sample_world (api_answers toxic_scores)),
                       dye_signature = Some (generateDyeSignature (dyes ?body))\<rparr>]\<rparr>)
                 (randomUUID (sample_world (api_answers toxic_scores))) ''1002''
                 (voteTime (sample_world (api_answers toxic_scores)))
                 (batch_ok (sample_world (api_answers toxic_scores)))),
           Created
             \<lparr>name = name ?body, description = description ?body,
               category_id = category_id ?body, dyes = dyes ?body,
               tags = tags ?body,
               preset_id = randomUUID (sample_world (api_answers toxic_scores)),
               author_discord_id = Some ''1002'',
               author_name =
                 Some (case userName sample_auth of
                         None \<Rightarrow> ''Unknown User''
                       | Some n \<Rightarrow> if n = [] then ''Unknown User'' else n),
               vote_count = 0, status = Pending, is_curated = False,
               created_at = createTime (sample_world (api_answers toxic_scores)),
               updated_at = createTime (sample_world (api_answers toxic_scores)),
               dye_signature = Some (generateDyeSignature (dyes ?body))\<rparr>
             Pending,
           [(''key'', name ?body @ '' '' @ description ?body)])"
    by simp
  moreover have "\<lparr>name = name ?body, description = description ?body,
               category_id = category_id ?body, dyes = dyes ?body,
               tags = tags ?body,
               preset_id = randomUUID (sample_world (api_answers toxic_scores)),
               author_discord_id = Some ''1002'',
               author_name =
                 Some (case userName sample_auth of
                         None \<Rightarrow> ''Unknown User''
                       | Some n \<Rightarrow> if n = [] then ''Unknown User'' else n),
               vote_count = 0, status = Pending, is_curated = False,
               created_at = createTime (sample_world (api_answers toxic_scores)),
               updated_at = createTime (sample_world (api_answers toxic_scores)),
               dye_signature = Some (generateDyeSignature (dyes ?body))\<rparr>
             = created_sample [7, 8] Pending"
    by (simp add: created_sample_def sample_body_def sample_world_def sample_auth_def)
  moreover have "fst (addVote
                 (sample_db\<lparr>presets_table := presets_table sample_db @
                     [created_sample [7, 8] Pending]\<rparr>)
                 (randomUUID (sample_world (api_answers toxic_scores))) ''1002''
                 (voteTime (sample_world (api_answers toxic_scores)))
                 (batch_ok (sample_world (api_answers toxic_scores))))
             = with_created_sample sample_db [7, 8] Pending"
    by code_simp
  ultimately have p1: "presetsRouter_post sample_words sample_env
          (sample_world (api_answers toxic_scores)) sample_db sample_auth (Some ?body)
        = (with_created_sample sample_db [7, 8] Pending,
           Created (created_sample [7, 8] Pending) Pending,
           [(''key'', ''Ocean Breeze Cool seaside colours'')])"
    by (simp add: nm ds)
  let ?E = "[(''toxicity'', TOXICITY insult_scores),
             (''severeToxicity'', SEVERE_TOXICITY insult_scores),
             (''identityAttack'', IDENTITY_ATTACK insult_scores),
             (''insult'', INSULT insult_scores), (''profanity'', PROFANITY insult_scores)]"
  have E: "?E = [(''toxicity'', Some (1 / 10)), (''severeToxicity'', None),
                 (''identityAttack'', Some 0), (''insult'', Some (855 / 1000)),
                 (''profanity'', Some (2 / 10))]"
    by (simp add: insult_scores_def)
  have e2: "(''insult'', Some (855 / 1000)) \<in> set ?E" by (simp add: o2)
  have g2: "(7 :: real) / 10 \<le> 855 / 1000" by simp
  have b2: "\<forall>(k, x) \<in> set ?E. case x of None \<Rightarrow> True | Some w \<Rightarrow> \<bar>w\<bar> \<le> 10 ^ 13"
    by (simp add: insult_scores_def)
  from external_flag_pending [OF l k ne resp refl b2 e2 g2, of sample_auth "''1002''" sample_db]
  obtain i w where i: "i < length ?E" and sv: "snd (?E ! i) = Some w"
    and ge: "to_double (7 / 10) \<le> to_double w"
    and first: "\<forall>j<i. \<forall>u. snd (?E ! j) = Some u \<longrightarrow> to_double u < to_double (7 / 10)"
    and m: "moderateContent sample_words (name ?body) (description ?body) sample_env
              (fetch (sample_world (api_answers insult_scores))) =
            (\<lparr>passed = False, flaggedField = Some FieldContent,
              flaggedReason =
                Some (''High '' @ fst (?E ! i) @ '' score detected (''
                      @ number_to_string \<lfloor>to_double (to_double w * 100) + 1 / 2\<rfloor>
                      @ ''%)''),
              method_tag = PerspectiveMethod, scores = Some (map ?f ?E)\<rparr>,
             [(''key'', name ?body @ '' '' @ description ?body)])"
    by blast
  from i consider "i = 0" | "i = 1" | "i = 2" | "i = 3" | "i = 4" by fastforce
  then have iw: "i = 3 \<and> w = 855 / 1000"
  proof cases
    case 1
    with sv have "w = 1 / 10" unfolding E by simp
    with ge c1 show ?thesis by simp
  next
    case 2
    with sv show ?thesis unfolding E by simp
  next
    case 3
    with sv have "w = 0" unfolding E by simp
    with ge c4 show ?thesis by simp
  next
    case 4
    with sv show ?thesis unfolding E by simp
  next
    case 5
    with first [rule_format, of 3 "855 / 1000"]
    have "to_double (855 / 1000) < to_double (7 / 10)" unfolding E by simp
    with c5 show ?thesis by simp
  qed
  from m iw pc have m2: "moderateContent sample_words ''Ocean Breeze'' ''Cool seaside colours''
        sample_env (api_answers insult_scores) =
       (\<lparr>passed = False, flaggedField = Some FieldContent,
         flaggedReason = Some ''High insult score detected (86%)'',
         method_tag = PerspectiveMethod,
         scores = Some [(''toxicity'', to_double (1 / 10)), (''severeToxicity'', 0),
                        (''identityAttack'', 0), (''insult'', to_double (855 / 1000)),
                        (''profanity'', to_double (2 / 10))]\<rparr>,
        [(''key'', ''Ocean Breeze Cool seaside colours'')])"
    unfolding E by (simp add: nm ds fw z)
  have bw: "list_all (\<lambda>x. case x of None \<Rightarrow> True | Some w \<Rightarrow> \<bar>w\<bar> \<le> 10 ^ 13)
        [TOXICITY toxic_scores, SEVERE_TOXICITY toxic_scores, IDENTITY_ATTACK toxic_scores,
         INSULT toxic_scores, PROFANITY toxic_scores]"
    by (simp add: toxic_scores_def)
  from l k bw o1 m1 a1 a2 v nd p1 o2 h m2 o3 o4 o5 m3 show ?thesis
    by (simp add: nm ds)
qed

subsection \<open>Duplicate detection\<close>

text \<open>
  What the lookup of a duplicate returns, whichever matching row the engine meets first.
\<close>

lemma findDuplicatePreset_Some:
  assumes "findDuplicatePreset pos db ds = Some d"
  shows "\<exists>r \<in> set (presets_table db). d = rowToPreset r
           \<and> dye_signature r = Some (generateDyeSignature ds)
           \<and> (status r = Approved \<or> status r = Pending)"
proof -
  let ?m = "filter (\<lambda>r. dye_signature r = Some (generateDyeSignature ds)
                         \<and> (status r = Approved \<or> status r = Pending)) (presets_table db)"
  from assms have ne: "?m \<noteq> []" and d: "d = rowToPreset (?m ! (pos mod length ?m))"
    by (auto simp: findDuplicatePreset_def Let_def split: if_splits)
  from ne have "pos mod length ?m < length ?m" by simp
  then have "?m ! (pos mod length ?m) \<in> set ?m" by (rule nth_mem)
  with d show ?thesis by auto
qed

lemma findDuplicatePreset_signature:
  assumes "findDuplicatePreset pos db ds = Some d"
  shows "dye_signature d = Some (generateDyeSignature ds)"
proof -
  from findDuplicatePreset_Some [OF assms] obtain r where "d = rowToPreset r"
    and "dye_signature r = Some (generateDyeSignature ds)" by blast
  then show ?thesis
    by (simp add: rowToPreset_def falsy_def generateDyeSignature_def json_stringify_numbers_def)
qed

lemma findDuplicatePreset_exists:
  assumes "r \<in> set (presets_table db)"
    and "dye_signature r = Some (generateDyeSignature ds)"
    and "status r = Approved \<or> status r = Pending"
  shows "\<exists>d. findDuplicatePreset pos db ds = Some d"
proof -
  from assms have "filter (\<lambda>r. dye_signature r = Some (generateDyeSignature ds)
                \<and> (status r = Approved \<or> status r = Pending)) (presets_table db) \<noteq> []"
    by (auto simp: filter_empty_conv)
  then show ?thesis by (simp add: findDuplicatePreset_def Let_def)
qed

lemma findDuplicatePreset_only:
  assumes "r \<in> set (presets_table db)"
    and "dye_signature r = Some (generateDyeSignature ds)"
    and "status r = Approved \<or> status r = Pending"
    and "\<forall>r' \<in> set (presets_table db).
           dye_signature r' = Some (generateDyeSignature ds)
           \<and> (status r' = Approved \<or> status r' = Pending) \<longrightarrow> r' = r"
  shows "findDuplicatePreset pos db ds = Some (rowToPreset r)"
proof -
  let ?m = "filter (\<lambda>r. dye_signature r = Some (generateDyeSignature ds)
                         \<and> (status r = Approved \<or> status r = Pending)) (presets_table db)"
  from assms(1-3) have ne: "?m \<noteq> []" by (auto simp: filter_empty_conv)
  then have "pos mod length ?m < length ?m" by simp
  then have "?m ! (pos mod length ?m) \<in> set ?m" by (rule nth_mem)
  with assms(4) have "?m ! (pos mod length ?m) = r" by auto
  with ne show ?thesis by (simp add: findDuplicatePreset_def Let_def)
qed

lemma findDuplicatePreset_None:
  assumes "\<forall>r \<in> set (presets_table db).
             dye_signature r = Some (generateDyeSignature ds)
             \<longrightarrow> status r = Rejected \<or> status r = Hidden \<or> status r = Flagged"
  shows "findDuplicatePreset pos db ds = None"
proof -
  from assms have "filter (\<lambda>r. dye_signature r = Some (generateDyeSignature ds)
                \<and> (status r = Approved \<or> status r = Pending)) (presets_table db) = []"
    by (auto simp: filter_empty_conv)
  then show ?thesis by (simp add: findDuplicatePreset_def Let_def)
qed

text \<open>Every matching row is the one returned for some choice of the engine.\<close>

lemma findDuplicatePreset_any:
  assumes "r \<in> set (presets_table db)"
    and "dye_signature r = Some (generateDyeSignature ds)"
    and "status r = Approved \<or> status r = Pending"
  shows "\<exists>pos. findDuplicatePreset pos db ds = Some (rowToPreset r)"
proof -
  let ?m = "filter (\<lambda>r. dye_signature r = Some (generateDyeSignature ds)
                         \<and> (status r = Approved \<or> status r = Pending)) (presets_table db)"
  from assms have "r \<in> set ?m" by simp
  then obtain i where i: "i < length ?m" and r: "?m ! i = r"
    unfolding in_set_conv_nth by blast
  then have "?m \<noteq> []" by auto
  with i r have "findDuplicatePreset i db ds = Some (rowToPreset r)"
    by (simp add: findDuplicatePreset_def Let_def)
  then show ?thesis ..
qed

text \<open>The effect of the vote that follows the lookup.\<close>

lemma addVote_effect:
  "addVote db presetId userId now ok =
     (if ok \<and> \<not> vote_exists db presetId userId
      then db\<lparr>votes_table :=
                votes_table db @
                  [\<lparr>vote_preset_id = presetId, user_discord_id = userId,
                    vote_created_at = now\<rparr>],
              presets_table :=
                map (\<lambda>r. if preset_id r = presetId
                          then r\<lparr>vote_count := vote_count r + 1, updated_at := now\<rparr>
                          else r)
                    (presets_table db)\<rparr>
      else db,
      snd (addVote db presetId userId now ok))"
  by (simp add: addVote_def Let_def)

text \<open>
  C7. The claim says that a submission whose dye list is equal as a set to that of an
  approved or pending preset is answered with that preset as a duplicate and adds a vote
  for the submitter. The lookup compares the signature of the submitted dyes with the
  signature stored in each row, takes one row of those that match, and the vote is
  added by \<^verbatim>\<open>addVote\<close>, which adds none for a user who has voted and reports a failed
  transaction as no vote. Five requests of the user 1002, each with a valid body:
  \<^item> the sample database holds the approved preset \<^verbatim>\<open>p4\<close> with dyes \<open>[1, 1, 2]\<close>; the
    dyes \<open>[1, 2, 2]\<close>, the same set, find no duplicate and a fifth row is created: a
    signature keeps repeated dyes;
  \<^item> the database \<open>twin_db\<close> holds the approved presets \<^verbatim>\<open>d1\<close> with dyes \<open>[1, 2]\<close> and
    \<^verbatim>\<open>d3\<close> with dyes \<open>[2, 1]\<close>; when the engine meets \<^verbatim>\<open>d3\<close> first, the dyes \<open>[1, 2]\<close>
    are answered with \<^verbatim>\<open>d3\<close>, not with \<^verbatim>\<open>d1\<close>, and the vote goes to \<^verbatim>\<open>d3\<close>;
  \<^item> when it meets \<^verbatim>\<open>d1\<close> first, for which the user has voted, the answer is \<^verbatim>\<open>d1\<close>
    with \<^verbatim>\<open>vote_added = false\<close>, and nothing is written;
  \<^item> when it meets \<^verbatim>\<open>d3\<close> first and the vote transaction fails, the answer is \<^verbatim>\<open>d3\<close>
    with \<^verbatim>\<open>vote_added = false\<close>, and nothing is written;
  \<^item> the approved preset \<^verbatim>\<open>d4\<close> with dyes \<open>[7, 8]\<close> is stored without a signature; the
    dyes \<open>[7, 8]\<close> find no duplicate and a fifth row is created.
\<close>

theorem duplicate_set_counterexample:
  "(sample_row ''p4'' [1, 1, 2] Approved 1 \<in> set (presets_table sample_db)
    \<and> status (sample_row ''p4'' [1, 1, 2] Approved 1) = Approved
    \<and> set (dyes (sample_row ''p4'' [1, 1, 2] Approved 1)) = set (dyes (sample_body [1, 2, 2]))
    \<and> validateSubmission (sample_body [1, 2, 2]) = None
    \<and> (case presetsRouter_post sample_words sample_env (sample_world api_down) sample_db
              sample_auth (Some (sample_body [1, 2, 2])) of
          (db', Created p st, calls) \<Rightarrow>
            map preset_id (presets_table db') = [''p1'', ''p2'', ''p3'', ''p4'', ''p9'']
            \<and> dyes p = [1, 2, 2]
        | _ \<Rightarrow> False))
   \<and> (sample_row ''d1'' [1, 2] Approved 3 \<in> set (presets_table twin_db)
      \<and> status (sample_row ''d1'' [1, 2] Approved 3) = Approved
      \<and> dyes (sample_row ''d1'' [1, 2] Approved 3) = dyes (sample_body [1, 2])
      \<and> validateSubmission (sample_body [1, 2]) = None
      \<and> presetsRouter_post sample_words sample_env ((sample_world api_down)\<lparr>first_row := 1\<rparr>)
            twin_db sample_auth (Some (sample_body [1, 2]))
          = (twin_db
               \<lparr>presets_table :=
                  [sample_row ''d1'' [1, 2] Approved 3,
                   sample_row ''d2'' [3, 4] Pending 5,
                   (sample_row ''d3'' [2, 1] Approved 1)
                     \<lparr>vote_count := 2, updated_at := 1762084800001\<rparr>,
                   (sample_row ''d4'' [7, 8] Approved 2)\<lparr>dye_signature := None\<rparr>],
                votes_table :=
                  votes_table twin_db
                  @ [\<lparr>vote_preset_id = ''d3'', user_discord_id = ''1002'',
                      vote_created_at = 1762084800001\<rparr>]\<rparr>,
             DuplicateFound (sample_row ''d3'' [2, 1] Approved 1) True, []))
   \<and> (vote_exists twin_db ''d1'' ''1002''
      \<and> presetsRouter_post sample_words sample_env (sample_world api_down)
            twin_db sample_auth (Some (sample_body [1, 2]))
          = (twin_db, DuplicateFound (sample_row ''d1'' [1, 2] Approved 3) False, []))
   \<and> (\<not> vote_exists twin_db ''d3'' ''1002''
      \<and> presetsRouter_post sample_words sample_env
            ((sample_world api_down)\<lparr>first_row := 1, batch_ok := False\<rparr>)
            twin_db sample_auth (Some (sample_body [1, 2]))
          = (twin_db, DuplicateFound (sample_row ''d3'' [2, 1] Approved 1) False, []))
   \<and> ((sample_row ''d4'' [7, 8] Approved 2)\<lparr>dye_signature := None\<rparr>
          \<in> set (presets_table twin_db)
      \<and> status ((sample_row ''d4'' [7, 8] Approved 2)\<lparr>dye_signature := None\<rparr>) = Approved
      \<and> dyes ((sample_row ''d4'' [7, 8] Approved 2)\<lparr>dye_signature := None\<rparr>)
          = dyes (sample_body [7, 8])
      \<and> validateSubmission (sample_body [7, 8]) = None
      \<and> presetsRouter_post sample_words sample_env (sample_world api_down)
            twin_db sample_auth (Some (sample_body [7, 8]))
          = (with_created_sample twin_db [7, 8] Approved,
             Created (created_sample [7, 8] Approved) Approved,
             [(''key'', ''Ocean Breeze Cool seaside colours'')]))"
proof -
  have a: "sample_row ''p4'' [1, 1, 2] Approved 1 \<in> set (presets_table sample_db)
    \<and> status (sample_row ''p4'' [1, 1, 2] Approved 1) = Approved
    \<and> set (dyes (sample_row ''p4'' [1, 1, 2] Approved 1)) = set (dyes (sample_body [1, 2, 2]))"
    by (auto simp: sample_db_def sample_row_def sample_body_def)
  have a': "validateSubmission (sample_body [1, 2, 2]) = None" by code_simp
  have a'': "(case presetsRouter_post sample_words sample_env (sample_world api_down) sample_db
              sample_auth (Some (sample_body [1, 2, 2])) of
          (db', Created p st, calls) \<Rightarrow>
            map preset_id (presets_table db') = [''p1'', ''p2'', ''p3'', ''p4'', ''p9'']
            \<and> dyes p = [1, 2, 2]
        | _ \<Rightarrow> False)"
    by code_simp
  have b: "sample_row ''d1'' [1, 2] Approved 3 \<in> set (presets_table twin_db)
      \<and> status (sample_row ''d1'' [1, 2] Approved 3) = Approved
      \<and> dyes (sample_row ''d1'' [1, 2] Approved 3) = dyes (sample_body [1, 2])"
    by (simp add: twin_db_def sample_row_def sample_body_def)
  have b': "validateSubmission (sample_body [1, 2]) = None" by code_simp
  have b'': "presetsRouter_post sample_words sample_env
            ((sample_world api_down)\<lparr>first_row := 1\<rparr>)
            twin_db sample_auth (Some (sample_body [1, 2]))
          = (twin_db
               \<lparr>presets_table :=
                  [sample_row ''d1'' [1, 2] Approved 3,
                   sample_row ''d2'' [3, 4] Pending 5,
                   (sample_row ''d3'' [2, 1] Approved 1)
                     \<lparr>vote_count := 2, updated_at := 1762084800001\<rparr>,
                   (sample_row ''d4'' [7, 8] Approved 2)\<lparr>dye_signature := None\<rparr>],
                votes_table :=
                  votes_table twin_db
                  @ [\<lparr>vote_preset_id = ''d3'', user_discord_id = ''1002'',
                      vote_created_at = 1762084800001\<rparr>]\<rparr>,
             DuplicateFound (sample_row ''d3'' [2, 1] Approved 1) True, [])"
    by code_simp
  have c: "vote_exists twin_db ''d1'' ''1002''" by code_simp
  have c': "presetsRouter_post sample_words sample_env (sample_world api_down)
            twin_db sample_auth (Some (sample_body [1, 2]))
          = (twin_db, DuplicateFound (sample_row ''d1'' [1, 2] Approved 3) False, [])"
    by code_simp
  have d: "\<not> vote_exists twin_db ''d3'' ''1002''" by code_simp
  have d': "presetsRouter_post sample_words sample_env
            ((sample_world api_down)\<lparr>first_row := 1, batch_ok := False\<rparr>)
            twin_db sample_auth (Some (sample_body [1, 2]))
          = (twin_db, DuplicateFound (sample_row ''d3'' [2, 1] Approved 1) False, [])"
    by code_simp
  have e: "(sample_row ''d4'' [7, 8] Approved 2)\<lparr>dye_signature := None\<rparr>
          \<in> set (presets_table twin_db)
      \<and> status ((sample_row ''d4'' [7, 8] Approved 2)\<lparr>dye_signature := None\<rparr>) = Approved
      \<and> dyes ((sample_row ''d4'' [7, 8] Approved 2)\<lparr>dye_signature := None\<rparr>)
          = dyes (sample_body [7, 8])"
    by (simp add: twin_db_def sample_row_def sample_body_def)
  have e': "validateSubmission (sample_body [7, 8]) = None" by code_simp
  have e'': "presetsRouter_post sample_words sample_env (sample_world api_down)
            twin_db sample_auth (Some (sample_body [7, 8]))
          = (with_created_sample twin_db [7, 8] Approved,
             Created (created_sample [7, 8] Approved) Approved,
             [(''key'', ''Ocean Breeze Cool seaside colours'')])"
    by code_simp
  from a a' a'' b b' b'' c c' d d' e e' e'' show ?thesis by blast
qed

text \<open>
  C7, as amended. For a submission that is authenticated, names its user and is valid,
  and whichever matching row the engine meets first:
  \<^item> if a stored preset \<open>r\<close> has the dyes of the submission, each as many times, in any
    order, carries the signature of its dyes and is approved or pending, then the
    answer is a duplicate \<open>d\<close>: a stored preset with the signature of the submitted dyes
    that is approved or pending, and \<open>r\<close> itself when no other stored preset is such.
    No row is added to the presets. \<^verbatim>\<open>vote_added\<close> is true exactly when the vote
    transaction succeeds and the submitter had no vote for \<open>d\<close>; in that case the vote
    of the submitter for \<open>d\<close> is inserted and the count of \<open>d\<close> grows by one, and
    otherwise nothing is written;
  \<^item> a preset that the lookup returns is never rejected, hidden or flagged, and when it
    carries the signature of its own dyes, it has the dyes of the submission, each as
    many times;
  \<^item> if every stored preset with the signature of the submitted dyes is rejected,
    hidden or flagged, the lookup finds nothing and the submission creates a new preset
    with the submitted dyes.
\<close>

theorem duplicate_submission_votes:
  assumes "isAuthenticated auth" and "userDiscordId auth = Some userId" and "userId \<noteq> []"
    and "validateSubmission body = None"
  shows "(\<forall>r \<in> set (presets_table db).
            mset (dyes r) = mset (dyes body)
            \<and> dye_signature r = Some (generateDyeSignature (dyes r))
            \<and> (status r = Approved \<or> status r = Pending)
            \<longrightarrow> (\<exists>d db' vote_added.
                   findDuplicatePreset (first_row world) db (dyes body) = Some d
                   \<and> d \<in> rowToPreset ` set (presets_table db)
                   \<and> dye_signature d = Some (generateDyeSignature (dyes body))
                   \<and> (status d = Approved \<or> status d = Pending)
                   \<and> ((\<forall>r' \<in> set (presets_table db).
                          dye_signature r' = Some (generateDyeSignature (dyes body))
                          \<and> (status r' = Approved \<or> status r' = Pending) \<longrightarrow> r' = r)
                        \<longrightarrow> d = rowToPreset r)
                   \<and> presetsRouter_post enProfanity env world db auth (Some body)
                       = (db', DuplicateFound d vote_added, [])
                   \<and> vote_added
                       = (batch_ok world \<and> \<not> vote_exists db (preset_id d) userId)
                   \<and> db' =
                       (if vote_added
                        then db\<lparr>votes_table :=
                                  votes_table db @
                                    [\<lparr>vote_preset_id = preset_id d, user_discord_id = userId,
                                      vote_created_at = voteTime world\<rparr>],
                                presets_table :=
                                  map (\<lambda>r. if preset_id r = preset_id d
                                            then r\<lparr>vote_count := vote_count r + 1,
                                                   updated_at := voteTime world\<rparr>
                                            else r)
                                      (presets_table db)\<rparr>
                        else db)
                   \<and> map preset_id (presets_table db') = map preset_id (presets_table db)))
       \<and> (\<forall>d. findDuplicatePreset (first_row world) db (dyes body) = Some d
              \<longrightarrow> status d \<noteq> Rejected \<and> status d \<noteq> Hidden \<and> status d \<noteq> Flagged
                  \<and> (dye_signature d = Some (generateDyeSignature (dyes d))
                       \<longrightarrow> mset (dyes d) = mset (dyes body)))
       \<and> ((\<forall>r \<in> set (presets_table db).
              dye_signature r = Some (generateDyeSignature (dyes body))
              \<longrightarrow> status r = Rejected \<or> status r = Hidden \<or> status r = Flagged)
            \<longrightarrow> findDuplicatePreset (first_row world) db (dyes body) = None
                \<and> (\<exists>db' p st calls.
                      presetsRouter_post enProfanity env world db auth (Some body)
                        = (db', Created p st, calls)
                      \<and> dyes p = dyes body
                      \<and> preset_id p = randomUUID world
                      \<and> map preset_id (presets_table db')
                          = map preset_id (presets_table db) @ [preset_id p]))"
proof (intro conjI ballI allI impI)
  fix r
  assume r: "r \<in> set (presets_table db)"
    and h: "mset (dyes r) = mset (dyes body)
            \<and> dye_signature r = Some (generateDyeSignature (dyes r))
            \<and> (status r = Approved \<or> status r = Pending)"
  from h have "generateDyeSignature (dyes r) = generateDyeSignature (dyes body)"
    by (intro generateDyeSignature_cong_mset) simp
  with h have sig: "dye_signature r = Some (generateDyeSignature (dyes body))"
    and str: "status r = Approved \<or> status r = Pending" by simp_all
  from findDuplicatePreset_exists [OF r sig str]
  obtain d where d: "findDuplicatePreset (first_row world) db (dyes body) = Some d" by blast
  from findDuplicatePreset_Some [OF d] obtain r' where r': "r' \<in> set (presets_table db)"
    and dr: "d = rowToPreset r'"
    and st: "status r' = Approved \<or> status r' = Pending" by blast
  from dr st have std: "status d = Approved \<or> status d = Pending"
    by (simp add: rowToPreset_def)
  from r' dr have dm: "d \<in> rowToPreset ` set (presets_table db)" by blast
  from findDuplicatePreset_signature [OF d]
  have ds: "dye_signature d = Some (generateDyeSignature (dyes body))" .
  have only: "(\<forall>r' \<in> set (presets_table db).
                 dye_signature r' = Some (generateDyeSignature (dyes body))
                 \<and> (status r' = Approved \<or> status r' = Pending) \<longrightarrow> r' = r)
              \<longrightarrow> d = rowToPreset r"
  proof
    assume "\<forall>r' \<in> set (presets_table db).
                 dye_signature r' = Some (generateDyeSignature (dyes body))
                 \<and> (status r' = Approved \<or> status r' = Pending) \<longrightarrow> r' = r"
    from findDuplicatePreset_only [OF r sig str this, of "first_row world"] d
    show "d = rowToPreset r" by simp
  qed
  let ?added = "batch_ok world \<and> \<not> vote_exists db (preset_id d) userId"
  let ?db' = "if ?added
              then db\<lparr>votes_table :=
                        votes_table db @
                          [\<lparr>vote_preset_id = preset_id d, user_discord_id = userId,
                            vote_created_at = voteTime world\<rparr>],
                      presets_table :=
                        map (\<lambda>r. if preset_id r = preset_id d
                                  then r\<lparr>vote_count := vote_count r + 1,
                                         updated_at := voteTime world\<rparr>
                                  else r)
                            (presets_table db)\<rparr>
              else db"
  have fv: "fst (addVote db (preset_id d) userId (voteTime world) (batch_ok world)) = ?db'"
    by (subst addVote_effect) simp
  have post: "presetsRouter_post enProfanity env world db auth (Some body)
                = (?db', DuplicateFound d ?added, [])"
    by (simp only: post_valid [OF assms] d option.case fv)
  have ids: "map preset_id (presets_table ?db') = map preset_id (presets_table db)"
    by (simp add: comp_def)
  from d dm ds std only post ids
  show "\<exists>d db' vote_added.
                   findDuplicatePreset (first_row world) db (dyes body) = Some d
                   \<and> d \<in> rowToPreset ` set (presets_table db)
                   \<and> dye_signature d = Some (generateDyeSignature (dyes body))
                   \<and> (status d = Approved \<or> status d = Pending)
                   \<and> ((\<forall>r' \<in> set (presets_table db).
                          dye_signature r' = Some (generateDyeSignature (dyes body))
                          \<and> (status r' = Approved \<or> status r' = Pending) \<longrightarrow> r' = r)
                        \<longrightarrow> d = rowToPreset r)
                   \<and> presetsRouter_post enProfanity env world db auth (Some body)
                       = (db', DuplicateFound d vote_added, [])
                   \<and> vote_added
                       = (batch_ok world \<and> \<not> vote_exists db (preset_id d) userId)
                   \<and> db' =
                       (if vote_added
                        then db\<lparr>votes_table :=
                                  votes_table db @
                                    [\<lparr>vote_preset_id = preset_id d, user_discord_id = userId,
                                      vote_created_at = voteTime world\<rparr>],
                                presets_table :=
                                  map (\<lambda>r. if preset_id r = preset_id d
                                            then r\<lparr>vote_count := vote_count r + 1,
                                                   updated_at := voteTime world\<rparr>
                                            else r)
                                      (presets_table db)\<rparr>
                        else db)
                   \<and> map preset_id (presets_table db') = map preset_id (presets_table db)"
    by (intro exI [of _ d] exI [of _ ?db'] exI [of _ ?added]) simp
next
  fix d
  assume d: "findDuplicatePreset (first_row world) db (dyes body) = Some d"
  from findDuplicatePreset_Some [OF d]
  have st: "status d = Approved \<or> status d = Pending" by (auto simp: rowToPreset_def)
  then show "status d \<noteq> Rejected" by auto
  from st show "status d \<noteq> Hidden" by auto
  from st show "status d \<noteq> Flagged" by auto
  assume "dye_signature d = Some (generateDyeSignature (dyes d))"
  with findDuplicatePreset_signature [OF d]
  have "generateDyeSignature (dyes d) = generateDyeSignature (dyes body)" by simp
  then show "mset (dyes d) = mset (dyes body)" by (simp add: generateDyeSignature_eq_iff)
next
  assume a: "\<forall>r \<in> set (presets_table db).
              dye_signature r = Some (generateDyeSignature (dyes body))
              \<longrightarrow> status r = Rejected \<or> status r = Hidden \<or> status r = Flagged"
  from findDuplicatePreset_None [OF a]
  show n: "findDuplicatePreset (first_row world) db (dyes body) = None" .
  from post_created_ids [OF assms n]
  show "\<exists>db' p st calls.
                      presetsRouter_post enProfanity env world db auth (Some body)
                        = (db', Created p st, calls)
                      \<and> dyes p = dyes body
                      \<and> preset_id p = randomUUID world
                      \<and> map preset_id (presets_table db')
                          = map preset_id (presets_table db) @ [preset_id p]" .
qed

text \<open>
  On the sample database. The dyes \<open>[2, 1]\<close> submitted by the user 1002 match the
  approved preset \<^verbatim>\<open>p1\<close> with dyes \<open>[1, 2]\<close> and no other: the answer is \<^verbatim>\<open>p1\<close>, its
  count goes from 3 to 4 and the vote of the user is stored. The dyes \<open>[6, 5]\<close> are those
  of the rejected preset \<^verbatim>\<open>p3\<close> only: the submission creates a preset.
\<close>

theorem duplicate_submission_votes_witness:
  "isAuthenticated sample_auth \<and> userDiscordId sample_auth = Some ''1002''
   \<and> validateSubmission (sample_body [2, 1]) = None
   \<and> sample_row ''p1'' [1, 2] Approved 3 \<in> set (presets_table sample_db)
   \<and> mset (dyes (sample_row ''p1'' [1, 2] Approved 3)) = mset (dyes (sample_body [2, 1]))
   \<and> filter (\<lambda>r. dye_signature r = Some (generateDyeSignature (dyes (sample_body [2, 1])))
                  \<and> (status r = Approved \<or> status r = Pending))
        (presets_table sample_db) = [sample_row ''p1'' [1, 2] Approved 3]
   \<and> presetsRouter_post sample_words sample_env (sample_world api_down) sample_db
        sample_auth (Some (sample_body [2, 1]))
       = (\<lparr>presets_table =
             [(sample_row ''p1'' [1, 2] Approved 3)
                \<lparr>vote_count := 4, updated_at := 1762084800001\<rparr>,
              sample_row ''p2'' [3, 4] Pending 5,
              sample_row ''p3'' [5, 6] Rejected 0,
              sample_row ''p4'' [1, 1, 2] Approved 1],
           votes_table =
             votes_table sample_db
             @ [\<lparr>vote_preset_id = ''p1'', user_discord_id = ''1002'',
                 vote_created_at = 1762084800001\<rparr>]\<rparr>,
          DuplicateFound (sample_row ''p1'' [1, 2] Approved 3) True, [])
   \<and> validateSubmission (sample_body [6, 5]) = None
   \<and> filter (\<lambda>r. dye_signature r = Some (generateDyeSignature (dyes (sample_body [6, 5]))))
        (presets_table sample_db) = [sample_row ''p3'' [5, 6] Rejected 0]
   \<and> findDuplicatePreset (first_row (sample_world api_down)) sample_db
        (dyes (sample_body [6, 5])) = None
   \<and> presetsRouter_post sample_words sample_env (sample_world api_down) sample_db
        sample_auth (Some (sample_body [6, 5]))
       = (with_created_sample sample_db [6, 5] Approved,
          Created (created_sample [6, 5] Approved) Approved,
          [(''key'', ''Ocean Breeze Cool seaside colours'')])"
proof -
  let ?p1 = "sample_row ''p1'' [1, 2] Approved 3"
  let ?w = "sample_world api_down"
  have a1: "isAuthenticated sample_auth" and a2: "userDiscordId sample_auth = Some ''1002''"
    by (simp_all add: sample_auth_def)
  have ne: "''1002'' \<noteq> []" by simp
  have v1: "validateSubmission (sample_body [2, 1]) = None" by code_simp
  have v2: "validateSubmission (sample_body [6, 5]) = None" by code_simp
  have r: "?p1 \<in> set (presets_table sample_db)" by (simp add: sample_db_def)
  have ms: "mset (dyes ?p1) = mset (dyes (sample_body [2, 1]))"
    by (simp add: sample_row_def sample_body_def)
  have sg: "dye_signature ?p1 = Some (generateDyeSignature (dyes ?p1))"
    by (simp add: sample_row_def)
  have st: "status ?p1 = Approved" by (simp add: sample_row_def)
  have F: "filter (\<lambda>r. dye_signature r = Some (generateDyeSignature (dyes (sample_body [2, 1])))
                       \<and> (status r = Approved \<or> status r = Pending))
             (presets_table sample_db) = [?p1]"
    by code_simp
  have uniq: "\<forall>r' \<in> set (presets_table sample_db).
                dye_signature r' = Some (generateDyeSignature (dyes (sample_body [2, 1])))
                \<and> (status r' = Approved \<or> status r' = Pending) \<longrightarrow> r' = ?p1"
  proof (intro ballI impI)
    fix r'
    assume "r' \<in> set (presets_table sample_db)"
      and "dye_signature r' = Some (generateDyeSignature (dyes (sample_body [2, 1])))
           \<and> (status r' = Approved \<or> status r' = Pending)"
    then have "r' \<in> set (filter (\<lambda>r. dye_signature r
                                      = Some (generateDyeSignature (dyes (sample_body [2, 1])))
                                    \<and> (status r = Approved \<or> status r = Pending))
                           (presets_table sample_db))"
      by simp
    then show "r' = ?p1" unfolding F by simp
  qed
  have hyp: "mset (dyes ?p1) = mset (dyes (sample_body [2, 1]))
             \<and> dye_signature ?p1 = Some (generateDyeSignature (dyes ?p1))
             \<and> (status ?p1 = Approved \<or> status ?p1 = Pending)"
    using ms sg st by simp
  note t1 = duplicate_submission_votes [OF a1 a2 ne v1, of sample_db ?w sample_words sample_env]
  from t1 [THEN conjunct1, rule_format, OF r hyp]
  obtain d db' vote_added where
    only: "(\<forall>r' \<in> set (presets_table sample_db).
               dye_signature r' = Some (generateDyeSignature (dyes (sample_body [2, 1])))
               \<and> (status r' = Approved \<or> status r' = Pending) \<longrightarrow> r' = ?p1)
           \<longrightarrow> d = rowToPreset ?p1"
    and post: "presetsRouter_post sample_words sample_env ?w sample_db sample_auth
                 (Some (sample_body [2, 1])) = (db', DuplicateFound d vote_added, [])"
    and va: "vote_added = (batch_ok ?w \<and> \<not> vote_exists sample_db (preset_id d) ''1002'')"
    and db': "db' =
                (if vote_added
                 then sample_db\<lparr>votes_table :=
                           votes_table sample_db @
                             [\<lparr>vote_preset_id = preset_id d, user_discord_id = ''1002'',
                               vote_created_at = voteTime ?w\<rparr>],
                         presets_table :=
                           map (\<lambda>r. if preset_id r = preset_id d
                                     then r\<lparr>vote_count := vote_count r + 1,
                                            updated_at := voteTime ?w\<rparr>
                                     else r)
                               (presets_table sample_db)\<rparr>
                 else sample_db)"
    by blast
  have rp: "rowToPreset ?p1 = ?p1" by code_simp
  from only uniq rp have d: "d = ?p1" by simp
  have nv: "batch_ok ?w \<and> \<not> vote_exists sample_db (preset_id ?p1) ''1002''" by code_simp
  with va d have added: "vote_added" by simp
  have ev: "sample_db\<lparr>votes_table :=
                           votes_table sample_db @
                             [\<lparr>vote_preset_id = preset_id ?p1, user_discord_id = ''1002'',
                               vote_created_at = voteTime ?w\<rparr>],
                         presets_table :=
                           map (\<lambda>r. if preset_id r = preset_id ?p1
                                     then r\<lparr>vote_count := vote_count r + 1,
                                            updated_at := voteTime ?w\<rparr>
                                     else r)
                               (presets_table sample_db)\<rparr>
            = \<lparr>presets_table =
                 [?p1\<lparr>vote_count := 4, updated_at := 1762084800001\<rparr>,
                  sample_row ''p2'' [3, 4] Pending 5,
                  sample_row ''p3'' [5, 6] Rejected 0,
                  sample_row ''p4'' [1, 1, 2] Approved 1],
               votes_table =
                 votes_table sample_db
                 @ [\<lparr>vote_preset_id = ''p1'', user_discord_id = ''1002'',
                     vote_created_at = 1762084800001\<rparr>]\<rparr>"
    by code_simp
  from db' added have "db' = sample_db\<lparr>votes_table :=
                           votes_table sample_db @
                             [\<lparr>vote_preset_id = preset_id ?p1, user_discord_id = ''1002'',
                               vote_created_at = voteTime ?w\<rparr>],
                         presets_table :=
                           map (\<lambda>r. if preset_id r = preset_id ?p1
                                     then r\<lparr>vote_count := vote_count r + 1,
                                            updated_at := voteTime ?w\<rparr>
                                     else r)
                               (presets_table sample_db)\<rparr>"
    unfolding d by simp
  with ev post added d
  have p1: "presetsRouter_post sample_words sample_env ?w sample_db sample_auth
              (Some (sample_body [2, 1]))
            = (\<lparr>presets_table =
                  [?p1\<lparr>vote_count := 4, updated_at := 1762084800001\<rparr>,
                   sample_row ''p2'' [3, 4] Pending 5,
                   sample_row ''p3'' [5, 6] Rejected 0,
                   sample_row ''p4'' [1, 1, 2] Approved 1],
                votes_table =
                  votes_table sample_db
                  @ [\<lparr>vote_preset_id = ''p1'', user_discord_id = ''1002'',
                      vote_created_at = 1762084800001\<rparr>]\<rparr>,
               DuplicateFound ?p1 True, [])"
    by simp
  have G: "filter (\<lambda>r. dye_signature r = Some (generateDyeSignature (dyes (sample_body [6, 5]))))
             (presets_table sample_db) = [sample_row ''p3'' [5, 6] Rejected 0]"
    by code_simp
  have rej: "\<forall>r \<in> set (presets_table sample_db).
               dye_signature r = Some (generateDyeSignature (dyes (sample_body [6, 5])))
               \<longrightarrow> status r = Rejected \<or> status r = Hidden \<or> status r = Flagged"
  proof (intro ballI impI)
    fix r
    assume "r \<in> set (presets_table sample_db)"
      and "dye_signature r = Some (generateDyeSignature (dyes (sample_body [6, 5])))"
    then have "r \<in> set (filter (\<lambda>r. dye_signature r
                                      = Some (generateDyeSignature (dyes (sample_body [6, 5]))))
                           (presets_table sample_db))"
      by simp
    then have "r = sample_row ''p3'' [5, 6] Rejected 0" unfolding G by simp
    then show "status r = Rejected \<or> status r = Hidden \<or> status r = Flagged"
      by (simp add: sample_row_def)
  qed
  note t2 = duplicate_submission_votes [OF a1 a2 ne v2, of sample_db ?w sample_words sample_env]
  from t2 [THEN conjunct2, THEN conjunct2, THEN mp, OF rej]
  have n2: "findDuplicatePreset (first_row ?w) sample_db (dyes (sample_body [6, 5])) = None"
    by blast
  have p2: "presetsRouter_post sample_words sample_env ?w sample_db sample_auth
              (Some (sample_body [6, 5]))
            = (with_created_sample sample_db [6, 5] Approved,
               Created (created_sample [6, 5] Approved) Approved,
               [(''key'', ''Ocean Breeze Cool seaside colours'')])"
    by code_simp
  from a1 a2 v1 r ms F p1 v2 G n2 p2 show ?thesis by blast
qed

subsection \<open>Rate limit\<close>

text \<open>
  What \<^verbatim>\<open>checkSubmissionRateLimit\<close> answers, for \<open>n\<close> presets of the user created
  within the UTC day of \<open>now\<close>: with ten or more the user is denied and nothing remains,
  with nine the user is allowed and one remains, and \<^verbatim>\<open>resetAt\<close> is the next midnight
  UTC, after \<open>now\<close> by at most a day.
\<close>

lemma checkSubmissionRateLimit_answer:
  fixes db :: Database and userId :: string and now :: int
  defines "n \<equiv> length (filter (\<lambda>r. author_discord_id r = Some userId
                                      \<and> getStartOfDayUTC now \<le> created_at r
                                      \<and> created_at r < getStartOfDayUTC now + 24 * 60 * 60 * 1000)
                            (presets_table db))"
    and "res \<equiv> checkSubmissionRateLimit db userId now"
  shows "(10 \<le> n \<longrightarrow> \<not> allowed res \<and> remaining res = 0)
         \<and> (n = 9 \<longrightarrow> allowed res \<and> remaining res = 1)
         \<and> (n < 10 \<longrightarrow> allowed res \<and> remaining res = 10 - int n)
         \<and> resetAt res = getStartOfDayUTC now + 24 * 60 * 60 * 1000
         \<and> now < resetAt res \<and> resetAt res \<le> now + 24 * 60 * 60 * 1000
         \<and> resetAt res mod (24 * 60 * 60 * 1000) = 0"
proof -
  have r: "res = \<lparr>allowed = (int n < 10), remaining = max 0 (10 - int n),
                   resetAt = getStartOfDayUTC now + 24 * 60 * 60 * 1000\<rparr>"
    unfolding res_def n_def
    by (simp add: checkSubmissionRateLimit_def Let_def DAILY_SUBMISSION_LIMIT_def)
  have m: "0 \<le> now mod 86400000" "now mod 86400000 < 86400000" by simp_all
  have d: "(now - now mod 86400000 + 86400000) mod 86400000 = 0"
    by (simp add: mod_simps)
  from m d show ?thesis
    by (simp add: r getStartOfDayUTC_def)
qed

text \<open>
  C1. The claim says that every submission consults the daily rate limiter before a
  preset is created, and that the submission of a user with ten presets of the current
  UTC day is rejected. \<^verbatim>\<open>checkSubmissionRateLimit\<close> answers as the claim says, and
  the handler of \<^verbatim>\<open>POST /api/v1/presets\<close> does not call it. In the database \<open>busy_db\<close> the
  user 1002 has ten presets created on 2025-11-02; at noon of that day the limiter
  answers \<^verbatim>\<open>allowed = false\<close>, \<^verbatim>\<open>remaining = 0\<close> and the next midnight, and the
  submission of the same user at that time is answered 201 with an eleventh preset.
\<close>

theorem submission_not_rate_limited:
  "checkSubmissionRateLimit busy_db ''1002'' 1762084800000
     = \<lparr>allowed = False, remaining = 0, resetAt = 1762128000000\<rparr>
   \<and> length (presets_table busy_db) = 10
   \<and> userDiscordId sample_auth = Some ''1002''
   \<and> createTime (sample_world api_down) = 1762084800000
   \<and> (case presetsRouter_post sample_words sample_env (sample_world api_down) busy_db
             sample_auth (Some (sample_body [7, 8])) of
         (db', Created p st, calls) \<Rightarrow>
           length (presets_table db') = 11
           \<and> author_discord_id p = Some ''1002''
           \<and> created_at p = 1762084800000
           \<and> st = Approved
       | _ \<Rightarrow> False)"
proof -
  have a: "checkSubmissionRateLimit busy_db ''1002'' 1762084800000
             = \<lparr>allowed = False, remaining = 0, resetAt = 1762128000000\<rparr>"
    by code_simp
  have b: "length (presets_table busy_db) = 10" by (simp add: busy_db_def)
  have c: "userDiscordId sample_auth = Some ''1002''" by (simp add: sample_auth_def)
  have d: "createTime (sample_world api_down) = 1762084800000" by (simp add: sample_world_def)
  have e: "(case presetsRouter_post sample_words sample_env (sample_world api_down) busy_db
             sample_auth (Some (sample_body [7, 8])) of
         (db', Created p st, calls) \<Rightarrow>
           length (presets_table db') = 11
           \<and> author_discord_id p = Some ''1002''
           \<and> created_at p = 1762084800000
           \<and> st = Approved
       | _ \<Rightarrow> False)"
    by code_simp
  from a b c d e show ?thesis by blast
qed

end
